theory Spec2Isabelle
  imports Main "HOL-Library.Word"
begin

unbundle bit_operations_syntax

section \<open>Data model of \<^verbatim>\<open>crypto/params.c\<close>\<close>

text \<open>
  The embedding follows the default build of \<^verbatim>\<open>crypto/params.c\<close>: neither
  \<^verbatim>\<open>OPENSSL_SMALL_FOOTPRINT\<close> nor \<^verbatim>\<open>OPENSSL_SYS_UEFI\<close> is defined, \<^verbatim>\<open>sizeof(double)\<close>
  is 8, \<^verbatim>\<open>size_t\<close> and pointers have 64 bits. Sizes are natural numbers; none of the size
  computations of the modelled functions can wrap for a buffer that fits in memory.
  A byte buffer is a list of bytes, a pointer into it is the suffix it points at,
  and \<^verbatim>\<open>NULL\<close> is \<open>None\<close>.
\<close>

type_synonym byte = "8 word"

text \<open>The reasons handed to \<^verbatim>\<open>ERR_raise(ERR_LIB_CRYPTO, ...)\<close> by the file.\<close>

datatype error =
    ERR_R_PASSED_NULL_PARAMETER
  | CRYPTO_R_PARAM_UNSIGNED_INTEGER_NEGATIVE_VALUE_UNSUPPORTED
  | CRYPTO_R_PARAM_VALUE_TOO_LARGE_FOR_DESTINATION
  | CRYPTO_R_PARAM_CANNOT_BE_REPRESENTED_EXACTLY
  | CRYPTO_R_PARAM_NOT_INTEGER_TYPE
  | CRYPTO_R_TOO_SMALL_BUFFER
  | CRYPTO_R_PARAM_OF_INCOMPATIBLE_TYPE
  | CRYPTO_R_PARAM_UNSUPPORTED_FLOATING_POINT_FORMAT
  | CRYPTO_R_NO_SPACE_FOR_TERMINATING_NULL
  | CRYPTO_R_INTEGER_OVERFLOW

text \<open>
  A call either has undefined behaviour in C (an access through \<^verbatim>\<open>NULL\<close> or outside
  the buffer it was given), or it returns: the returned \<^verbatim>\<open>int\<close>, the errors it raised
  in order, and the memory it may have written.
\<close>

datatype 'a exec = Defined 'a | Undefined

type_synonym 's call = "(int \<times> error list \<times> 's) exec"

datatype param_type =
    OSSL_PARAM_INTEGER
  | OSSL_PARAM_UNSIGNED_INTEGER
  | OSSL_PARAM_REAL
  | OSSL_PARAM_UTF8_STRING
  | OSSL_PARAM_OCTET_STRING
  | OSSL_PARAM_UTF8_PTR
  | OSSL_PARAM_OCTET_PTR

record OSSL_PARAM =
  key :: "string option"
  data_type :: param_type
  data :: "byte list option"
  data_size :: nat
  return_size :: nat

definition SIZE_MAX :: nat where
  "SIZE_MAX = 2 ^ 64 - 1"

text \<open>\<^verbatim>\<open>#define OSSL_PARAM_UNMODIFIED ((size_t)-1)\<close>\<close>

definition OSSL_PARAM_UNMODIFIED :: nat where
  "OSSL_PARAM_UNMODIFIED = SIZE_MAX"

section \<open>Lookup and the modified flag\<close>

text \<open>
  \<^verbatim>\<open>strcmp\<close> on the characters before the terminating NUL of each argument; bytes
  compare as \<^verbatim>\<open>unsigned char\<close>.
\<close>

fun strcmp :: "string \<Rightarrow> string \<Rightarrow> int" where
  "strcmp [] [] = 0"
| "strcmp [] (y # ys) = - of_char y"
| "strcmp (x # xs) [] = of_char x"
| "strcmp (x # xs) (y # ys) = (if x = y then strcmp xs ys else of_char x - of_char y)"

text \<open>
  The loop of \<^verbatim>\<open>OSSL_PARAM_locate\<close>; \<open>i\<close> is the index the pointer \<^verbatim>\<open>p\<close> has reached.
  An array without the terminating entry is read past its end.
\<close>

fun locate_loop :: "OSSL_PARAM list \<Rightarrow> string \<Rightarrow> nat \<Rightarrow> nat option exec" where
  "locate_loop [] k i = Undefined"
| "locate_loop (p # ps) k i =
     (case key p of
        None \<Rightarrow> Defined None
      | Some pk \<Rightarrow> if strcmp k pk = 0 then Defined (Some i) else locate_loop ps k (Suc i))"

definition OSSL_PARAM_locate :: "OSSL_PARAM list option \<Rightarrow> string option \<Rightarrow> nat option exec" where
  "OSSL_PARAM_locate p k =
     (case p of
        None \<Rightarrow> Defined None
      | Some ps \<Rightarrow> (case k of None \<Rightarrow> Defined None | Some s \<Rightarrow> locate_loop ps s 0))"

definition OSSL_PARAM_modified :: "OSSL_PARAM option \<Rightarrow> bool" where
  "OSSL_PARAM_modified p =
     (case p of None \<Rightarrow> False | Some q \<Rightarrow> return_size q \<noteq> OSSL_PARAM_UNMODIFIED)"

fun set_all_unmodified_loop :: "OSSL_PARAM list \<Rightarrow> OSSL_PARAM list exec" where
  "set_all_unmodified_loop [] = Undefined"
| "set_all_unmodified_loop (p # ps) =
     (case key p of
        None \<Rightarrow> Defined (p # ps)
      | Some pk \<Rightarrow>
          (case set_all_unmodified_loop ps of
             Undefined \<Rightarrow> Undefined
           | Defined qs \<Rightarrow> Defined (p\<lparr>return_size := OSSL_PARAM_UNMODIFIED\<rparr> # qs)))"

definition OSSL_PARAM_set_all_unmodified :: "OSSL_PARAM list option \<Rightarrow> OSSL_PARAM list option exec" where
  "OSSL_PARAM_set_all_unmodified p =
     (case p of
        None \<Rightarrow> Defined None
      | Some ps \<Rightarrow>
          (case set_all_unmodified_loop ps of
             Undefined \<Rightarrow> Undefined
           | Defined qs \<Rightarrow> Defined (Some qs)))"

section \<open>Memory\<close>

text \<open>
  \<^verbatim>\<open>memset(buf + off, c, n)\<close>, \<^verbatim>\<open>memcpy(buf + off, src, n)\<close>, \<^verbatim>\<open>buf[i]\<close> and
  \<^verbatim>\<open>buf[i] = c\<close>. Each is \<open>None\<close> when it reaches outside a buffer.
\<close>

definition memset_at :: "byte list \<Rightarrow> nat \<Rightarrow> byte \<Rightarrow> nat \<Rightarrow> byte list option" where
  "memset_at buf off c n =
     (if off + n \<le> length buf
      then Some (take off buf @ replicate n c @ drop (off + n) buf) else None)"

definition memcpy_at :: "byte list \<Rightarrow> nat \<Rightarrow> byte list \<Rightarrow> nat \<Rightarrow> byte list option" where
  "memcpy_at buf off src n =
     (if off + n \<le> length buf \<and> n \<le> length src
      then Some (take off buf @ take n src @ drop (off + n) buf) else None)"

definition read_at :: "byte list \<Rightarrow> nat \<Rightarrow> byte option" where
  "read_at buf i = (if i < length buf then Some (buf ! i) else None)"

definition write_at :: "byte list \<Rightarrow> nat \<Rightarrow> byte \<Rightarrow> byte list option" where
  "write_at buf i c = (if i < length buf then Some (buf[i := c]) else None)"

text \<open>
  The bytes of an integer object in native byte order, least significant byte first
  on a little-endian machine, and the value such bytes hold.
\<close>

fun le_bytes :: "nat \<Rightarrow> nat \<Rightarrow> byte list" where
  "le_bytes 0 x = []"
| "le_bytes (Suc n) x = of_nat (x mod 256) # le_bytes n (x div 256)"

fun le_val :: "byte list \<Rightarrow> nat" where
  "le_val [] = 0"
| "le_val (b # bs) = unat b + 256 * le_val bs"

definition native_bytes :: "bool \<Rightarrow> nat \<Rightarrow> nat \<Rightarrow> byte list" where
  "native_bytes be n x = (if be then rev (le_bytes n x) else le_bytes n x)"

definition native_val :: "bool \<Rightarrow> byte list \<Rightarrow> nat" where
  "native_val be bs = le_val (if be then rev bs else bs)"

text \<open>\<^verbatim>\<open>*(T *)buf = w\<close> and \<^verbatim>\<open>*(const T *)buf\<close> for an integer type \<^verbatim>\<open>T\<close> of the word's width.\<close>

definition store_word :: "bool \<Rightarrow> byte list \<Rightarrow> 'a::len word \<Rightarrow> byte list option" where
  "store_word be buf w =
     memcpy_at buf 0 (native_bytes be (LENGTH('a) div 8) (unat w)) (LENGTH('a) div 8)"

definition load_word :: "bool \<Rightarrow> byte list \<Rightarrow> 'a::len word option" where
  "load_word be buf =
     (if LENGTH('a) div 8 \<le> length buf
      then Some (of_nat (native_val be (take (LENGTH('a) div 8) buf))) else None)"

section \<open>Results of calls\<close>

abbreviation ret1 :: "'s \<Rightarrow> 's call" where
  "ret1 s \<equiv> Defined (1, [], s)"

abbreviation raise0 :: "error \<Rightarrow> 's \<Rightarrow> 's call" where
  "raise0 e s \<equiv> Defined (0, [e], s)"

abbreviation err_unsigned_negative :: "'s \<Rightarrow> 's call" where
  "err_unsigned_negative \<equiv> raise0 CRYPTO_R_PARAM_UNSIGNED_INTEGER_NEGATIVE_VALUE_UNSUPPORTED"

abbreviation err_out_of_range :: "'s \<Rightarrow> 's call" where
  "err_out_of_range \<equiv> raise0 CRYPTO_R_PARAM_VALUE_TOO_LARGE_FOR_DESTINATION"

abbreviation err_inexact :: "'s \<Rightarrow> 's call" where
  "err_inexact \<equiv> raise0 CRYPTO_R_PARAM_CANNOT_BE_REPRESENTED_EXACTLY"

abbreviation err_not_integer :: "'s \<Rightarrow> 's call" where
  "err_not_integer \<equiv> raise0 CRYPTO_R_PARAM_NOT_INTEGER_TYPE"

abbreviation err_too_small :: "'s \<Rightarrow> 's call" where
  "err_too_small \<equiv> raise0 CRYPTO_R_TOO_SMALL_BUFFER"

abbreviation err_bad_type :: "'s \<Rightarrow> 's call" where
  "err_bad_type \<equiv> raise0 CRYPTO_R_PARAM_OF_INCOMPATIBLE_TYPE"

abbreviation err_null_argument :: "'s \<Rightarrow> 's call" where
  "err_null_argument \<equiv> raise0 ERR_R_PASSED_NULL_PARAMETER"

abbreviation err_unsupported_real :: "'s \<Rightarrow> 's call" where
  "err_unsupported_real \<equiv> raise0 CRYPTO_R_PARAM_UNSUPPORTED_FLOATING_POINT_FORMAT"

text \<open>The same call seen on a larger state.\<close>

definition map_state :: "('s \<Rightarrow> 't) \<Rightarrow> 's call \<Rightarrow> 't call" where
  "map_state f c =
     (case c of Undefined \<Rightarrow> Undefined | Defined (r, es, s) \<Rightarrow> Defined (r, es, f s))"

section \<open>Integer conversion engine\<close>

definition sizeof_double :: nat where
  "sizeof_double = 8"

definition real_shift :: nat where
  "real_shift = (if sizeof_double = 4 then 24 else 53)"

text \<open>
  \<^verbatim>\<open>is_negative\<close>: \<^verbatim>\<open>0x80 & (IS_BIG_ENDIAN ? n[0] : n[s - 1])\<close>. With \<^verbatim>\<open>s = 0\<close> the index
  \<^verbatim>\<open>s - 1\<close> wraps to \<^verbatim>\<open>SIZE_MAX\<close>, outside every buffer.
\<close>

definition is_negative :: "bool \<Rightarrow> byte list \<Rightarrow> nat \<Rightarrow> bool option" where
  "is_negative be number s =
     (case (if be then read_at number 0
            else if s = 0 then None else read_at number (s - 1)) of
        None \<Rightarrow> None
      | Some b \<Rightarrow> Some (0x80 AND b \<noteq> 0))"

text \<open>\<^verbatim>\<open>check_sign_bytes\<close> leaves its loop at the first byte that differs.\<close>

fun check_sign_bytes :: "byte list \<Rightarrow> nat \<Rightarrow> byte \<Rightarrow> bool option" where
  "check_sign_bytes p 0 s = Some True"
| "check_sign_bytes [] (Suc n) s = None"
| "check_sign_bytes (x # xs) (Suc n) s =
     (if x \<noteq> s then Some False else check_sign_bytes xs n s)"

text \<open>
  The second operand of the \<^verbatim>\<open>||\<close> in \<^verbatim>\<open>copy_integer\<close>:
  \<^verbatim>\<open>signed_int && ((pad ^ src[i]) & 0x80) != 0\<close>; \<open>i = None\<close> is the wrapped index
  \<^verbatim>\<open>dest_len - 1\<close> for \<^verbatim>\<open>dest_len = 0\<close>.
\<close>

definition sign_lost :: "bool \<Rightarrow> byte \<Rightarrow> byte list \<Rightarrow> nat option \<Rightarrow> bool option" where
  "sign_lost signed_int pad src i =
     (if \<not> signed_int then Some False
      else (case i of
              None \<Rightarrow> None
            | Some j \<Rightarrow>
                (case read_at src j of
                   None \<Rightarrow> None
                 | Some b \<Rightarrow> Some ((pad XOR b) AND 0x80 \<noteq> 0))))"

definition copy_integer ::
  "bool \<Rightarrow> byte list \<Rightarrow> nat \<Rightarrow> byte list \<Rightarrow> nat \<Rightarrow> byte \<Rightarrow> bool \<Rightarrow> byte list call" where
  "copy_integer be dest dest_len src src_len pad signed_int =
     (if be then
        (if src_len < dest_len then
           (let n = dest_len - src_len in
            case memset_at dest 0 pad n of
              None \<Rightarrow> Undefined
            | Some d1 \<Rightarrow>
                (case memcpy_at d1 n src src_len of
                   None \<Rightarrow> Undefined
                 | Some d2 \<Rightarrow> ret1 d2))
         else
           (let n = src_len - dest_len in
            case check_sign_bytes src n pad of
              None \<Rightarrow> Undefined
            | Some False \<Rightarrow> err_out_of_range dest
            | Some True \<Rightarrow>
                (case sign_lost signed_int pad src (Some n) of
                   None \<Rightarrow> Undefined
                 | Some True \<Rightarrow> err_out_of_range dest
                 | Some False \<Rightarrow>
                     (case memcpy_at dest 0 (drop n src) dest_len of
                        None \<Rightarrow> Undefined
                      | Some d \<Rightarrow> ret1 d))))
      else
        (if src_len < dest_len then
           (let n = dest_len - src_len in
            case memset_at dest src_len pad n of
              None \<Rightarrow> Undefined
            | Some d1 \<Rightarrow>
                (case memcpy_at d1 0 src src_len of
                   None \<Rightarrow> Undefined
                 | Some d2 \<Rightarrow> ret1 d2))
         else
           (let n = src_len - dest_len in
            case check_sign_bytes (drop dest_len src) n pad of
              None \<Rightarrow> Undefined
            | Some False \<Rightarrow> err_out_of_range dest
            | Some True \<Rightarrow>
                (case sign_lost signed_int pad src
                        (if dest_len = 0 then None else Some (dest_len - 1)) of
                   None \<Rightarrow> Undefined
                 | Some True \<Rightarrow> err_out_of_range dest
                 | Some False \<Rightarrow>
                     (case memcpy_at dest 0 src dest_len of
                        None \<Rightarrow> Undefined
                      | Some d \<Rightarrow> ret1 d)))))"

definition signed_from_signed ::
  "bool \<Rightarrow> byte list \<Rightarrow> nat \<Rightarrow> byte list \<Rightarrow> nat \<Rightarrow> byte list call" where
  "signed_from_signed be dest dest_len src src_len =
     (case is_negative be src src_len of
        None \<Rightarrow> Undefined
      | Some neg \<Rightarrow> copy_integer be dest dest_len src src_len (if neg then 0xff else 0) True)"

definition signed_from_unsigned ::
  "bool \<Rightarrow> byte list \<Rightarrow> nat \<Rightarrow> byte list \<Rightarrow> nat \<Rightarrow> byte list call" where
  "signed_from_unsigned be dest dest_len src src_len =
     copy_integer be dest dest_len src src_len 0 True"

definition unsigned_from_signed ::
  "bool \<Rightarrow> byte list \<Rightarrow> nat \<Rightarrow> byte list \<Rightarrow> nat \<Rightarrow> byte list call" where
  "unsigned_from_signed be dest dest_len src src_len =
     (case is_negative be src src_len of
        None \<Rightarrow> Undefined
      | Some neg \<Rightarrow>
          if neg then err_unsigned_negative dest
          else copy_integer be dest dest_len src src_len 0 False)"

definition unsigned_from_unsigned ::
  "bool \<Rightarrow> byte list \<Rightarrow> nat \<Rightarrow> byte list \<Rightarrow> nat \<Rightarrow> byte list call" where
  "unsigned_from_unsigned be dest dest_len src src_len =
     copy_integer be dest dest_len src src_len 0 False"

text \<open>
  The general accessors take \<^verbatim>\<open>val\<close> as the bytes of the caller's variable and
  \<^verbatim>\<open>val_size\<close> as its size.
\<close>

definition general_get_int :: "bool \<Rightarrow> OSSL_PARAM \<Rightarrow> byte list \<Rightarrow> nat \<Rightarrow> byte list call" where
  "general_get_int be p val val_size =
     (case data p of
        None \<Rightarrow> err_null_argument val
      | Some buf \<Rightarrow>
          if data_type p = OSSL_PARAM_INTEGER
          then signed_from_signed be val val_size buf (data_size p)
          else if data_type p = OSSL_PARAM_UNSIGNED_INTEGER
          then signed_from_unsigned be val val_size buf (data_size p)
          else err_not_integer val)"

definition general_set_int :: "bool \<Rightarrow> OSSL_PARAM \<Rightarrow> byte list \<Rightarrow> nat \<Rightarrow> OSSL_PARAM call" where
  "general_set_int be p val val_size =
     (case data p of
        None \<Rightarrow> ret1 (p\<lparr>return_size := val_size\<rparr>)
      | Some buf \<Rightarrow>
          (case (if data_type p = OSSL_PARAM_INTEGER
                 then signed_from_signed be buf (data_size p) val val_size
                 else if data_type p = OSSL_PARAM_UNSIGNED_INTEGER
                 then unsigned_from_signed be buf (data_size p) val val_size
                 else err_not_integer buf) of
             Undefined \<Rightarrow> Undefined
           | Defined (r, es, buf') \<Rightarrow>
               Defined (r, es, p\<lparr>data := Some buf',
                                  return_size := (if r \<noteq> 0 then data_size p else val_size)\<rparr>)))"

definition general_get_uint :: "bool \<Rightarrow> OSSL_PARAM \<Rightarrow> byte list \<Rightarrow> nat \<Rightarrow> byte list call" where
  "general_get_uint be p val val_size =
     (case data p of
        None \<Rightarrow> err_null_argument val
      | Some buf \<Rightarrow>
          if data_type p = OSSL_PARAM_INTEGER
          then unsigned_from_signed be val val_size buf (data_size p)
          else if data_type p = OSSL_PARAM_UNSIGNED_INTEGER
          then unsigned_from_unsigned be val val_size buf (data_size p)
          else err_not_integer val)"

definition general_set_uint :: "bool \<Rightarrow> OSSL_PARAM \<Rightarrow> byte list \<Rightarrow> nat \<Rightarrow> OSSL_PARAM call" where
  "general_set_uint be p val val_size =
     (case data p of
        None \<Rightarrow> ret1 (p\<lparr>return_size := val_size\<rparr>)
      | Some buf \<Rightarrow>
          (case (if data_type p = OSSL_PARAM_INTEGER
                 then signed_from_unsigned be buf (data_size p) val val_size
                 else if data_type p = OSSL_PARAM_UNSIGNED_INTEGER
                 then unsigned_from_unsigned be buf (data_size p) val val_size
                 else err_not_integer buf) of
             Undefined \<Rightarrow> Undefined
           | Defined (r, es, buf') \<Rightarrow>
               Defined (r, es, p\<lparr>data := Some buf',
                                  return_size := (if r \<noteq> 0 then data_size p else val_size)\<rparr>)))"

section \<open>Fixed-width accessors\<close>

text \<open>
  What the file takes from the platform: the byte order, and for the \<^verbatim>\<open>REAL\<close>
  branches the conversions between integers and the 64 bits of a \<^verbatim>\<open>double\<close>.
  \<open>double_of_int i\<close> is \<^verbatim>\<open>(double)i\<close>; \<open>int_of_double d\<close> is the integer that \<open>d\<close>
  denotes when it denotes one, and \<open>None\<close> for a fraction, an infinity or a NaN, so
  that \<^verbatim>\<open>d >= lo && d <= hi && d == (T)d\<close> holds exactly when \<open>int_of_double d\<close> is
  some integer between \<open>lo\<close> and \<open>hi\<close>. \<open>double_trunc d\<close> is \<open>d\<close> with its fraction
  discarded, the value that a conversion of \<open>d\<close> to an integer type takes when the type
  can represent it, and \<open>None\<close> for an infinity or a NaN.
\<close>

record platform =
  IS_BIG_ENDIAN :: bool
  double_of_int :: "int \<Rightarrow> 64 word"
  int_of_double :: "64 word \<Rightarrow> int option"
  double_trunc :: "64 word \<Rightarrow> int option"

definition INT32_MIN :: int where "INT32_MIN = - (2 ^ 31)"
definition INT32_MAX :: int where "INT32_MAX = 2 ^ 31 - 1"
definition UINT32_MAX :: int where "UINT32_MAX = 2 ^ 32 - 1"
definition INT64_MIN :: int where "INT64_MIN = - (2 ^ 63)"
definition INT64_MAX :: int where "INT64_MAX = 2 ^ 63 - 1"
definition UINT64_MAX :: int where "UINT64_MAX = 2 ^ 64 - 1"

text \<open>
  A general getter called on the caller's variable: the variable is handed over as
  its bytes and read back from them.
\<close>

definition on_bytes ::
  "bool \<Rightarrow> (byte list \<Rightarrow> nat \<Rightarrow> byte list call) \<Rightarrow> 'a::len word \<Rightarrow> 'a word call" where
  "on_bytes be f v =
     map_state (\<lambda>bs. of_nat (native_val be bs))
       (f (native_bytes be (LENGTH('a) div 8) (unat v)) (LENGTH('a) div 8))"

text \<open>
  The state of a getter is the descriptor (which it takes as \<^verbatim>\<open>const\<close>) and the
  caller's variable \<^verbatim>\<open>*val\<close>; \<open>val = None\<close> is \<^verbatim>\<open>val == NULL\<close>.
\<close>

definition OSSL_PARAM_get_int32 ::
  "platform \<Rightarrow> OSSL_PARAM option \<Rightarrow> 32 word option
   \<Rightarrow> (OSSL_PARAM option \<times> 32 word option) call" where
  "OSSL_PARAM_get_int32 pl p val =
     (case val of
        None \<Rightarrow> err_null_argument (p, val)
      | Some v \<Rightarrow>
     (case p of
        None \<Rightarrow> err_null_argument (p, val)
      | Some q \<Rightarrow>
     (case data q of
        None \<Rightarrow> err_null_argument (p, val)
      | Some buf \<Rightarrow>
          if data_type q = OSSL_PARAM_INTEGER then
            (if data_size q = 4 then
               (case load_word (IS_BIG_ENDIAN pl) buf :: 32 word option of
                  None \<Rightarrow> Undefined
                | Some i32 \<Rightarrow> ret1 (p, Some i32))
             else if data_size q = 8 then
               (case load_word (IS_BIG_ENDIAN pl) buf :: 64 word option of
                  None \<Rightarrow> Undefined
                | Some i64 \<Rightarrow>
                    if sint i64 \<ge> INT32_MIN \<and> sint i64 \<le> INT32_MAX
                    then ret1 (p, Some (ucast i64))
                    else err_out_of_range (p, val))
             else map_state (\<lambda>w. (p, Some w))
                    (on_bytes (IS_BIG_ENDIAN pl) (general_get_int (IS_BIG_ENDIAN pl) q) v))
          else if data_type q = OSSL_PARAM_UNSIGNED_INTEGER then
            (if data_size q = 4 then
               (case load_word (IS_BIG_ENDIAN pl) buf :: 32 word option of
                  None \<Rightarrow> Undefined
                | Some u32 \<Rightarrow>
                    if uint u32 \<le> INT32_MAX then ret1 (p, Some u32)
                    else err_out_of_range (p, val))
             else if data_size q = 8 then
               (case load_word (IS_BIG_ENDIAN pl) buf :: 64 word option of
                  None \<Rightarrow> Undefined
                | Some u64 \<Rightarrow>
                    if uint u64 \<le> INT32_MAX then ret1 (p, Some (ucast u64))
                    else err_out_of_range (p, val))
             else map_state (\<lambda>w. (p, Some w))
                    (on_bytes (IS_BIG_ENDIAN pl) (general_get_int (IS_BIG_ENDIAN pl) q) v))
          else if data_type q = OSSL_PARAM_REAL then
            (if data_size q = sizeof_double then
               (case load_word (IS_BIG_ENDIAN pl) buf :: 64 word option of
                  None \<Rightarrow> Undefined
                | Some d \<Rightarrow>
                    (case int_of_double pl d of
                       None \<Rightarrow> err_out_of_range (p, val)
                     | Some i \<Rightarrow>
                         if i \<ge> INT32_MIN \<and> i \<le> INT32_MAX
                         then ret1 (p, Some (word_of_int i))
                         else err_out_of_range (p, val)))
             else err_unsupported_real (p, val))
          else err_bad_type (p, val))))"

text \<open>
  The state of a setter is the descriptor together with the buffer \<^verbatim>\<open>data\<close> points
  at; \<open>p = None\<close> is \<^verbatim>\<open>p == NULL\<close>.
\<close>

definition OSSL_PARAM_set_int32 ::
  "platform \<Rightarrow> OSSL_PARAM option \<Rightarrow> 32 word \<Rightarrow> OSSL_PARAM option call" where
  "OSSL_PARAM_set_int32 pl p val =
     (case p of
        None \<Rightarrow> err_null_argument None
      | Some q0 \<Rightarrow>
          map_state Some
           (let q = q0\<lparr>return_size := 0\<rparr> in
            if data_type q = OSSL_PARAM_INTEGER then
              (let q = q\<lparr>return_size := 4\<rparr> in
               case data q of
                 None \<Rightarrow> ret1 q
               | Some buf \<Rightarrow>
                   if data_size q = 4 then
                     (case store_word (IS_BIG_ENDIAN pl) buf val of
                        None \<Rightarrow> Undefined
                      | Some b \<Rightarrow> ret1 (q\<lparr>data := Some b\<rparr>))
                   else if data_size q = 8 then
                     (case store_word (IS_BIG_ENDIAN pl) buf (scast val :: 64 word) of
                        None \<Rightarrow> Undefined
                      | Some b \<Rightarrow> ret1 (q\<lparr>return_size := 8, data := Some b\<rparr>))
                   else general_set_int (IS_BIG_ENDIAN pl) q
                          (native_bytes (IS_BIG_ENDIAN pl) 4 (unat val)) 4)
            else if data_type q = OSSL_PARAM_UNSIGNED_INTEGER \<and> 0 \<le> sint val then
              (let q = q\<lparr>return_size := 4\<rparr> in
               case data q of
                 None \<Rightarrow> ret1 q
               | Some buf \<Rightarrow>
                   if data_size q = 4 then
                     (case store_word (IS_BIG_ENDIAN pl) buf val of
                        None \<Rightarrow> Undefined
                      | Some b \<Rightarrow> ret1 (q\<lparr>data := Some b\<rparr>))
                   else if data_size q = 8 then
                     (case store_word (IS_BIG_ENDIAN pl) buf (scast val :: 64 word) of
                        None \<Rightarrow> Undefined
                      | Some b \<Rightarrow> ret1 (q\<lparr>return_size := 8, data := Some b\<rparr>))
                   else general_set_int (IS_BIG_ENDIAN pl) q
                          (native_bytes (IS_BIG_ENDIAN pl) 4 (unat val)) 4)
            else if data_type q = OSSL_PARAM_REAL then
              (let q = q\<lparr>return_size := sizeof_double\<rparr> in
               case data q of
                 None \<Rightarrow> ret1 q
               | Some buf \<Rightarrow>
                   if data_size q = sizeof_double then
                     (if real_shift < 8 * 4 - 1
                         \<and> drop_bit real_shift (if sint val < 0 then - val else val) \<noteq> 0
                      then err_inexact q
                      else (case store_word (IS_BIG_ENDIAN pl) buf
                                   (double_of_int pl (sint val)) of
                              None \<Rightarrow> Undefined
                            | Some b \<Rightarrow> ret1 (q\<lparr>data := Some b\<rparr>)))
                   else err_unsupported_real q)
            else err_bad_type q))"

definition OSSL_PARAM_get_uint32 ::
  "platform \<Rightarrow> OSSL_PARAM option \<Rightarrow> 32 word option
   \<Rightarrow> (OSSL_PARAM option \<times> 32 word option) call" where
  "OSSL_PARAM_get_uint32 pl p val =
     (case val of
        None \<Rightarrow> err_null_argument (p, val)
      | Some v \<Rightarrow>
     (case p of
        None \<Rightarrow> err_null_argument (p, val)
      | Some q \<Rightarrow>
     (case data q of
        None \<Rightarrow> err_null_argument (p, val)
      | Some buf \<Rightarrow>
          if data_type q = OSSL_PARAM_UNSIGNED_INTEGER then
            (if data_size q = 4 then
               (case load_word (IS_BIG_ENDIAN pl) buf :: 32 word option of
                  None \<Rightarrow> Undefined
                | Some u32 \<Rightarrow> ret1 (p, Some u32))
             else if data_size q = 8 then
               (case load_word (IS_BIG_ENDIAN pl) buf :: 64 word option of
                  None \<Rightarrow> Undefined
                | Some u64 \<Rightarrow>
                    if uint u64 \<le> UINT32_MAX then ret1 (p, Some (ucast u64))
                    else err_out_of_range (p, val))
             else map_state (\<lambda>w. (p, Some w))
                    (on_bytes (IS_BIG_ENDIAN pl) (general_get_uint (IS_BIG_ENDIAN pl) q) v))
          else if data_type q = OSSL_PARAM_INTEGER then
            (if data_size q = 4 then
               (case load_word (IS_BIG_ENDIAN pl) buf :: 32 word option of
                  None \<Rightarrow> Undefined
                | Some i32 \<Rightarrow>
                    if sint i32 \<ge> 0 then ret1 (p, Some i32)
                    else err_unsigned_negative (p, val))
             else if data_size q = 8 then
               (case load_word (IS_BIG_ENDIAN pl) buf :: 64 word option of
                  None \<Rightarrow> Undefined
                | Some i64 \<Rightarrow>
                    if sint i64 \<ge> 0 \<and> sint i64 \<le> UINT32_MAX
                    then ret1 (p, Some (ucast i64))
                    else if sint i64 < 0 then err_unsigned_negative (p, val)
                    else err_out_of_range (p, val))
             else map_state (\<lambda>w. (p, Some w))
                    (on_bytes (IS_BIG_ENDIAN pl) (general_get_uint (IS_BIG_ENDIAN pl) q) v))
          else if data_type q = OSSL_PARAM_REAL then
            (if data_size q = sizeof_double then
               (case load_word (IS_BIG_ENDIAN pl) buf :: 64 word option of
                  None \<Rightarrow> Undefined
                | Some d \<Rightarrow>
                    (case int_of_double pl d of
                       None \<Rightarrow> err_inexact (p, val)
                     | Some i \<Rightarrow>
                         if i \<ge> 0 \<and> i \<le> UINT32_MAX
                         then ret1 (p, Some (word_of_int i))
                         else err_inexact (p, val)))
             else err_unsupported_real (p, val))
          else err_bad_type (p, val))))"

definition OSSL_PARAM_set_uint32 ::
  "platform \<Rightarrow> OSSL_PARAM option \<Rightarrow> 32 word \<Rightarrow> OSSL_PARAM option call" where
  "OSSL_PARAM_set_uint32 pl p val =
     (case p of
        None \<Rightarrow> err_null_argument None
      | Some q0 \<Rightarrow>
          map_state Some
           (let q = q0\<lparr>return_size := 0\<rparr> in
            if data_type q = OSSL_PARAM_UNSIGNED_INTEGER then
              (let q = q\<lparr>return_size := 4\<rparr> in
               case data q of
                 None \<Rightarrow> ret1 q
               | Some buf \<Rightarrow>
                   if data_size q = 4 then
                     (case store_word (IS_BIG_ENDIAN pl) buf val of
                        None \<Rightarrow> Undefined
                      | Some b \<Rightarrow> ret1 (q\<lparr>data := Some b\<rparr>))
                   else if data_size q = 8 then
                     (case store_word (IS_BIG_ENDIAN pl) buf (ucast val :: 64 word) of
                        None \<Rightarrow> Undefined
                      | Some b \<Rightarrow> ret1 (q\<lparr>return_size := 8, data := Some b\<rparr>))
                   else general_set_uint (IS_BIG_ENDIAN pl) q
                          (native_bytes (IS_BIG_ENDIAN pl) 4 (unat val)) 4)
            else if data_type q = OSSL_PARAM_INTEGER then
              (let q = q\<lparr>return_size := 4\<rparr> in
               case data q of
                 None \<Rightarrow> ret1 q
               | Some buf \<Rightarrow>
                   if data_size q = 4 then
                     (if uint val \<le> INT32_MAX then
                        (case store_word (IS_BIG_ENDIAN pl) buf val of
                           None \<Rightarrow> Undefined
                         | Some b \<Rightarrow> ret1 (q\<lparr>data := Some b\<rparr>))
                      else err_out_of_range q)
                   else if data_size q = 8 then
                     (case store_word (IS_BIG_ENDIAN pl) buf (ucast val :: 64 word) of
                        None \<Rightarrow> Undefined
                      | Some b \<Rightarrow> ret1 (q\<lparr>return_size := 8, data := Some b\<rparr>))
                   else general_set_uint (IS_BIG_ENDIAN pl) q
                          (native_bytes (IS_BIG_ENDIAN pl) 4 (unat val)) 4)
            else if data_type q = OSSL_PARAM_REAL then
              (case data q of
                 None \<Rightarrow> ret1 (q\<lparr>return_size := sizeof_double\<rparr>)
               | Some buf \<Rightarrow>
                   if data_size q = sizeof_double then
                     (if real_shift < 8 * 4 \<and> drop_bit real_shift val \<noteq> 0
                      then err_inexact q
                      else (case store_word (IS_BIG_ENDIAN pl) buf
                                   (double_of_int pl (uint val)) of
                              None \<Rightarrow> Undefined
                            | Some b \<Rightarrow>
                                ret1 (q\<lparr>data := Some b, return_size := sizeof_double\<rparr>)))
                   else err_unsupported_real q)
            else err_bad_type q))"

definition OSSL_PARAM_get_int64 ::
  "platform \<Rightarrow> OSSL_PARAM option \<Rightarrow> 64 word option
   \<Rightarrow> (OSSL_PARAM option \<times> 64 word option) call" where
  "OSSL_PARAM_get_int64 pl p val =
     (case val of
        None \<Rightarrow> err_null_argument (p, val)
      | Some v \<Rightarrow>
     (case p of
        None \<Rightarrow> err_null_argument (p, val)
      | Some q \<Rightarrow>
     (case data q of
        None \<Rightarrow> err_null_argument (p, val)
      | Some buf \<Rightarrow>
          if data_type q = OSSL_PARAM_INTEGER then
            (if data_size q = 4 then
               (case load_word (IS_BIG_ENDIAN pl) buf :: 32 word option of
                  None \<Rightarrow> Undefined
                | Some i32 \<Rightarrow> ret1 (p, Some (scast i32)))
             else if data_size q = 8 then
               (case load_word (IS_BIG_ENDIAN pl) buf :: 64 word option of
                  None \<Rightarrow> Undefined
                | Some i64 \<Rightarrow> ret1 (p, Some i64))
             else map_state (\<lambda>w. (p, Some w))
                    (on_bytes (IS_BIG_ENDIAN pl) (general_get_int (IS_BIG_ENDIAN pl) q) v))
          else if data_type q = OSSL_PARAM_UNSIGNED_INTEGER then
            (if data_size q = 4 then
               (case load_word (IS_BIG_ENDIAN pl) buf :: 32 word option of
                  None \<Rightarrow> Undefined
                | Some u32 \<Rightarrow> ret1 (p, Some (ucast u32)))
             else if data_size q = 8 then
               (case load_word (IS_BIG_ENDIAN pl) buf :: 64 word option of
                  None \<Rightarrow> Undefined
                | Some u64 \<Rightarrow>
                    if uint u64 \<le> INT64_MAX then ret1 (p, Some u64)
                    else err_out_of_range (p, val))
             else map_state (\<lambda>w. (p, Some w))
                    (on_bytes (IS_BIG_ENDIAN pl) (general_get_int (IS_BIG_ENDIAN pl) q) v))
          else if data_type q = OSSL_PARAM_REAL then
            (if data_size q = sizeof_double then
               (case load_word (IS_BIG_ENDIAN pl) buf :: 64 word option of
                  None \<Rightarrow> Undefined
                | Some d \<Rightarrow>
                    (case int_of_double pl d of
                       None \<Rightarrow> err_inexact (p, val)
                     | Some i \<Rightarrow>
                         if i \<ge> INT64_MIN \<and> i < (INT64_MAX - 65535) + 65536
                         then ret1 (p, Some (word_of_int i))
                         else err_inexact (p, val)))
             else err_unsupported_real (p, val))
          else err_bad_type (p, val))))"

text \<open>
  \<^verbatim>\<open>u64 = val < 0 ? -val : val\<close>: the negation is taken in two's complement, so
  \<^verbatim>\<open>INT64_MIN\<close> gives \<open>2 ^ 63\<close>.
\<close>

definition OSSL_PARAM_set_int64 ::
  "platform \<Rightarrow> OSSL_PARAM option \<Rightarrow> 64 word \<Rightarrow> OSSL_PARAM option call" where
  "OSSL_PARAM_set_int64 pl p val =
     (case p of
        None \<Rightarrow> err_null_argument None
      | Some q0 \<Rightarrow>
          map_state Some
           (let q = q0\<lparr>return_size := 0\<rparr> in
            if data_type q = OSSL_PARAM_INTEGER then
              (case data q of
                 None \<Rightarrow> ret1 (q\<lparr>return_size := 8\<rparr>)
               | Some buf \<Rightarrow>
                   if data_size q = 4 then
                     (if sint val \<ge> INT32_MIN \<and> sint val \<le> INT32_MAX then
                        (case store_word (IS_BIG_ENDIAN pl) buf (ucast val :: 32 word) of
                           None \<Rightarrow> Undefined
                         | Some b \<Rightarrow> ret1 (q\<lparr>return_size := 4, data := Some b\<rparr>))
                      else err_out_of_range q)
                   else if data_size q = 8 then
                     (case store_word (IS_BIG_ENDIAN pl) buf val of
                        None \<Rightarrow> Undefined
                      | Some b \<Rightarrow> ret1 (q\<lparr>return_size := 8, data := Some b\<rparr>))
                   else general_set_int (IS_BIG_ENDIAN pl) q
                          (native_bytes (IS_BIG_ENDIAN pl) 8 (unat val)) 8)
            else if data_type q = OSSL_PARAM_UNSIGNED_INTEGER \<and> 0 \<le> sint val then
              (case data q of
                 None \<Rightarrow> ret1 (q\<lparr>return_size := 8\<rparr>)
               | Some buf \<Rightarrow>
                   if data_size q = 4 then
                     (if sint val \<le> UINT32_MAX then
                        (case store_word (IS_BIG_ENDIAN pl) buf (ucast val :: 32 word) of
                           None \<Rightarrow> Undefined
                         | Some b \<Rightarrow> ret1 (q\<lparr>return_size := 4, data := Some b\<rparr>))
                      else err_out_of_range q)
                   else if data_size q = 8 then
                     (case store_word (IS_BIG_ENDIAN pl) buf val of
                        None \<Rightarrow> Undefined
                      | Some b \<Rightarrow> ret1 (q\<lparr>return_size := 8, data := Some b\<rparr>))
                   else general_set_int (IS_BIG_ENDIAN pl) q
                          (native_bytes (IS_BIG_ENDIAN pl) 8 (unat val)) 8)
            else if data_type q = OSSL_PARAM_REAL then
              (case data q of
                 None \<Rightarrow> ret1 (q\<lparr>return_size := sizeof_double\<rparr>)
               | Some buf \<Rightarrow>
                   if data_size q = sizeof_double then
                     (if drop_bit real_shift (if sint val < 0 then - val else val) = 0 then
                        (case store_word (IS_BIG_ENDIAN pl) buf
                                (double_of_int pl (sint val)) of
                           None \<Rightarrow> Undefined
                         | Some b \<Rightarrow>
                             ret1 (q\<lparr>return_size := sizeof_double, data := Some b\<rparr>))
                      else err_inexact q)
                   else err_unsupported_real q)
            else err_bad_type q))"

definition OSSL_PARAM_get_uint64 ::
  "platform \<Rightarrow> OSSL_PARAM option \<Rightarrow> 64 word option
   \<Rightarrow> (OSSL_PARAM option \<times> 64 word option) call" where
  "OSSL_PARAM_get_uint64 pl p val =
     (case val of
        None \<Rightarrow> err_null_argument (p, val)
      | Some v \<Rightarrow>
     (case p of
        None \<Rightarrow> err_null_argument (p, val)
      | Some q \<Rightarrow>
     (case data q of
        None \<Rightarrow> err_null_argument (p, val)
      | Some buf \<Rightarrow>
          if data_type q = OSSL_PARAM_UNSIGNED_INTEGER then
            (if data_size q = 4 then
               (case load_word (IS_BIG_ENDIAN pl) buf :: 32 word option of
                  None \<Rightarrow> Undefined
                | Some u32 \<Rightarrow> ret1 (p, Some (ucast u32)))
             else if data_size q = 8 then
               (case load_word (IS_BIG_ENDIAN pl) buf :: 64 word option of
                  None \<Rightarrow> Undefined
                | Some u64 \<Rightarrow> ret1 (p, Some u64))
             else map_state (\<lambda>w. (p, Some w))
                    (on_bytes (IS_BIG_ENDIAN pl) (general_get_uint (IS_BIG_ENDIAN pl) q) v))
          else if data_type q = OSSL_PARAM_INTEGER then
            (if data_size q = 4 then
               (case load_word (IS_BIG_ENDIAN pl) buf :: 32 word option of
                  None \<Rightarrow> Undefined
                | Some i32 \<Rightarrow>
                    if sint i32 \<ge> 0 then ret1 (p, Some (scast i32))
                    else err_unsigned_negative (p, val))
             else if data_size q = 8 then
               (case load_word (IS_BIG_ENDIAN pl) buf :: 64 word option of
                  None \<Rightarrow> Undefined
                | Some i64 \<Rightarrow>
                    if sint i64 \<ge> 0 then ret1 (p, Some i64)
                    else err_unsigned_negative (p, val))
             else map_state (\<lambda>w. (p, Some w))
                    (on_bytes (IS_BIG_ENDIAN pl) (general_get_uint (IS_BIG_ENDIAN pl) q) v))
          else if data_type q = OSSL_PARAM_REAL then
            (if data_size q = sizeof_double then
               (case load_word (IS_BIG_ENDIAN pl) buf :: 64 word option of
                  None \<Rightarrow> Undefined
                | Some d \<Rightarrow>
                    (case int_of_double pl d of
                       None \<Rightarrow> err_inexact (p, val)
                     | Some i \<Rightarrow>
                         if i \<ge> 0 \<and> i < (UINT64_MAX - 65535) + 65536
                         then ret1 (p, Some (word_of_int i))
                         else err_inexact (p, val)))
             else err_unsupported_real (p, val))
          else err_bad_type (p, val))))"

text \<open>
  The \<^verbatim>\<open>REAL\<close> branch of \<^verbatim>\<open>OSSL_PARAM_set_uint64\<close> does not test \<^verbatim>\<open>p->data\<close> before
  it stores through it.
\<close>

definition OSSL_PARAM_set_uint64 ::
  "platform \<Rightarrow> OSSL_PARAM option \<Rightarrow> 64 word \<Rightarrow> OSSL_PARAM option call" where
  "OSSL_PARAM_set_uint64 pl p val =
     (case p of
        None \<Rightarrow> err_null_argument None
      | Some q0 \<Rightarrow>
          map_state Some
           (let q = q0\<lparr>return_size := 0\<rparr> in
            if data_type q = OSSL_PARAM_UNSIGNED_INTEGER then
              (case data q of
                 None \<Rightarrow> ret1 (q\<lparr>return_size := 8\<rparr>)
               | Some buf \<Rightarrow>
                   if data_size q = 4 then
                     (if uint val \<le> UINT32_MAX then
                        (case store_word (IS_BIG_ENDIAN pl) buf (ucast val :: 32 word) of
                           None \<Rightarrow> Undefined
                         | Some b \<Rightarrow> ret1 (q\<lparr>return_size := 4, data := Some b\<rparr>))
                      else err_out_of_range q)
                   else if data_size q = 8 then
                     (case store_word (IS_BIG_ENDIAN pl) buf val of
                        None \<Rightarrow> Undefined
                      | Some b \<Rightarrow> ret1 (q\<lparr>return_size := 8, data := Some b\<rparr>))
                   else general_set_uint (IS_BIG_ENDIAN pl) q
                          (native_bytes (IS_BIG_ENDIAN pl) 8 (unat val)) 8)
            else if data_type q = OSSL_PARAM_INTEGER then
              (case data q of
                 None \<Rightarrow> ret1 (q\<lparr>return_size := 8\<rparr>)
               | Some buf \<Rightarrow>
                   if data_size q = 4 then
                     (if uint val \<le> INT32_MAX then
                        (case store_word (IS_BIG_ENDIAN pl) buf (ucast val :: 32 word) of
                           None \<Rightarrow> Undefined
                         | Some b \<Rightarrow> ret1 (q\<lparr>return_size := 4, data := Some b\<rparr>))
                      else err_out_of_range q)
                   else if data_size q = 8 then
                     (if uint val \<le> INT64_MAX then
                        (case store_word (IS_BIG_ENDIAN pl) buf val of
                           None \<Rightarrow> Undefined
                         | Some b \<Rightarrow> ret1 (q\<lparr>return_size := 8, data := Some b\<rparr>))
                      else err_out_of_range q)
                   else general_set_uint (IS_BIG_ENDIAN pl) q
                          (native_bytes (IS_BIG_ENDIAN pl) 8 (unat val)) 8)
            else if data_type q = OSSL_PARAM_REAL then
              (if data_size q = sizeof_double then
                 (if drop_bit real_shift val = 0 then
                    (case data q of
                       None \<Rightarrow> Undefined
                     | Some buf \<Rightarrow>
                         (case store_word (IS_BIG_ENDIAN pl) buf
                                 (double_of_int pl (uint val)) of
                            None \<Rightarrow> Undefined
                          | Some b \<Rightarrow>
                              ret1 (q\<lparr>return_size := sizeof_double, data := Some b\<rparr>)))
                  else err_inexact q)
               else err_unsupported_real q)
            else err_bad_type q))"

section \<open>Accessors of the native integer types\<close>

text \<open>
  \<^verbatim>\<open>OSSL_PARAM_get_int\<close>, \<^verbatim>\<open>OSSL_PARAM_set_int\<close> and their siblings for
  \<^verbatim>\<open>unsigned int\<close>, \<^verbatim>\<open>long\<close>, \<^verbatim>\<open>unsigned long\<close>, \<^verbatim>\<open>size_t\<close> and \<^verbatim>\<open>time_t\<close> switch
  on the size of the type: the type is a word of any length, its size the bytes of
  that length. A type of 4 or 8 bytes goes to the fixed-width accessor, any other to
  the general one, which reads \<^verbatim>\<open>p->data\<close> without a test of \<^verbatim>\<open>p\<close>.
\<close>

text \<open>
  A general getter called on the caller's pointer \<^verbatim>\<open>val\<close>: behind \<^verbatim>\<open>NULL\<close> there is no
  byte to write.
\<close>

definition on_pointer ::
  "bool \<Rightarrow> (byte list \<Rightarrow> nat \<Rightarrow> byte list call) \<Rightarrow> 'a::len word option
   \<Rightarrow> 'a word option call" where
  "on_pointer be f val =
     (case val of
        None \<Rightarrow> map_state (\<lambda>bs. None) (f [] (LENGTH('a) div 8))
      | Some v \<Rightarrow> map_state Some (on_bytes be f v))"

definition OSSL_PARAM_get_int ::
  "platform \<Rightarrow> OSSL_PARAM option \<Rightarrow> 'a::len word option
   \<Rightarrow> (OSSL_PARAM option \<times> 'a word option) call" where
  "OSSL_PARAM_get_int pl p val =
     (if LENGTH('a) = 32 then
        map_state (\<lambda>(p', v). (p', map_option ucast v))
          (OSSL_PARAM_get_int32 pl p (map_option ucast val))
      else if LENGTH('a) = 64 then
        map_state (\<lambda>(p', v). (p', map_option ucast v))
          (OSSL_PARAM_get_int64 pl p (map_option ucast val))
      else
        (case p of
           None \<Rightarrow> Undefined
         | Some q \<Rightarrow>
             map_state (\<lambda>v. (p, v))
               (on_pointer (IS_BIG_ENDIAN pl) (general_get_int (IS_BIG_ENDIAN pl) q) val)))"

definition OSSL_PARAM_set_int ::
  "platform \<Rightarrow> OSSL_PARAM option \<Rightarrow> 'a::len word \<Rightarrow> OSSL_PARAM option call" where
  "OSSL_PARAM_set_int pl p val =
     (if LENGTH('a) = 32 then OSSL_PARAM_set_int32 pl p (ucast val)
      else if LENGTH('a) = 64 then OSSL_PARAM_set_int64 pl p (ucast val)
      else
        (case p of
           None \<Rightarrow> Undefined
         | Some q \<Rightarrow>
             map_state Some
               (general_set_int (IS_BIG_ENDIAN pl) q
                  (native_bytes (IS_BIG_ENDIAN pl) (LENGTH('a) div 8) (unat val))
                  (LENGTH('a) div 8))))"

definition OSSL_PARAM_get_uint ::
  "platform \<Rightarrow> OSSL_PARAM option \<Rightarrow> 'a::len word option
   \<Rightarrow> (OSSL_PARAM option \<times> 'a word option) call" where
  "OSSL_PARAM_get_uint pl p val =
     (if LENGTH('a) = 32 then
        map_state (\<lambda>(p', v). (p', map_option ucast v))
          (OSSL_PARAM_get_uint32 pl p (map_option ucast val))
      else if LENGTH('a) = 64 then
        map_state (\<lambda>(p', v). (p', map_option ucast v))
          (OSSL_PARAM_get_uint64 pl p (map_option ucast val))
      else
        (case p of
           None \<Rightarrow> Undefined
         | Some q \<Rightarrow>
             map_state (\<lambda>v. (p, v))
               (on_pointer (IS_BIG_ENDIAN pl) (general_get_uint (IS_BIG_ENDIAN pl) q) val)))"

definition OSSL_PARAM_set_uint ::
  "platform \<Rightarrow> OSSL_PARAM option \<Rightarrow> 'a::len word \<Rightarrow> OSSL_PARAM option call" where
  "OSSL_PARAM_set_uint pl p val =
     (if LENGTH('a) = 32 then OSSL_PARAM_set_uint32 pl p (ucast val)
      else if LENGTH('a) = 64 then OSSL_PARAM_set_uint64 pl p (ucast val)
      else
        (case p of
           None \<Rightarrow> Undefined
         | Some q \<Rightarrow>
             map_state Some
               (general_set_uint (IS_BIG_ENDIAN pl) q
                  (native_bytes (IS_BIG_ENDIAN pl) (LENGTH('a) div 8) (unat val))
                  (LENGTH('a) div 8))))"

definition OSSL_PARAM_get_long ::
  "platform \<Rightarrow> OSSL_PARAM option \<Rightarrow> 'a::len word option
   \<Rightarrow> (OSSL_PARAM option \<times> 'a word option) call" where
  "OSSL_PARAM_get_long pl p val =
     (if LENGTH('a) = 32 then
        map_state (\<lambda>(p', v). (p', map_option ucast v))
          (OSSL_PARAM_get_int32 pl p (map_option ucast val))
      else if LENGTH('a) = 64 then
        map_state (\<lambda>(p', v). (p', map_option ucast v))
          (OSSL_PARAM_get_int64 pl p (map_option ucast val))
      else
        (case p of
           None \<Rightarrow> Undefined
         | Some q \<Rightarrow>
             map_state (\<lambda>v. (p, v))
               (on_pointer (IS_BIG_ENDIAN pl) (general_get_int (IS_BIG_ENDIAN pl) q) val)))"

definition OSSL_PARAM_set_long ::
  "platform \<Rightarrow> OSSL_PARAM option \<Rightarrow> 'a::len word \<Rightarrow> OSSL_PARAM option call" where
  "OSSL_PARAM_set_long pl p val =
     (if LENGTH('a) = 32 then OSSL_PARAM_set_int32 pl p (ucast val)
      else if LENGTH('a) = 64 then OSSL_PARAM_set_int64 pl p (ucast val)
      else
        (case p of
           None \<Rightarrow> Undefined
         | Some q \<Rightarrow>
             map_state Some
               (general_set_int (IS_BIG_ENDIAN pl) q
                  (native_bytes (IS_BIG_ENDIAN pl) (LENGTH('a) div 8) (unat val))
                  (LENGTH('a) div 8))))"

definition OSSL_PARAM_get_ulong ::
  "platform \<Rightarrow> OSSL_PARAM option \<Rightarrow> 'a::len word option
   \<Rightarrow> (OSSL_PARAM option \<times> 'a word option) call" where
  "OSSL_PARAM_get_ulong pl p val =
     (if LENGTH('a) = 32 then
        map_state (\<lambda>(p', v). (p', map_option ucast v))
          (OSSL_PARAM_get_uint32 pl p (map_option ucast val))
      else if LENGTH('a) = 64 then
        map_state (\<lambda>(p', v). (p', map_option ucast v))
          (OSSL_PARAM_get_uint64 pl p (map_option ucast val))
      else
        (case p of
           None \<Rightarrow> Undefined
         | Some q \<Rightarrow>
             map_state (\<lambda>v. (p, v))
               (on_pointer (IS_BIG_ENDIAN pl) (general_get_uint (IS_BIG_ENDIAN pl) q) val)))"

definition OSSL_PARAM_set_ulong ::
  "platform \<Rightarrow> OSSL_PARAM option \<Rightarrow> 'a::len word \<Rightarrow> OSSL_PARAM option call" where
  "OSSL_PARAM_set_ulong pl p val =
     (if LENGTH('a) = 32 then OSSL_PARAM_set_uint32 pl p (ucast val)
      else if LENGTH('a) = 64 then OSSL_PARAM_set_uint64 pl p (ucast val)
      else
        (case p of
           None \<Rightarrow> Undefined
         | Some q \<Rightarrow>
             map_state Some
               (general_set_uint (IS_BIG_ENDIAN pl) q
                  (native_bytes (IS_BIG_ENDIAN pl) (LENGTH('a) div 8) (unat val))
                  (LENGTH('a) div 8))))"

definition OSSL_PARAM_get_size_t ::
  "platform \<Rightarrow> OSSL_PARAM option \<Rightarrow> 'a::len word option
   \<Rightarrow> (OSSL_PARAM option \<times> 'a word option) call" where
  "OSSL_PARAM_get_size_t pl p val =
     (if LENGTH('a) = 32 then
        map_state (\<lambda>(p', v). (p', map_option ucast v))
          (OSSL_PARAM_get_uint32 pl p (map_option ucast val))
      else if LENGTH('a) = 64 then
        map_state (\<lambda>(p', v). (p', map_option ucast v))
          (OSSL_PARAM_get_uint64 pl p (map_option ucast val))
      else
        (case p of
           None \<Rightarrow> Undefined
         | Some q \<Rightarrow>
             map_state (\<lambda>v. (p, v))
               (on_pointer (IS_BIG_ENDIAN pl) (general_get_uint (IS_BIG_ENDIAN pl) q) val)))"

definition OSSL_PARAM_set_size_t ::
  "platform \<Rightarrow> OSSL_PARAM option \<Rightarrow> 'a::len word \<Rightarrow> OSSL_PARAM option call" where
  "OSSL_PARAM_set_size_t pl p val =
     (if LENGTH('a) = 32 then OSSL_PARAM_set_uint32 pl p (ucast val)
      else if LENGTH('a) = 64 then OSSL_PARAM_set_uint64 pl p (ucast val)
      else
        (case p of
           None \<Rightarrow> Undefined
         | Some q \<Rightarrow>
             map_state Some
               (general_set_uint (IS_BIG_ENDIAN pl) q
                  (native_bytes (IS_BIG_ENDIAN pl) (LENGTH('a) div 8) (unat val))
                  (LENGTH('a) div 8))))"

definition OSSL_PARAM_get_time_t ::
  "platform \<Rightarrow> OSSL_PARAM option \<Rightarrow> 'a::len word option
   \<Rightarrow> (OSSL_PARAM option \<times> 'a word option) call" where
  "OSSL_PARAM_get_time_t pl p val =
     (if LENGTH('a) = 32 then
        map_state (\<lambda>(p', v). (p', map_option ucast v))
          (OSSL_PARAM_get_int32 pl p (map_option ucast val))
      else if LENGTH('a) = 64 then
        map_state (\<lambda>(p', v). (p', map_option ucast v))
          (OSSL_PARAM_get_int64 pl p (map_option ucast val))
      else
        (case p of
           None \<Rightarrow> Undefined
         | Some q \<Rightarrow>
             map_state (\<lambda>v. (p, v))
               (on_pointer (IS_BIG_ENDIAN pl) (general_get_int (IS_BIG_ENDIAN pl) q) val)))"

definition OSSL_PARAM_set_time_t ::
  "platform \<Rightarrow> OSSL_PARAM option \<Rightarrow> 'a::len word \<Rightarrow> OSSL_PARAM option call" where
  "OSSL_PARAM_set_time_t pl p val =
     (if LENGTH('a) = 32 then OSSL_PARAM_set_int32 pl p (ucast val)
      else if LENGTH('a) = 64 then OSSL_PARAM_set_int64 pl p (ucast val)
      else
        (case p of
           None \<Rightarrow> Undefined
         | Some q \<Rightarrow>
             map_state Some
               (general_set_int (IS_BIG_ENDIAN pl) q
                  (native_bytes (IS_BIG_ENDIAN pl) (LENGTH('a) div 8) (unat val))
                  (LENGTH('a) div 8))))"

section \<open>Doubles\<close>

text \<open>
  \<^verbatim>\<open>OSSL_PARAM_set_double\<close>; \<open>val\<close> is the 64 bits of the \<^verbatim>\<open>double\<close>. The conversions
  \<^verbatim>\<open>(uint64_t)val\<close> and \<^verbatim>\<open>(int64_t)val\<close> are undefined in C when \<open>val\<close> without its
  fraction is outside the range of the type, or is an infinity or a NaN. Where they
  are defined, \<^verbatim>\<open>val != (uint64_t)val\<close> says that \<open>val\<close> has a fraction, and the
  comparisons with \<^verbatim>\<open>d_pow_31\<close>, \<^verbatim>\<open>d_pow_32\<close>, \<^verbatim>\<open>d_pow_63\<close> and \<^verbatim>\<open>d_pow_64\<close> are
  comparisons of that integer with \<open>2 ^ 31\<close>, \<open>2 ^ 32\<close>, \<open>2 ^ 63\<close> and \<open>2 ^ 64\<close>.
\<close>

definition OSSL_PARAM_set_double ::
  "platform \<Rightarrow> OSSL_PARAM option \<Rightarrow> 64 word \<Rightarrow> OSSL_PARAM option call" where
  "OSSL_PARAM_set_double pl p val =
     (case p of
        None \<Rightarrow> err_null_argument None
      | Some q0 \<Rightarrow>
          map_state Some
           (let q = q0\<lparr>return_size := 0\<rparr> in
            if data_type q = OSSL_PARAM_REAL then
              (case data q of
                 None \<Rightarrow> ret1 (q\<lparr>return_size := sizeof_double\<rparr>)
               | Some buf \<Rightarrow>
                   if data_size q = sizeof_double then
                     (case store_word (IS_BIG_ENDIAN pl) buf val of
                        None \<Rightarrow> Undefined
                      | Some b \<Rightarrow>
                          ret1 (q\<lparr>return_size := sizeof_double, data := Some b\<rparr>))
                   else err_unsupported_real q)
            else if data_type q = OSSL_PARAM_UNSIGNED_INTEGER then
              (case data q of
                 None \<Rightarrow> ret1 (q\<lparr>return_size := sizeof_double\<rparr>)
               | Some buf \<Rightarrow>
                   (case double_trunc pl val of
                      None \<Rightarrow> Undefined
                    | Some t \<Rightarrow>
                        if t < 0 \<or> UINT64_MAX < t then Undefined
                        else if int_of_double pl val \<noteq> Some t then err_inexact q
                        else if data_size q = 4 then
                          (if 0 \<le> t \<and> t < 2 ^ 32 then
                             (case store_word (IS_BIG_ENDIAN pl) buf
                                     (word_of_int t :: 32 word) of
                                None \<Rightarrow> Undefined
                              | Some b \<Rightarrow> ret1 (q\<lparr>return_size := 4, data := Some b\<rparr>))
                           else err_out_of_range q)
                        else if data_size q = 8 then
                          (if 0 \<le> t \<and> t < 2 ^ 64 then
                             (case store_word (IS_BIG_ENDIAN pl) buf
                                     (word_of_int t :: 64 word) of
                                None \<Rightarrow> Undefined
                              | Some b \<Rightarrow> ret1 (q\<lparr>return_size := 8, data := Some b\<rparr>))
                           else err_out_of_range q)
                        else err_bad_type q))
            else if data_type q = OSSL_PARAM_INTEGER then
              (case data q of
                 None \<Rightarrow> ret1 (q\<lparr>return_size := sizeof_double\<rparr>)
               | Some buf \<Rightarrow>
                   (case double_trunc pl val of
                      None \<Rightarrow> Undefined
                    | Some t \<Rightarrow>
                        if t < INT64_MIN \<or> INT64_MAX < t then Undefined
                        else if int_of_double pl val \<noteq> Some t then err_inexact q
                        else if data_size q = 4 then
                          (if - (2 ^ 31) \<le> t \<and> t < 2 ^ 31 then
                             (case store_word (IS_BIG_ENDIAN pl) buf
                                     (word_of_int t :: 32 word) of
                                None \<Rightarrow> Undefined
                              | Some b \<Rightarrow> ret1 (q\<lparr>return_size := 4, data := Some b\<rparr>))
                           else err_out_of_range q)
                        else if data_size q = 8 then
                          (if - (2 ^ 63) \<le> t \<and> t < 2 ^ 63 then
                             (case store_word (IS_BIG_ENDIAN pl) buf
                                     (word_of_int t :: 64 word) of
                                None \<Rightarrow> Undefined
                              | Some b \<Rightarrow> ret1 (q\<lparr>return_size := 8, data := Some b\<rparr>))
                           else err_out_of_range q)
                        else err_bad_type q))
            else err_bad_type q))"

section \<open>Big numbers\<close>

text \<open>
  The big-number library is outside the file. What \<^verbatim>\<open>OSSL_PARAM_set_BN\<close> calls is a
  parameter: the sign test, the byte count, and the two writers, which give the bytes
  they put into a buffer of the given length, or \<open>None\<close> for a negative return.
\<close>

record 'bn bn_lib =
  BN_is_negative :: "'bn \<Rightarrow> bool"
  BN_num_bytes :: "'bn \<Rightarrow> nat"
  BN_bn2nativepad :: "'bn \<Rightarrow> nat \<Rightarrow> byte list option"
  BN_signed_bn2native :: "'bn \<Rightarrow> nat \<Rightarrow> byte list option"

abbreviation err_integer_overflow :: "'s \<Rightarrow> 's call" where
  "err_integer_overflow \<equiv> raise0 CRYPTO_R_INTEGER_OVERFLOW"

definition OSSL_PARAM_set_BN ::
  "'bn bn_lib \<Rightarrow> OSSL_PARAM option \<Rightarrow> 'bn option \<Rightarrow> OSSL_PARAM option call" where
  "OSSL_PARAM_set_BN bn p val =
     (case p of
        None \<Rightarrow> err_null_argument None
      | Some q0 \<Rightarrow>
          map_state Some
           (let q = q0\<lparr>return_size := 0\<rparr> in
            case val of
              None \<Rightarrow> err_null_argument q
            | Some v \<Rightarrow>
                if data_type q = OSSL_PARAM_UNSIGNED_INTEGER \<and> BN_is_negative bn v
                then err_bad_type q
                else
                  (let bytes = BN_num_bytes bn v;
                       bytes = (if data_type q = OSSL_PARAM_INTEGER then bytes + 1 else bytes);
                       bytes = (if bytes = 0 then bytes + 1 else bytes) in
                   case data q of
                     None \<Rightarrow> ret1 (q\<lparr>return_size := bytes\<rparr>)
                   | Some buf \<Rightarrow>
                       if data_size q \<ge> bytes then
                         (if data_type q = OSSL_PARAM_UNSIGNED_INTEGER then
                            (case BN_bn2nativepad bn v (data_size q) of
                               None \<Rightarrow> err_integer_overflow q
                             | Some bs \<Rightarrow>
                                 (case memcpy_at buf 0 bs (data_size q) of
                                    None \<Rightarrow> Undefined
                                  | Some b \<Rightarrow>
                                      ret1 (q\<lparr>data := Some b, return_size := data_size q\<rparr>)))
                          else if data_type q = OSSL_PARAM_INTEGER then
                            (case BN_signed_bn2native bn v (data_size q) of
                               None \<Rightarrow> err_integer_overflow q
                             | Some bs \<Rightarrow>
                                 (case memcpy_at buf 0 bs (data_size q) of
                                    None \<Rightarrow> Undefined
                                  | Some b \<Rightarrow>
                                      ret1 (q\<lparr>data := Some b, return_size := data_size q\<rparr>)))
                          else err_bad_type q)
                       else err_too_small (q\<lparr>return_size := bytes\<rparr>))))"

section \<open>Strings\<close>

text \<open>
  A C string argument is the memory at the pointer; \<^verbatim>\<open>strlen\<close> counts the bytes before
  the first NUL and runs off the memory when there is none.
\<close>

fun strlen :: "byte list \<Rightarrow> nat option" where
  "strlen [] = None"
| "strlen (b # bs) = (if b = 0 then Some 0 else map_option Suc (strlen bs))"

text \<open>
  Modelled from the spec: \<^verbatim>\<open>OPENSSL_strnlen\<close> is defined outside the sources at hand;
  the true string length is measured by scanning for a terminator, within the first
  \<open>maxlen\<close> bytes.
\<close>

fun OPENSSL_strnlen :: "byte list \<Rightarrow> nat \<Rightarrow> nat option" where
  "OPENSSL_strnlen str 0 = Some 0"
| "OPENSSL_strnlen [] (Suc maxlen) = None"
| "OPENSSL_strnlen (b # bs) (Suc maxlen) =
     (if b = 0 then Some 0 else map_option Suc (OPENSSL_strnlen bs maxlen))"

text \<open>
  \<^verbatim>\<open>get_string_internal\<close>. \<open>val = None\<close> is \<^verbatim>\<open>val == NULL\<close>, \<open>val = Some None\<close> is
  \<^verbatim>\<open>*val == NULL\<close>; \<open>used_len = None\<close> is \<^verbatim>\<open>used_len == NULL\<close>. \<open>malloc n\<close> is the
  fresh block \<^verbatim>\<open>OPENSSL_malloc(n)\<close> returns, with whatever bytes it holds, or \<open>None\<close>.
\<close>

definition get_string_internal ::
  "(nat \<Rightarrow> byte list option) \<Rightarrow> OSSL_PARAM option \<Rightarrow> byte list option option \<Rightarrow> nat
   \<Rightarrow> nat option \<Rightarrow> param_type \<Rightarrow> (byte list option option \<times> nat \<times> nat option) call" where
  "get_string_internal malloc p val max_len used_len type =
     (case p of
        None \<Rightarrow> err_null_argument (val, max_len, used_len)
      | Some q \<Rightarrow>
          if val = None \<and> used_len = None then err_null_argument (val, max_len, used_len)
          else if data_type q \<noteq> type then err_bad_type (val, max_len, used_len)
          else
            (let sz = data_size q;
                 alloc_sz = sz + (if type = OSSL_PARAM_UTF8_STRING \<or> sz = 0 then 1 else 0);
                 used_len = (case used_len of None \<Rightarrow> None | Some u \<Rightarrow> Some sz) in
             case data q of
               None \<Rightarrow> err_null_argument (val, max_len, used_len)
             | Some src \<Rightarrow>
                 (case val of
                    None \<Rightarrow> ret1 (val, max_len, used_len)
                  | Some None \<Rightarrow>
                      (case malloc alloc_sz of
                         None \<Rightarrow> Defined (0, [], (val, max_len, used_len))
                       | Some fresh \<Rightarrow>
                           if alloc_sz < sz
                           then err_too_small (Some (Some fresh), alloc_sz, used_len)
                           else (case memcpy_at fresh 0 src sz of
                                   None \<Rightarrow> Undefined
                                 | Some b \<Rightarrow> ret1 (Some (Some b), alloc_sz, used_len)))
                  | Some (Some buf) \<Rightarrow>
                      if max_len < sz
                      then err_too_small (val, max_len, used_len)
                      else (case memcpy_at buf 0 src sz of
                              None \<Rightarrow> Undefined
                            | Some b \<Rightarrow> ret1 (Some (Some b), max_len, used_len)))))"

text \<open>
  \<^verbatim>\<open>OSSL_PARAM_get_utf8_string\<close> reads \<^verbatim>\<open>p->data_size\<close> before it looks at the result
  of \<^verbatim>\<open>get_string_internal\<close>, also when \<^verbatim>\<open>p\<close> is \<^verbatim>\<open>NULL\<close>.
\<close>

definition OSSL_PARAM_get_utf8_string ::
  "(nat \<Rightarrow> byte list option) \<Rightarrow> OSSL_PARAM option \<Rightarrow> byte list option option \<Rightarrow> nat
   \<Rightarrow> byte list option option call" where
  "OSSL_PARAM_get_utf8_string malloc p val max_len =
     (case get_string_internal malloc p val max_len None OSSL_PARAM_UTF8_STRING of
        Undefined \<Rightarrow> Undefined
      | Defined (ret, es, (val, max_len, used_len)) \<Rightarrow>
          (case p of
             None \<Rightarrow> Undefined
           | Some q \<Rightarrow>
               (let data_length = data_size q in
                if ret = 0 then Defined (0, es, val)
                else
                  (case (if data_length \<ge> max_len
                         then (case data q of
                                 None \<Rightarrow> None
                               | Some src \<Rightarrow> OPENSSL_strnlen src data_length)
                         else Some data_length) of
                     None \<Rightarrow> Undefined
                   | Some data_length \<Rightarrow>
                       if data_length \<ge> max_len
                       then Defined (0, es @ [CRYPTO_R_NO_SPACE_FOR_TERMINATING_NULL], val)
                       else
                         (case val of
                            Some (Some buf) \<Rightarrow>
                              (case write_at buf data_length 0 of
                                 None \<Rightarrow> Undefined
                               | Some b \<Rightarrow> Defined (ret, es, Some (Some b)))
                          | _ \<Rightarrow> Undefined)))))"

definition OSSL_PARAM_get_octet_string ::
  "(nat \<Rightarrow> byte list option) \<Rightarrow> OSSL_PARAM option \<Rightarrow> byte list option option \<Rightarrow> nat
   \<Rightarrow> nat option \<Rightarrow> (byte list option option \<times> nat \<times> nat option) call" where
  "OSSL_PARAM_get_octet_string malloc p val max_len used_len =
     get_string_internal malloc p val max_len used_len OSSL_PARAM_OCTET_STRING"

definition set_string_internal ::
  "OSSL_PARAM \<Rightarrow> byte list \<Rightarrow> nat \<Rightarrow> param_type \<Rightarrow> OSSL_PARAM call" where
  "set_string_internal p val len type =
     (if data_type p \<noteq> type then err_bad_type p
      else
        (let p = p\<lparr>return_size := len\<rparr> in
         case data p of
           None \<Rightarrow> ret1 p
         | Some buf \<Rightarrow>
             if data_size p < len then err_too_small p
             else
               (case memcpy_at buf 0 val len of
                  None \<Rightarrow> Undefined
                | Some b \<Rightarrow>
                    if type = OSSL_PARAM_UTF8_STRING \<and> data_size p > len
                    then (case write_at b len 0 of
                            None \<Rightarrow> Undefined
                          | Some b' \<Rightarrow> ret1 (p\<lparr>data := Some b'\<rparr>))
                    else ret1 (p\<lparr>data := Some b\<rparr>))))"

definition OSSL_PARAM_set_utf8_string ::
  "OSSL_PARAM option \<Rightarrow> byte list option \<Rightarrow> OSSL_PARAM option call" where
  "OSSL_PARAM_set_utf8_string p val =
     (case p of
        None \<Rightarrow> err_null_argument p
      | Some q \<Rightarrow>
          (case val of
             None \<Rightarrow> err_null_argument p
           | Some s \<Rightarrow>
               (case strlen s of
                  None \<Rightarrow> Undefined
                | Some len \<Rightarrow>
                    map_state Some
                      (set_string_internal (q\<lparr>return_size := 0\<rparr>) s len
                         OSSL_PARAM_UTF8_STRING))))"

definition OSSL_PARAM_set_octet_string ::
  "OSSL_PARAM option \<Rightarrow> byte list option \<Rightarrow> nat \<Rightarrow> OSSL_PARAM option call" where
  "OSSL_PARAM_set_octet_string p val len =
     (case p of
        None \<Rightarrow> err_null_argument p
      | Some q \<Rightarrow>
          (case val of
             None \<Rightarrow> err_null_argument p
           | Some s \<Rightarrow>
               map_state Some
                 (set_string_internal (q\<lparr>return_size := 0\<rparr>) s len
                    OSSL_PARAM_OCTET_STRING)))"

section \<open>Pointers\<close>

text \<open>
  A pointer handed to a setter is the address it holds, a word of 64 bits that is 0
  for \<^verbatim>\<open>NULL\<close>; a pointer whose referent is read as well comes with the memory at
  that address, and is \<open>None\<close> for \<^verbatim>\<open>NULL\<close>. \<^verbatim>\<open>*(const void **)p->data = val\<close> stores
  the address in native byte order.
\<close>

definition set_ptr_internal ::
  "platform \<Rightarrow> OSSL_PARAM \<Rightarrow> 64 word \<Rightarrow> param_type \<Rightarrow> nat \<Rightarrow> OSSL_PARAM call" where
  "set_ptr_internal pl p val type len =
     (if data_type p \<noteq> type then err_bad_type p
      else
        (let p = p\<lparr>return_size := len\<rparr> in
         case data p of
           None \<Rightarrow> ret1 p
         | Some buf \<Rightarrow>
             (case store_word (IS_BIG_ENDIAN pl) buf val of
                None \<Rightarrow> Undefined
              | Some b \<Rightarrow> ret1 (p\<lparr>data := Some b\<rparr>))))"

definition OSSL_PARAM_set_utf8_ptr ::
  "platform \<Rightarrow> OSSL_PARAM option \<Rightarrow> (64 word \<times> byte list) option
   \<Rightarrow> OSSL_PARAM option call" where
  "OSSL_PARAM_set_utf8_ptr pl p val =
     (case p of
        None \<Rightarrow> err_null_argument None
      | Some q \<Rightarrow>
          (case (case val of None \<Rightarrow> Some 0 | Some (a, s) \<Rightarrow> strlen s) of
             None \<Rightarrow> Undefined
           | Some len \<Rightarrow>
               map_state Some
                 (set_ptr_internal pl (q\<lparr>return_size := 0\<rparr>)
                    (case val of None \<Rightarrow> 0 | Some (a, s) \<Rightarrow> a)
                    OSSL_PARAM_UTF8_PTR len)))"

definition OSSL_PARAM_set_octet_ptr ::
  "platform \<Rightarrow> OSSL_PARAM option \<Rightarrow> 64 word \<Rightarrow> nat \<Rightarrow> OSSL_PARAM option call" where
  "OSSL_PARAM_set_octet_ptr pl p val used_len =
     (case p of
        None \<Rightarrow> err_null_argument None
      | Some q \<Rightarrow>
          map_state Some
            (set_ptr_internal pl (q\<lparr>return_size := 0\<rparr>) val OSSL_PARAM_OCTET_PTR used_len))"

definition OSSL_PARAM_set_octet_string_or_ptr ::
  "platform \<Rightarrow> OSSL_PARAM option \<Rightarrow> (64 word \<times> byte list) option \<Rightarrow> nat
   \<Rightarrow> OSSL_PARAM option call" where
  "OSSL_PARAM_set_octet_string_or_ptr pl p val len =
     (case p of
        None \<Rightarrow> err_null_argument None
      | Some q \<Rightarrow>
          if data_type q = OSSL_PARAM_OCTET_STRING
          then OSSL_PARAM_set_octet_string p (map_option snd val) len
          else if data_type q = OSSL_PARAM_OCTET_PTR
          then OSSL_PARAM_set_octet_ptr pl p (case val of None \<Rightarrow> 0 | Some (a, s) \<Rightarrow> a) len
          else err_bad_type p)"

section \<open>Concatenation of octet strings\<close>

text \<open>
  Modelled from the spec: the packet writer (\<^verbatim>\<open>WPACKET\<close>) is defined outside the
  sources at hand. It provides "start accumulation", "append bytes" and "finalize and
  report total length"; with a null sink it makes no copy and only accumulates the
  length, with a static buffer it appends into the buffer and refuses what does not
  fit. \<open>None\<close> is a call that returns 0.
\<close>

record WPACKET =
  staticbuf :: "byte list option"
  maxsize :: nat
  written :: nat

definition WPACKET_init_null :: "nat \<Rightarrow> WPACKET option" where
  "WPACKET_init_null lenbytes = Some \<lparr>staticbuf = None, maxsize = SIZE_MAX, written = 0\<rparr>"

definition WPACKET_init_static_len :: "byte list \<Rightarrow> nat \<Rightarrow> nat \<Rightarrow> WPACKET option" where
  "WPACKET_init_static_len buf len lenbytes =
     (if len = 0 then None
      else Some \<lparr>staticbuf = Some buf, maxsize = min len SIZE_MAX, written = 0\<rparr>)"

definition WPACKET_memcpy :: "WPACKET \<Rightarrow> byte list \<Rightarrow> nat \<Rightarrow> WPACKET option exec" where
  "WPACKET_memcpy pkt src len =
     (if maxsize pkt - written pkt < len then Defined None
      else (case staticbuf pkt of
              None \<Rightarrow> Defined (Some (pkt\<lparr>written := written pkt + len\<rparr>))
            | Some buf \<Rightarrow>
                (case memcpy_at buf (written pkt) src len of
                   None \<Rightarrow> Undefined
                 | Some b \<Rightarrow>
                     Defined (Some (pkt\<lparr>staticbuf := Some b,
                                          written := written pkt + len\<rparr>)))))"

definition WPACKET_get_total_written :: "WPACKET \<Rightarrow> nat option" where
  "WPACKET_get_total_written pkt = Some (written pkt)"

definition WPACKET_finish :: "WPACKET \<Rightarrow> bool" where
  "WPACKET_finish pkt = True"

text \<open>
  The loop of \<^verbatim>\<open>setbuf_fromparams\<close> over \<^verbatim>\<open>p[i]\<close>, \<^verbatim>\<open>i < n\<close>; \<open>False\<close> is the jump
  to \<^verbatim>\<open>err\<close>. The array \<^verbatim>\<open>p\<close> is the list of the descriptors its entries point at.
\<close>

fun setbuf_loop :: "nat \<Rightarrow> OSSL_PARAM list \<Rightarrow> WPACKET \<Rightarrow> (bool \<times> WPACKET) exec" where
  "setbuf_loop 0 ps pkt = Defined (True, pkt)"
| "setbuf_loop (Suc n) [] pkt = Undefined"
| "setbuf_loop (Suc n) (p # ps) pkt =
     (if data_type p \<noteq> OSSL_PARAM_OCTET_STRING then Defined (False, pkt)
      else (case data p of
              None \<Rightarrow> setbuf_loop n ps pkt
            | Some src \<Rightarrow>
                if data_size p \<noteq> 0 then
                  (case WPACKET_memcpy pkt src (data_size p) of
                     Undefined \<Rightarrow> Undefined
                   | Defined None \<Rightarrow> Defined (False, pkt)
                   | Defined (Some pkt') \<Rightarrow> setbuf_loop n ps pkt')
                else setbuf_loop n ps pkt))"

text \<open>The state of \<^verbatim>\<open>setbuf_fromparams\<close> is the buffer \<^verbatim>\<open>out\<close> and \<^verbatim>\<open>*outlen\<close>.\<close>

definition setbuf_fromparams ::
  "nat \<Rightarrow> OSSL_PARAM list \<Rightarrow> byte list option \<Rightarrow> nat \<Rightarrow> (byte list option \<times> nat) call" where
  "setbuf_fromparams n p out outlen =
     (case (case out of
              None \<Rightarrow> WPACKET_init_null 0
            | Some buf \<Rightarrow> WPACKET_init_static_len buf outlen 0) of
        None \<Rightarrow> Defined (0, [], (out, outlen))
      | Some pkt \<Rightarrow>
          (case setbuf_loop n p pkt of
             Undefined \<Rightarrow> Undefined
           | Defined (False, pkt') \<Rightarrow> Defined (0, [], (staticbuf pkt', outlen))
           | Defined (True, pkt') \<Rightarrow>
               (case WPACKET_get_total_written pkt' of
                  None \<Rightarrow> Defined (0, [], (staticbuf pkt', outlen))
                | Some len \<Rightarrow>
                    if WPACKET_finish pkt'
                    then Defined (1, [], (staticbuf pkt', len))
                    else Defined (0, [], (staticbuf pkt', len)))))"

text \<open>
  The calls \<^verbatim>\<open>ossl_param_get1_concat_octet_string\<close> makes to the allocator, in order.
  Its state is \<^verbatim>\<open>*out\<close>, \<^verbatim>\<open>*out_len\<close> and these calls.
\<close>

datatype heap_event =
    OPENSSL_zalloc nat
  | OPENSSL_malloc nat
  | OPENSSL_clear_free "byte list option" nat

definition ossl_param_get1_concat_octet_string ::
  "(nat \<Rightarrow> byte list option) \<Rightarrow> nat \<Rightarrow> OSSL_PARAM list \<Rightarrow> byte list option \<Rightarrow> nat
   \<Rightarrow> (byte list option \<times> nat \<times> heap_event list) call" where
  "ossl_param_get1_concat_octet_string malloc n params out out_len =
     (if n = 0 then ret1 (out, out_len, [])
      else
        (case setbuf_fromparams n params None 0 of
           Undefined \<Rightarrow> Undefined
         | Defined (r, es, (sink, sz)) \<Rightarrow>
             if r = 0 then Defined (0, es, (out, out_len, []))
             else if sz = 0 then
               (case malloc 1 of
                  None \<Rightarrow> Defined (0, es, (out, out_len, [OPENSSL_zalloc 1]))
                | Some fresh \<Rightarrow>
                    Defined (1, es, (Some (replicate 1 0), sz,
                                     [OPENSSL_zalloc 1, OPENSSL_clear_free out out_len])))
             else
               (case malloc sz of
                  None \<Rightarrow> Defined (0, es, (out, out_len, [OPENSSL_malloc sz]))
                | Some fresh \<Rightarrow>
                    (case setbuf_fromparams n params (Some fresh) sz of
                       Undefined \<Rightarrow> Undefined
                     | Defined (r', es', (res, sz')) \<Rightarrow>
                         if r' = 0
                         then Defined (0, es @ es', (out, out_len,
                                       [OPENSSL_malloc sz, OPENSSL_clear_free res sz']))
                         else Defined (1, es @ es', (res, sz',
                                       [OPENSSL_malloc sz, OPENSSL_clear_free out out_len]))))))"

section \<open>Notions used to state the properties\<close>

text \<open>
  The signed value that a buffer of native bytes holds, in two's complement over the
  whole length of the buffer.
\<close>

definition native_sval :: "bool \<Rightarrow> byte list \<Rightarrow> int" where
  "native_sval be bs =
     (let x = int (native_val be bs); m = 2 ^ (8 * length bs)
      in if 2 * x < m then x else x - m)"

text \<open>
  The number of bytes a descriptor adds to a concatenation: its \<^verbatim>\<open>data_size\<close> when it
  has a buffer, nothing otherwise.
\<close>

definition octets :: "OSSL_PARAM \<Rightarrow> nat" where
  "octets p = (case data p of None \<Rightarrow> 0 | Some src \<Rightarrow> data_size p)"

section \<open>Concrete inputs\<close>

text \<open>
  A little-endian platform whose \<^verbatim>\<open>double\<close> is the IEEE 754 binary64 format: a sign
  bit, 11 bits of biased exponent and 52 bits of fraction. The conversion from an
  integer rounds to nearest, ties to even.
\<close>

fun floor_log2 :: "nat \<Rightarrow> nat" where
  "floor_log2 n = (if n < 2 then 0 else Suc (floor_log2 (n div 2)))"

declare floor_log2.simps [simp del]

definition binary64_of_int :: "int \<Rightarrow> 64 word" where
  "binary64_of_int i =
     (if i = 0 then 0
      else
        (let a = nat \<bar>i\<bar>;
             e = floor_log2 a;
             q = (if e \<le> 52 then a * 2 ^ (52 - e) else a div 2 ^ (e - 52));
             r = (if e \<le> 52 then 0 else a mod 2 ^ (e - 52));
             h = (if e \<le> 52 then 1 else 2 ^ (e - 53));
             q = (if h < r \<or> (r = h \<and> odd q) then q + 1 else q);
             e = (if q = 2 ^ 53 then e + 1 else e);
             f = (if q = 2 ^ 53 then 0 else q - 2 ^ 52)
         in word_of_nat ((if i < 0 then 2 ^ 63 else 0) + (e + 1023) * 2 ^ 52 + f)))"

definition binary64_trunc :: "64 word \<Rightarrow> int option" where
  "binary64_trunc d =
     (let x = unat d;
          e = x div 2 ^ 52 mod 2048;
          m = 2 ^ 52 + x mod 2 ^ 52;
          k = (if 1075 \<le> e then m * 2 ^ (e - 1075) else m div 2 ^ (1075 - e))
      in if e = 2047 then None
         else if e = 0 then Some 0
         else Some (if 2 ^ 63 \<le> x then - int k else int k))"

definition binary64_integral :: "64 word \<Rightarrow> int option" where
  "binary64_integral d =
     (let x = unat d;
          e = x div 2 ^ 52 mod 2048;
          m = 2 ^ 52 + x mod 2 ^ 52
      in if e = 2047 then None
         else if e = 0 then (if x mod 2 ^ 52 = 0 then Some 0 else None)
         else if e < 1075 \<and> m mod 2 ^ (1075 - e) \<noteq> 0 then None
         else binary64_trunc d)"

definition example_platform :: platform where
  "example_platform =
     \<lparr>IS_BIG_ENDIAN = False, double_of_int = binary64_of_int,
      int_of_double = binary64_integral, double_trunc = binary64_trunc\<rparr>"

definition example_param :: "param_type \<Rightarrow> nat \<Rightarrow> OSSL_PARAM" where
  "example_param t n =
     \<lparr>key = Some ''bits'', data_type = t, data = Some (replicate n 0),
      data_size = n, return_size = OSSL_PARAM_UNMODIFIED\<rparr>"

definition example_params :: "OSSL_PARAM list" where
  "example_params =
     [(example_param OSSL_PARAM_INTEGER 4)\<lparr>key := Some ''alpha''\<rparr>,
      (example_param OSSL_PARAM_INTEGER 4)\<lparr>key := Some ''beta''\<rparr>,
      (example_param OSSL_PARAM_OCTET_STRING 2)\<lparr>key := Some ''beta''\<rparr>,
      (example_param OSSL_PARAM_INTEGER 0)\<lparr>key := None\<rparr>]"

text \<open>A big-number library over \<open>int\<close>, for concrete inputs of \<^verbatim>\<open>OSSL_PARAM_set_BN\<close>.\<close>

fun num_bytes :: "nat \<Rightarrow> nat" where
  "num_bytes n = (if n = 0 then 0 else Suc (num_bytes (n div 256)))"

declare num_bytes.simps [simp del]

definition example_bn :: "int bn_lib" where
  "example_bn =
     \<lparr>BN_is_negative = (\<lambda>b. b < 0),
      BN_num_bytes = (\<lambda>b. num_bytes (nat \<bar>b\<bar>)),
      BN_bn2nativepad = (\<lambda>b n. if b < 0 \<or> n < num_bytes (nat b) then None
                                else Some (le_bytes n (nat b))),
      BN_signed_bn2native = (\<lambda>b n. if n < num_bytes (nat \<bar>b\<bar>) then None
                                    else Some (le_bytes n (nat (b mod 2 ^ (8 * n)))))\<rparr>"

section \<open>Properties of lookup\<close>

lemma of_char_zero: "(of_char y :: int) = 0 \<longleftrightarrow> y = CHR 0x00"
proof -
  have "(of_char (CHR 0x00) :: int) = 0" by simp
  then have "(of_char y :: int) = 0 \<longleftrightarrow> (of_char y :: int) = of_char (CHR 0x00)" by simp
  then show ?thesis by (simp only: of_char_eq_iff)
qed

lemma strcmp_exact:
  "CHR 0x00 \<notin> set a \<Longrightarrow> CHR 0x00 \<notin> set b \<Longrightarrow> strcmp a b = 0 \<longleftrightarrow> a = b"
proof (induction a b rule: strcmp.induct)
  case (4 x xs y ys)
  then show ?case by auto
qed (auto simp: of_char_zero)

lemma locate_loop_found:
  "i < length ps \<Longrightarrow> key (ps ! i) = Some ki \<Longrightarrow> strcmp k ki = 0 \<Longrightarrow>
   \<forall>j<i. \<exists>kj. key (ps ! j) = Some kj \<and> strcmp k kj \<noteq> 0 \<Longrightarrow>
   locate_loop ps k n = Defined (Some (n + i))"
proof (induction ps arbitrary: i n)
  case Nil
  then show ?case by simp
next
  case (Cons p ps)
  show ?case
  proof (cases i)
    case 0
    with Cons.prems show ?thesis by simp
  next
    case (Suc m)
    from Cons.prems Suc obtain k0 where k0: "key p = Some k0" "strcmp k k0 \<noteq> 0"
      by fastforce
    have later: "\<forall>j<m. \<exists>kj. key (ps ! j) = Some kj \<and> strcmp k kj \<noteq> 0"
    proof (intro allI impI)
      fix j assume "j < m"
      then have "Suc j < i" using Suc by simp
      with Cons.prems(4) show "\<exists>kj. key (ps ! j) = Some kj \<and> strcmp k kj \<noteq> 0"
        by fastforce
    qed
    have "locate_loop ps k (Suc n) = Defined (Some (Suc n + m))"
      using Cons.IH [of m "Suc n"] Cons.prems Suc later by simp
    with k0 Suc show ?thesis by simp
  qed
qed

lemma locate_loop_absent:
  "t < length ps \<Longrightarrow> key (ps ! t) = None \<Longrightarrow>
   \<forall>j<t. \<exists>kj. key (ps ! j) = Some kj \<and> strcmp k kj \<noteq> 0 \<Longrightarrow>
   locate_loop ps k n = Defined None"
proof (induction ps arbitrary: t n)
  case Nil
  then show ?case by simp
next
  case (Cons p ps)
  show ?case
  proof (cases t)
    case 0
    with Cons.prems show ?thesis by simp
  next
    case (Suc m)
    from Cons.prems Suc obtain k0 where k0: "key p = Some k0" "strcmp k k0 \<noteq> 0"
      by fastforce
    have later: "\<forall>j<m. \<exists>kj. key (ps ! j) = Some kj \<and> strcmp k kj \<noteq> 0"
    proof (intro allI impI)
      fix j assume "j < m"
      then have "Suc j < t" using Suc by simp
      with Cons.prems(3) show "\<exists>kj. key (ps ! j) = Some kj \<and> strcmp k kj \<noteq> 0"
        by fastforce
    qed
    have "locate_loop ps k (Suc n) = Defined None"
      using Cons.IH [of m "Suc n"] Cons.prems Suc later by simp
    with k0 show ?thesis by simp
  qed
qed

text \<open>
  C9. \<^verbatim>\<open>OSSL_PARAM_locate\<close> scans the array from its first entry and compares keys
  with \<^verbatim>\<open>strcmp\<close>, which is zero exactly for equal strings (no case folding). It
  returns the first entry whose key matches, also when a later entry has the same
  key, and returns \<^verbatim>\<open>NULL\<close> when the array or the key is \<^verbatim>\<open>NULL\<close> or when the
  terminating entry is reached before any match.
\<close>

theorem OSSL_PARAM_locate_first_match:
  "OSSL_PARAM_locate None k = Defined None
   \<and> OSSL_PARAM_locate p None = Defined None
   \<and> (i < length ps \<and> key (ps ! i) = Some ki \<and> strcmp s ki = 0
        \<and> (\<forall>j<i. \<exists>kj. key (ps ! j) = Some kj \<and> strcmp s kj \<noteq> 0)
      \<longrightarrow> OSSL_PARAM_locate (Some ps) (Some s) = Defined (Some i))
   \<and> (t < length ps \<and> key (ps ! t) = None
        \<and> (\<forall>j<t. \<exists>kj. key (ps ! j) = Some kj \<and> strcmp s kj \<noteq> 0)
      \<longrightarrow> OSSL_PARAM_locate (Some ps) (Some s) = Defined None)
   \<and> (CHR 0x00 \<notin> set a \<and> CHR 0x00 \<notin> set b \<longrightarrow> (strcmp a b = 0 \<longleftrightarrow> a = b))"
proof (intro conjI impI)
  show "OSSL_PARAM_locate None k = Defined None"
    by (simp add: OSSL_PARAM_locate_def)
  show "OSSL_PARAM_locate p None = Defined None"
    by (simp add: OSSL_PARAM_locate_def split: option.splits)
next
  assume "i < length ps \<and> key (ps ! i) = Some ki \<and> strcmp s ki = 0
        \<and> (\<forall>j<i. \<exists>kj. key (ps ! j) = Some kj \<and> strcmp s kj \<noteq> 0)"
  then show "OSSL_PARAM_locate (Some ps) (Some s) = Defined (Some i)"
    using locate_loop_found [of i ps ki s 0] by (simp add: OSSL_PARAM_locate_def)
next
  assume "t < length ps \<and> key (ps ! t) = None
        \<and> (\<forall>j<t. \<exists>kj. key (ps ! j) = Some kj \<and> strcmp s kj \<noteq> 0)"
  then show "OSSL_PARAM_locate (Some ps) (Some s) = Defined None"
    using locate_loop_absent [of t ps s 0] by (simp add: OSSL_PARAM_locate_def)
next
  assume "CHR 0x00 \<notin> set a \<and> CHR 0x00 \<notin> set b"
  then show "strcmp a b = 0 \<longleftrightarrow> a = b"
    using strcmp_exact [of a b] by simp
qed

theorem OSSL_PARAM_locate_first_match_witness:
  "key (example_params ! 1) = Some ''beta'' \<and> key (example_params ! 2) = Some ''beta''
   \<and> OSSL_PARAM_locate (Some example_params) (Some ''beta'') = Defined (Some 1)
   \<and> key (example_params ! 3) = None
   \<and> OSSL_PARAM_locate (Some example_params) (Some ''Beta'') = Defined None
   \<and> (strcmp ''beta'' ''Beta'' = 0 \<longleftrightarrow> ''beta'' = ''Beta'')"
proof -
  have found: "1 < length example_params \<and> key (example_params ! 1) = Some ''beta''
      \<and> strcmp ''beta'' ''beta'' = 0
      \<and> (\<forall>j<1. \<exists>kj. key (example_params ! j) = Some kj \<and> strcmp ''beta'' kj \<noteq> 0)"
    by (simp add: example_params_def example_param_def)
  have absent: "3 < length example_params \<and> key (example_params ! 3) = None
      \<and> (\<forall>j<3. \<exists>kj. key (example_params ! j) = Some kj \<and> strcmp ''Beta'' kj \<noteq> 0)"
    by (simp add: example_params_def example_param_def numeral_3_eq_3 All_less_Suc)
  have nul: "CHR 0x00 \<notin> set ''beta'' \<and> CHR 0x00 \<notin> set ''Beta''"
    by simp
  have second: "key (example_params ! 2) = Some ''beta''"
    by (simp add: example_params_def example_param_def)
  from OSSL_PARAM_locate_first_match
         [of None None 1 example_params "''beta''" "''beta''" 3 "''beta''" "''Beta''"]
       OSSL_PARAM_locate_first_match
         [of None None 1 example_params "''beta''" "''Beta''" 3 "''beta''" "''Beta''"]
       found absent nul second
  show ?thesis by blast
qed

text \<open>
  C10. \<^verbatim>\<open>OSSL_PARAM_modified(NULL)\<close> is 0, \<^verbatim>\<open>OSSL_PARAM_set_all_unmodified(NULL)\<close>
  returns without touching anything, and for a descriptor that is not \<^verbatim>\<open>NULL\<close>
  \<^verbatim>\<open>OSSL_PARAM_modified\<close> is true exactly when \<^verbatim>\<open>return_size\<close> differs from
  \<^verbatim>\<open>OSSL_PARAM_UNMODIFIED\<close>.
\<close>

theorem OSSL_PARAM_modified_total:
  "OSSL_PARAM_modified None = False
   \<and> OSSL_PARAM_set_all_unmodified None = Defined None
   \<and> OSSL_PARAM_modified (Some q) = (return_size q \<noteq> OSSL_PARAM_UNMODIFIED)"
  by (simp add: OSSL_PARAM_modified_def OSSL_PARAM_set_all_unmodified_def)

section \<open>Integers in memory\<close>

lemma length_le_bytes [simp]: "length (le_bytes n x) = n"
  by (induction n arbitrary: x) simp_all

lemma length_native_bytes [simp]: "length (native_bytes be n x) = n"
  by (simp add: native_bytes_def)

lemma le_val_le_bytes: "le_val (le_bytes n x) = x mod 256 ^ n"
proof (induction n arbitrary: x)
  case 0
  then show ?case by simp
next
  case (Suc n)
  have "unat (of_nat (x mod 256) :: byte) = x mod 256"
    by (simp add: unat_of_nat)
  then have "le_val (le_bytes (Suc n) x) = x mod 256 + 256 * ((x div 256) mod 256 ^ n)"
    by (simp add: Suc.IH)
  also have "\<dots> = x mod (256 * 256 ^ n)"
    by (simp add: mod_mult2_eq)
  finally show ?case by simp
qed

lemma native_val_native_bytes: "native_val be (native_bytes be n x) = x mod 256 ^ n"
  by (simp add: native_val_def native_bytes_def le_val_le_bytes)

lemma store_word32_fits:
  "4 \<le> length buf \<Longrightarrow>
   store_word be buf (w :: 32 word) = Some (native_bytes be 4 (unat w) @ drop 4 buf)"
  by (simp add: store_word_def memcpy_at_def)

lemma store_word64_fits:
  "8 \<le> length buf \<Longrightarrow>
   store_word be buf (w :: 64 word) = Some (native_bytes be 8 (unat w) @ drop 8 buf)"
  by (simp add: store_word_def memcpy_at_def)

lemma load_store32:
  "store_word be buf (w :: 32 word) = Some b \<Longrightarrow> load_word be b = Some w"
proof -
  assume a: "store_word be buf w = Some b"
  have "unat w < 2 ^ 32"
    using unsigned_less [of w, where 'a = nat] by simp
  then have m: "unat w mod 4294967296 = unat w" by simp
  from a have b: "b = native_bytes be 4 (unat w) @ drop 4 buf" and l: "4 \<le> length buf"
    by (auto simp: store_word_def memcpy_at_def split: if_splits)
  show ?thesis
    unfolding load_word_def b
    by (simp add: native_val_native_bytes m)
qed

lemma load_store64:
  "store_word be buf (w :: 64 word) = Some b \<Longrightarrow> load_word be b = Some w"
proof -
  assume a: "store_word be buf w = Some b"
  have "unat w < 2 ^ 64"
    using unsigned_less [of w, where 'a = nat] by simp
  then have m: "unat w mod 18446744073709551616 = unat w" by simp
  from a have b: "b = native_bytes be 8 (unat w) @ drop 8 buf" and l: "8 \<le> length buf"
    by (auto simp: store_word_def memcpy_at_def split: if_splits)
  show ?thesis
    unfolding load_word_def b
    by (simp add: native_val_native_bytes m)
qed

section \<open>Round trip through a descriptor\<close>

lemma set_get_int32:
  assumes "data_type p = OSSL_PARAM_INTEGER" "data_size p = 4" "data p = Some buf" "length buf = 4"
  shows "\<exists>p'. OSSL_PARAM_set_int32 pl (Some p) w = ret1 (Some p')
            \<and> OSSL_PARAM_get_int32 pl (Some p') (Some v) = ret1 (Some p', Some w)"
proof -
  let ?b = "native_bytes (IS_BIG_ENDIAN pl) 4 (unat w)"
  let ?p = "p\<lparr>return_size := 4, data := Some ?b\<rparr>"
  have st: "store_word (IS_BIG_ENDIAN pl) buf w = Some ?b"
    using assms by (simp add: store_word32_fits)
  have ld: "load_word (IS_BIG_ENDIAN pl) ?b = Some w"
    using st by (rule load_store32)
  have "OSSL_PARAM_set_int32 pl (Some p) w = ret1 (Some ?p)"
    using assms st by (simp add: OSSL_PARAM_set_int32_def map_state_def)
  moreover have "OSSL_PARAM_get_int32 pl (Some ?p) (Some v) = ret1 (Some ?p, Some w)"
    using assms ld by (simp add: OSSL_PARAM_get_int32_def)
  ultimately show ?thesis by blast
qed

lemma set_get_uint32:
  assumes "data_type p = OSSL_PARAM_UNSIGNED_INTEGER" "data_size p = 4" "data p = Some buf" "length buf = 4"
  shows "\<exists>p'. OSSL_PARAM_set_uint32 pl (Some p) w = ret1 (Some p')
            \<and> OSSL_PARAM_get_uint32 pl (Some p') (Some v) = ret1 (Some p', Some w)"
proof -
  let ?b = "native_bytes (IS_BIG_ENDIAN pl) 4 (unat w)"
  let ?p = "p\<lparr>return_size := 4, data := Some ?b\<rparr>"
  have st: "store_word (IS_BIG_ENDIAN pl) buf w = Some ?b"
    using assms by (simp add: store_word32_fits)
  have ld: "load_word (IS_BIG_ENDIAN pl) ?b = Some w"
    using st by (rule load_store32)
  have "OSSL_PARAM_set_uint32 pl (Some p) w = ret1 (Some ?p)"
    using assms st by (simp add: OSSL_PARAM_set_uint32_def map_state_def)
  moreover have "OSSL_PARAM_get_uint32 pl (Some ?p) (Some v) = ret1 (Some ?p, Some w)"
    using assms ld by (simp add: OSSL_PARAM_get_uint32_def)
  ultimately show ?thesis by blast
qed

lemma set_get_int64:
  assumes "data_type p = OSSL_PARAM_INTEGER" "data_size p = 8" "data p = Some buf" "length buf = 8"
  shows "\<exists>p'. OSSL_PARAM_set_int64 pl (Some p) w = ret1 (Some p')
            \<and> OSSL_PARAM_get_int64 pl (Some p') (Some v) = ret1 (Some p', Some w)"
proof -
  let ?b = "native_bytes (IS_BIG_ENDIAN pl) 8 (unat w)"
  let ?p = "p\<lparr>return_size := 8, data := Some ?b\<rparr>"
  have st: "store_word (IS_BIG_ENDIAN pl) buf w = Some ?b"
    using assms by (simp add: store_word64_fits)
  have ld: "load_word (IS_BIG_ENDIAN pl) ?b = Some w"
    using st by (rule load_store64)
  have "OSSL_PARAM_set_int64 pl (Some p) w = ret1 (Some ?p)"
    using assms st by (simp add: OSSL_PARAM_set_int64_def map_state_def)
  moreover have "OSSL_PARAM_get_int64 pl (Some ?p) (Some v) = ret1 (Some ?p, Some w)"
    using assms ld by (simp add: OSSL_PARAM_get_int64_def)
  ultimately show ?thesis by blast
qed

lemma set_get_uint64:
  assumes "data_type p = OSSL_PARAM_UNSIGNED_INTEGER" "data_size p = 8" "data p = Some buf" "length buf = 8"
  shows "\<exists>p'. OSSL_PARAM_set_uint64 pl (Some p) w = ret1 (Some p')
            \<and> OSSL_PARAM_get_uint64 pl (Some p') (Some v) = ret1 (Some p', Some w)"
proof -
  let ?b = "native_bytes (IS_BIG_ENDIAN pl) 8 (unat w)"
  let ?p = "p\<lparr>return_size := 8, data := Some ?b\<rparr>"
  have st: "store_word (IS_BIG_ENDIAN pl) buf w = Some ?b"
    using assms by (simp add: store_word64_fits)
  have ld: "load_word (IS_BIG_ENDIAN pl) ?b = Some w"
    using st by (rule load_store64)
  have "OSSL_PARAM_set_uint64 pl (Some p) w = ret1 (Some ?p)"
    using assms st by (simp add: OSSL_PARAM_set_uint64_def map_state_def)
  moreover have "OSSL_PARAM_get_uint64 pl (Some ?p) (Some v) = ret1 (Some ?p, Some w)"
    using assms ld by (simp add: OSSL_PARAM_get_uint64_def)
  ultimately show ?thesis by blast
qed

text \<open>
  C1. For a descriptor of type \<^verbatim>\<open>INTEGER\<close> or \<^verbatim>\<open>UNSIGNED_INTEGER\<close> whose buffer has 4 or
  8 bytes, the setter of that width and signedness succeeds for every value of its
  argument type, and the getter of the same width and signedness then succeeds on the
  resulting descriptor and returns that value, whatever the caller's variable held
  before.
\<close>

theorem typed_set_get_roundtrip:
  assumes "data p = Some buf" and "length buf = data_size p"
  shows "(data_type p = OSSL_PARAM_INTEGER \<and> data_size p = 4 \<longrightarrow>
            (\<exists>p'. OSSL_PARAM_set_int32 pl (Some p) w32 = ret1 (Some p')
                \<and> OSSL_PARAM_get_int32 pl (Some p') (Some v32) = ret1 (Some p', Some w32)))
       \<and> (data_type p = OSSL_PARAM_UNSIGNED_INTEGER \<and> data_size p = 4 \<longrightarrow>
            (\<exists>p'. OSSL_PARAM_set_uint32 pl (Some p) w32 = ret1 (Some p')
                \<and> OSSL_PARAM_get_uint32 pl (Some p') (Some v32) = ret1 (Some p', Some w32)))
       \<and> (data_type p = OSSL_PARAM_INTEGER \<and> data_size p = 8 \<longrightarrow>
            (\<exists>p'. OSSL_PARAM_set_int64 pl (Some p) w64 = ret1 (Some p')
                \<and> OSSL_PARAM_get_int64 pl (Some p') (Some v64) = ret1 (Some p', Some w64)))
       \<and> (data_type p = OSSL_PARAM_UNSIGNED_INTEGER \<and> data_size p = 8 \<longrightarrow>
            (\<exists>p'. OSSL_PARAM_set_uint64 pl (Some p) w64 = ret1 (Some p')
                \<and> OSSL_PARAM_get_uint64 pl (Some p') (Some v64) = ret1 (Some p', Some w64)))"
  using assms set_get_int32 [of p buf pl w32 v32] set_get_uint32 [of p buf pl w32 v32]
    set_get_int64 [of p buf pl w64 v64] set_get_uint64 [of p buf pl w64 v64]
  by simp

theorem typed_set_get_roundtrip_witness:
  "(\<exists>p'. OSSL_PARAM_set_int32 example_platform
            (Some (example_param OSSL_PARAM_INTEGER 4)) (- 2) = ret1 (Some p')
        \<and> OSSL_PARAM_get_int32 example_platform (Some p') (Some 0) = ret1 (Some p', Some (- 2)))
   \<and> (\<exists>p'. OSSL_PARAM_set_uint64 example_platform
            (Some (example_param OSSL_PARAM_UNSIGNED_INTEGER 8)) (2 ^ 64 - 1) = ret1 (Some p')
        \<and> OSSL_PARAM_get_uint64 example_platform (Some p') (Some 0)
            = ret1 (Some p', Some (2 ^ 64 - 1)))"
proof -
  have a: "data (example_param OSSL_PARAM_INTEGER 4) = Some (replicate 4 0)"
    "length (replicate 4 (0 :: byte)) = data_size (example_param OSSL_PARAM_INTEGER 4)"
    "data_type (example_param OSSL_PARAM_INTEGER 4) = OSSL_PARAM_INTEGER
     \<and> data_size (example_param OSSL_PARAM_INTEGER 4) = 4"
    by (simp_all add: example_param_def)
  have b: "data (example_param OSSL_PARAM_UNSIGNED_INTEGER 8) = Some (replicate 8 0)"
    "length (replicate 8 (0 :: byte)) = data_size (example_param OSSL_PARAM_UNSIGNED_INTEGER 8)"
    "data_type (example_param OSSL_PARAM_UNSIGNED_INTEGER 8) = OSSL_PARAM_UNSIGNED_INTEGER
     \<and> data_size (example_param OSSL_PARAM_UNSIGNED_INTEGER 8) = 8"
    by (simp_all add: example_param_def)
  from typed_set_get_roundtrip [OF a(1) a(2), of example_platform "- 2" 0] a(3)
  have "\<exists>p'. OSSL_PARAM_set_int32 example_platform
            (Some (example_param OSSL_PARAM_INTEGER 4)) (- 2) = ret1 (Some p')
        \<and> OSSL_PARAM_get_int32 example_platform (Some p') (Some 0) = ret1 (Some p', Some (- 2))"
    by blast
  moreover
  from typed_set_get_roundtrip [OF b(1) b(2), of example_platform _ _ "2 ^ 64 - 1" 0] b(3)
  have "\<exists>p'. OSSL_PARAM_set_uint64 example_platform
            (Some (example_param OSSL_PARAM_UNSIGNED_INTEGER 8)) (2 ^ 64 - 1) = ret1 (Some p')
        \<and> OSSL_PARAM_get_uint64 example_platform (Some p') (Some 0)
            = ret1 (Some p', Some (2 ^ 64 - 1))"
    by blast
  ultimately show ?thesis by blast
qed


section \<open>Shortening a signed integer\<close>

lemma byte_bit7: "bit (b :: byte) 7 \<longleftrightarrow> 128 \<le> unat b"
proof -
  have lt: "unat b < 256" using unsigned_less [of b, where 'a = nat] by simp
  then have d2: "unat b div 128 < 2" by simp
  have d0: "unat b div 128 = 0 \<longleftrightarrow> unat b < 128" by (simp add: div_eq_0_iff)
  have "bit b 7 \<longleftrightarrow> bit (unat b) 7" by (simp add: bit_unsigned_iff)
  also have "\<dots> \<longleftrightarrow> odd (unat b div 128)" by (simp add: bit_iff_odd)
  also have "\<dots> \<longleftrightarrow> unat b div 128 \<noteq> 0"
    using d2 by (cases "unat b div 128 = 0") (auto simp: less_2_cases_iff)
  also have "\<dots> \<longleftrightarrow> 128 \<le> unat b" using d0 by auto
  finally show ?thesis .
qed

lemma and_0x80: "((b :: byte) AND 0x80 = 0) \<longleftrightarrow> unat b < 128"
proof -
  have "(b AND 0x80 = 0) = (b AND 2 ^ 7 = 0)" by simp
  also have "\<dots> \<longleftrightarrow> \<not> bit b 7" by (simp only: and_exp_eq_0_iff_not_bit)
  finally show ?thesis by (simp add: byte_bit7 not_le)
qed

lemma xor_ff_and_0x80: "(((0xff :: byte) XOR b) AND 0x80 = 0) \<longleftrightarrow> 128 \<le> unat b"
proof -
  have ff: "(0xff :: byte) = - 1" by simp
  have "(((0xff :: byte) XOR b) AND 0x80 = 0) = ((NOT b) AND 2 ^ 7 = 0)"
    unfolding ff by simp
  also have "\<dots> \<longleftrightarrow> \<not> bit (NOT b) 7" by (simp only: and_exp_eq_0_iff_not_bit)
  also have "\<dots> \<longleftrightarrow> bit b 7" by (simp add: bit_not_iff)
  finally show ?thesis by (simp add: byte_bit7)
qed

lemma uint_byte_bounds: "0 \<le> uint (b :: byte) \<and> uint b < 256"
  using unsigned_less [of b, where 'a = int] by simp

lemma list8:
  "length (src :: 'a list) = 8 \<Longrightarrow> \<exists>b0 b1 b2 b3 b4 b5 b6 b7. src = [b0, b1, b2, b3, b4, b5, b6, b7]"
  by (auto simp: length_Suc_conv eval_nat_numeral)

lemma check_sign_bytes4:
  "check_sign_bytes (a # b # c # d # rest) 4 s = Some (a = s \<and> b = s \<and> c = s \<and> d = s)"
  by (simp add: eval_nat_numeral)


lemma unat_uint_less128: "unat (b::byte) < 128 \<longleftrightarrow> uint b < 128"
proof -
  have "uint b = int (unat b)" by (rule uint_nat)
  then show ?thesis by linarith
qed

lemma unat_uint_ge128: "128 \<le> unat (b::byte)  \<longleftrightarrow> 128 \<le> uint b"
proof -
  have "uint b = int (unat b)" by (rule uint_nat)
  then show ?thesis by linarith
qed

lemma sval_le8:
  "native_sval False [b0, b1, b2, b3, b4, b5, b6, b7] =
     (let x = uint b0 + 256 * uint b1 + 65536 * uint b2 + 16777216 * uint b3
              + 4294967296 * uint b4 + 1099511627776 * uint b5
              + 281474976710656 * uint b6 + 72057594037927936 * uint b7
      in if x < 9223372036854775808 then x else x - 18446744073709551616)"
  by (simp add: native_sval_def native_val_def Let_def)

lemma sign_lost_at:
  "i < length src \<Longrightarrow>
   sign_lost True pad src (Some i) = Some ((pad XOR src ! i) AND 0x80 \<noteq> 0)"
  by (simp add: sign_lost_def read_at_def)

lemma copy_integer_le_0:
  assumes "\<not> (b4 = 0 \<and> b5 = 0 \<and> b6 = 0 \<and> b7 = 0 \<and> uint b3 < 128)"
  shows "copy_integer False dest 4 [b0, b1, b2, b3, b4, b5, b6, b7] 8 0 True
         = err_out_of_range dest"
proof (cases "b4 = 0 \<and> b5 = 0 \<and> b6 = 0 \<and> b7 = 0")
  case True
  with assms have "b3 AND 0x80 \<noteq> 0"
    by (simp add: and_0x80 unat_uint_less128)
  with True show ?thesis
    by (simp add: copy_integer_def check_sign_bytes4 sign_lost_at)
next
  case False
  then have "check_sign_bytes [b4, b5, b6, b7] 4 0 = Some False"
    by (simp only: check_sign_bytes4)
  then show ?thesis
    by (simp add: copy_integer_def)
qed

lemma copy_integer_le_ff:
  assumes "\<not> (b4 = 0xff \<and> b5 = 0xff \<and> b6 = 0xff \<and> b7 = 0xff \<and> 128 \<le> uint b3)"
  shows "copy_integer False dest 4 [b0, b1, b2, b3, b4, b5, b6, b7] 8 0xff True
         = err_out_of_range dest"
proof (cases "b4 = 0xff \<and> b5 = 0xff \<and> b6 = 0xff \<and> b7 = 0xff")
  case True
  with assms have "(0xff XOR b3) AND 0x80 \<noteq> 0"
    by (simp add: xor_ff_and_0x80 unat_uint_ge128)
  with True show ?thesis
    by (simp add: copy_integer_def check_sign_bytes4 sign_lost_at)
next
  case False
  then have "check_sign_bytes [b4, b5, b6, b7] 4 0xff = Some False"
    by (simp only: check_sign_bytes4)
  then show ?thesis
    by (simp add: copy_integer_def)
qed


lemma copy_integer_be_0:
  assumes "\<not> (b0 = 0 \<and> b1 = 0 \<and> b2 = 0 \<and> b3 = 0 \<and> uint b4 < 128)"
  shows "copy_integer True dest 4 [b0, b1, b2, b3, b4, b5, b6, b7] 8 0 True
         = err_out_of_range dest"
proof (cases "b0 = 0 \<and> b1 = 0 \<and> b2 = 0 \<and> b3 = 0")
  case True
  with assms have "b4 AND 0x80 \<noteq> 0"
    by (simp add: and_0x80 unat_uint_less128)
  with True show ?thesis
    by (simp add: copy_integer_def check_sign_bytes4 sign_lost_at)
next
  case False
  then have "check_sign_bytes [b0, b1, b2, b3, b4, b5, b6, b7] 4 0 = Some False"
    by (simp only: check_sign_bytes4)
  then show ?thesis
    by (simp add: copy_integer_def)
qed

lemma copy_integer_be_ff:
  assumes "\<not> (b0 = 0xff \<and> b1 = 0xff \<and> b2 = 0xff \<and> b3 = 0xff \<and> 128 \<le> uint b4)"
  shows "copy_integer True dest 4 [b0, b1, b2, b3, b4, b5, b6, b7] 8 0xff True
         = err_out_of_range dest"
proof (cases "b0 = 0xff \<and> b1 = 0xff \<and> b2 = 0xff \<and> b3 = 0xff")
  case True
  with assms have "(0xff XOR b4) AND 0x80 \<noteq> 0"
    by (simp add: xor_ff_and_0x80 unat_uint_ge128)
  with True show ?thesis
    by (simp add: copy_integer_def check_sign_bytes4 sign_lost_at)
next
  case False
  then have "check_sign_bytes [b0, b1, b2, b3, b4, b5, b6, b7] 4 0xff = Some False"
    by (simp only: check_sign_bytes4)
  then show ?thesis
    by (simp add: copy_integer_def)
qed

lemma sval_be8:
  "native_sval True [b7, b6, b5, b4, b3, b2, b1, b0] =
     native_sval False [b0, b1, b2, b3, b4, b5, b6, b7]"
  by (simp add: native_sval_def native_val_def)

lemma low_word_in_range:
  fixes x0 x1 x2 x3 :: int
  assumes "0 \<le> x0" "x0 < 256" "0 \<le> x1" "x1 < 256" "0 \<le> x2" "x2 < 256" "0 \<le> x3" "x3 < 128"
    and "x = x0 + 256 * x1 + 65536 * x2 + 16777216 * x3"
  shows "- 2147483648 \<le> (if x < 9223372036854775808 then x else x - 18446744073709551616)
       \<and> (if x < 9223372036854775808 then x else x - 18446744073709551616) \<le> 2147483647"
  using assms by simp

lemma high_word_in_range:
  fixes x0 x1 x2 x3 :: int
  assumes "0 \<le> x0" "x0 < 256" "0 \<le> x1" "x1 < 256" "0 \<le> x2" "x2 < 256"
    "128 \<le> x3" "x3 < 256"
    and "x = x0 + 256 * x1 + 65536 * x2 + 16777216 * x3 + 18446744069414584320"
  shows "- 2147483648 \<le> (if x < 9223372036854775808 then x else x - 18446744073709551616)
       \<and> (if x < 9223372036854775808 then x else x - 18446744073709551616) \<le> 2147483647"
  using assms by simp

lemma sval_le8_low:
  assumes "uint b3 < 128"
  shows "INT32_MIN \<le> native_sval False [b0, b1, b2, b3, 0, 0, 0, 0]
       \<and> native_sval False [b0, b1, b2, b3, 0, 0, 0, 0] \<le> INT32_MAX"
proof -
  let ?x = "uint b0 + 256 * uint b1 + 65536 * uint b2 + 16777216 * uint b3"
  have "- 2147483648 \<le> (if ?x < 9223372036854775808 then ?x else ?x - 18446744073709551616)
       \<and> (if ?x < 9223372036854775808 then ?x else ?x - 18446744073709551616) \<le> 2147483647"
    using assms uint_byte_bounds [of b0] uint_byte_bounds [of b1] uint_byte_bounds [of b2]
      uint_byte_bounds [of b3]
    by (intro low_word_in_range [of "uint b0" "uint b1" "uint b2" "uint b3"]) simp_all
  then show ?thesis
    by (simp add: sval_le8 Let_def INT32_MIN_def INT32_MAX_def split: if_splits)
qed

lemma sval_le8_high:
  assumes "128 \<le> uint b3"
  shows "INT32_MIN \<le> native_sval False [b0, b1, b2, b3, 0xff, 0xff, 0xff, 0xff]
       \<and> native_sval False [b0, b1, b2, b3, 0xff, 0xff, 0xff, 0xff] \<le> INT32_MAX"
proof -
  let ?x = "uint b0 + 256 * uint b1 + 65536 * uint b2 + 16777216 * uint b3
            + 18446744069414584320"
  have "- 2147483648 \<le> (if ?x < 9223372036854775808 then ?x else ?x - 18446744073709551616)
       \<and> (if ?x < 9223372036854775808 then ?x else ?x - 18446744073709551616) \<le> 2147483647"
    using assms uint_byte_bounds [of b0] uint_byte_bounds [of b1] uint_byte_bounds [of b2]
      uint_byte_bounds [of b3]
    by (intro high_word_in_range [of "uint b0" "uint b1" "uint b2" "uint b3"]) simp_all
  then show ?thesis
    by (simp add: sval_le8 Let_def INT32_MIN_def INT32_MAX_def split: if_splits)
qed

lemma copy_integer_rejects8:
  assumes pad: "pad = 0 \<or> pad = 0xff"
    and rng: "native_sval be [b0, b1, b2, b3, b4, b5, b6, b7] < INT32_MIN
              \<or> INT32_MAX < native_sval be [b0, b1, b2, b3, b4, b5, b6, b7]"
  shows "copy_integer be dest 4 [b0, b1, b2, b3, b4, b5, b6, b7] 8 pad True
         = err_out_of_range dest"
proof (cases be)
  case False
  have z: "\<not> (b4 = 0 \<and> b5 = 0 \<and> b6 = 0 \<and> b7 = 0 \<and> uint b3 < 128)"
    using rng sval_le8_low [of b3 b0 b1 b2] False by auto
  have f: "\<not> (b4 = 0xff \<and> b5 = 0xff \<and> b6 = 0xff \<and> b7 = 0xff \<and> 128 \<le> uint b3)"
    using rng sval_le8_high [of b3 b0 b1 b2] False by auto
  from pad z f False show ?thesis
    using copy_integer_le_0 [of b4 b5 b6 b7 b3 dest b0 b1 b2]
      copy_integer_le_ff [of b4 b5 b6 b7 b3 dest b0 b1 b2]
    by (elim disjE) simp_all
next
  case True
  have r: "native_sval True [b0, b1, b2, b3, b4, b5, b6, b7]
           = native_sval False [b7, b6, b5, b4, b3, b2, b1, b0]"
    by (rule sval_be8)
  have z: "\<not> (b0 = 0 \<and> b1 = 0 \<and> b2 = 0 \<and> b3 = 0 \<and> uint b4 < 128)"
    using rng sval_le8_low [of b4 b7 b6 b5] True r by auto
  have f: "\<not> (b0 = 0xff \<and> b1 = 0xff \<and> b2 = 0xff \<and> b3 = 0xff \<and> 128 \<le> uint b4)"
    using rng sval_le8_high [of b4 b7 b6 b5] True r by auto
  from pad z f True show ?thesis
    using copy_integer_be_0 [of b0 b1 b2 b3 b4 dest b5 b6 b7]
      copy_integer_be_ff [of b0 b1 b2 b3 b4 dest b5 b6 b7]
    by (elim disjE) simp_all
qed

lemma is_negative8:
  "\<exists>neg. is_negative be [b0, b1, b2, b3, b4, b5, b6, b7] 8 = Some neg"
  by (simp add: is_negative_def read_at_def)

text \<open>
  C5. When an 8-byte source holds a signed value outside the range of a 4-byte signed
  integer, \<^verbatim>\<open>copy_integer\<close> to a 4-byte destination in signed mode, with the pad byte
  \<^verbatim>\<open>0x00\<close> or \<^verbatim>\<open>0xff\<close> that its callers pass, returns 0, raises
  \<^verbatim>\<open>CRYPTO_R_PARAM_VALUE_TOO_LARGE_FOR_DESTINATION\<close> and leaves every byte of the
  destination as it was; so does \<^verbatim>\<open>signed_from_signed\<close>, which chooses the pad byte
  from the sign of the source. This holds on either byte order and for any destination.
\<close>

theorem copy_integer_truncation_rejected:
  assumes "length src = 8" and "pad = 0 \<or> pad = 0xff"
    and "native_sval be src < INT32_MIN \<or> INT32_MAX < native_sval be src"
  shows "copy_integer be dest 4 src 8 pad True = err_out_of_range dest
       \<and> signed_from_signed be dest 4 src 8 = err_out_of_range dest"
proof -
  from assms(1) obtain b0 b1 b2 b3 b4 b5 b6 b7 where
    src: "src = [b0, b1, b2, b3, b4, b5, b6, b7]"
    using list8 by blast
  have any: "\<And>q. q = 0 \<or> q = 0xff \<Longrightarrow>
      copy_integer be dest 4 src 8 q True = err_out_of_range dest"
    using assms(3) unfolding src by (rule copy_integer_rejects8 [rotated])
  obtain neg where "is_negative be src 8 = Some neg"
    unfolding src using is_negative8 by blast
  then have "signed_from_signed be dest 4 src 8 = err_out_of_range dest"
    using any [of "if neg then 0xff else 0"] by (simp add: signed_from_signed_def)
  with any [OF assms(2)] show ?thesis by simp
qed

theorem copy_integer_truncation_rejected_witness:
  "length [0, 0, 0, 0x80, 0, 0, 0, 0 :: byte] = 8
   \<and> INT32_MAX < native_sval False [0, 0, 0, 0x80, 0, 0, 0, 0]
   \<and> copy_integer False [1, 2, 3, 4] 4 [0, 0, 0, 0x80, 0, 0, 0, 0] 8 0 True
       = err_out_of_range [1, 2, 3, 4]
   \<and> signed_from_signed False [1, 2, 3, 4] 4 [0, 0, 0, 0x80, 0, 0, 0, 0] 8
       = err_out_of_range [1, 2, 3, 4]"
proof -
  have l: "length [0, 0, 0, 0x80, 0, 0, 0, 0 :: byte] = 8" by simp
  have p: "(0 :: byte) = 0 \<or> (0 :: byte) = 0xff" by simp
  have r: "native_sval False [0, 0, 0, 0x80, 0, 0, 0, 0] < INT32_MIN
           \<or> INT32_MAX < native_sval False [0, 0, 0, 0x80, 0, 0, 0, 0]"
    by (simp add: native_sval_def native_val_def INT32_MAX_def)
  have r': "INT32_MAX < native_sval False [0, 0, 0, 0x80, 0, 0, 0, 0]"
    by (simp add: native_sval_def native_val_def INT32_MAX_def)
  from copy_integer_truncation_rejected [OF l p r, of "[1, 2, 3, 4]"] l r'
  show ?thesis by blast
qed


section \<open>Negative values and unsigned descriptors\<close>



lemma set_int32_negative_unsigned:
  assumes "data_type p = OSSL_PARAM_UNSIGNED_INTEGER" "sint v < 0"
  shows "OSSL_PARAM_set_int32 pl (Some p) v = err_bad_type (Some (p\<lparr>return_size := 0\<rparr>))"
  using assms by (simp add: OSSL_PARAM_set_int32_def map_state_def)

lemma set_int64_negative_unsigned:
  assumes "data_type p = OSSL_PARAM_UNSIGNED_INTEGER" "sint v < 0"
  shows "OSSL_PARAM_set_int64 pl (Some p) v = err_bad_type (Some (p\<lparr>return_size := 0\<rparr>))"
  using assms by (simp add: OSSL_PARAM_set_int64_def map_state_def)

lemma general_set_int_negative_unsigned:
  assumes "data_type p = OSSL_PARAM_UNSIGNED_INTEGER" "data p = Some buf"
    "is_negative be val val_size = Some True"
  shows "general_set_int be p val val_size = err_unsigned_negative (p\<lparr>return_size := val_size\<rparr>)"
  using assms by (simp add: general_set_int_def unsigned_from_signed_def)


lemma top_bit_0x80: "(0x80 AND (b :: byte) \<noteq> 0) \<longleftrightarrow> bit b 7"
proof -
  have "(0x80 AND b = 0) = (b AND 2 ^ 7 = 0)" by (simp add: and.commute)
  also have "\<dots> \<longleftrightarrow> \<not> bit b 7" by (simp only: and_exp_eq_0_iff_not_bit)
  finally show ?thesis by simp
qed

lemma le_bytes4:
  "le_bytes 4 x = [of_nat (x mod 256), of_nat (x div 256 mod 256),
                   of_nat (x div 256 div 256 mod 256), of_nat (x div 256 div 256 div 256 mod 256)]"
proof -
  have four: "(4 :: nat) = Suc (Suc (Suc (Suc 0)))" by simp
  show ?thesis unfolding four by (simp only: le_bytes.simps)
qed

lemma is_negative_native32:
  "is_negative be (native_bytes be 4 (unat (w :: 32 word))) 4 = Some (sint w < 0)"
proof -
  let ?x = "unat w"
  let ?top = "of_nat (?x div 256 div 256 div 256 mod 256) :: byte"
  have "?x div 256 div 256 div 256 mod 256 = take_bit 8 (drop_bit 24 ?x)"
    by (simp add: take_bit_eq_mod drop_bit_eq_div div_mult2_eq [symmetric])
  then have "bit ?top 7 \<longleftrightarrow> bit ?x 31"
    by (simp only: bit_of_nat_iff bit_take_bit_iff bit_drop_bit_eq) simp
  also have "\<dots> \<longleftrightarrow> bit w 31" by (simp add: bit_unsigned_iff)
  also have "\<dots> \<longleftrightarrow> sint w < 0" using bit_last_iff [of w] by simp
  finally have top: "(0x80 AND ?top \<noteq> 0) \<longleftrightarrow> sint w < 0"
    by (simp only: top_bit_0x80)
  show ?thesis
  proof (cases be)
    case True
    then have "is_negative be (native_bytes be 4 ?x) 4 = Some (0x80 AND ?top \<noteq> 0)"
      by (simp only: le_bytes4 native_bytes_def is_negative_def read_at_def) simp
    with top show ?thesis by simp
  next
    case False
    then have "is_negative be (native_bytes be 4 ?x) 4 = Some (0x80 AND ?top \<noteq> 0)"
      by (simp only: le_bytes4 native_bytes_def is_negative_def read_at_def) simp
    with top show ?thesis by simp
  qed
qed


lemma le_bytes8:
  "le_bytes 8 x = [of_nat (x mod 256), of_nat (x div 256 mod 256),
     of_nat (x div 256 div 256 mod 256), of_nat (x div 256 div 256 div 256 mod 256),
     of_nat (x div 256 div 256 div 256 div 256 mod 256),
     of_nat (x div 256 div 256 div 256 div 256 div 256 mod 256),
     of_nat (x div 256 div 256 div 256 div 256 div 256 div 256 mod 256),
     of_nat (x div 256 div 256 div 256 div 256 div 256 div 256 div 256 mod 256)]"
proof -
  have eight: "(8 :: nat) = Suc (Suc (Suc (Suc (Suc (Suc (Suc (Suc 0)))))))" by simp
  show ?thesis unfolding eight by (simp only: le_bytes.simps)
qed

lemma is_negative_native64:
  "is_negative be (native_bytes be 8 (unat (w :: 64 word))) 8 = Some (sint w < 0)"
proof -
  let ?x = "unat w"
  let ?top = "of_nat (?x div 256 div 256 div 256 div 256 div 256 div 256 div 256 mod 256) :: byte"
  have "?x div 256 div 256 div 256 div 256 div 256 div 256 div 256 mod 256
        = take_bit 8 (drop_bit 56 ?x)"
    by (simp add: take_bit_eq_mod drop_bit_eq_div div_mult2_eq [symmetric])
  then have "bit ?top 7 \<longleftrightarrow> bit ?x 63"
    by (simp only: bit_of_nat_iff bit_take_bit_iff bit_drop_bit_eq) simp
  also have "\<dots> \<longleftrightarrow> bit w 63" by (simp add: bit_unsigned_iff)
  also have "\<dots> \<longleftrightarrow> sint w < 0" using bit_last_iff [of w] by simp
  finally have top: "(0x80 AND ?top \<noteq> 0) \<longleftrightarrow> sint w < 0"
    by (simp only: top_bit_0x80)
  show ?thesis
  proof (cases be)
    case True
    then have "is_negative be (native_bytes be 8 ?x) 8 = Some (0x80 AND ?top \<noteq> 0)"
      by (simp only: le_bytes8 native_bytes_def is_negative_def read_at_def) simp
    with top show ?thesis by simp
  next
    case False
    then have "is_negative be (native_bytes be 8 ?x) 8 = Some (0x80 AND ?top \<noteq> 0)"
      by (simp only: le_bytes8 native_bytes_def is_negative_def read_at_def) simp
    with top show ?thesis by simp
  qed
qed

text \<open>
  C2, as the code has it. For every negative value, \<^verbatim>\<open>OSSL_PARAM_set_int32\<close> and
  \<^verbatim>\<open>OSSL_PARAM_set_int64\<close> on an \<^verbatim>\<open>UNSIGNED_INTEGER\<close> descriptor return 0 with
  \<^verbatim>\<open>return_size\<close> 0, and the error they raise is
  \<^verbatim>\<open>CRYPTO_R_PARAM_OF_INCOMPATIBLE_TYPE\<close>: the branch for \<^verbatim>\<open>UNSIGNED_INTEGER\<close> is
  guarded by \<^verbatim>\<open>val >= 0\<close>. The general signed path, \<^verbatim>\<open>general_set_int\<close> on a
  descriptor with a buffer, returns 0 with
  \<^verbatim>\<open>CRYPTO_R_PARAM_UNSIGNED_INTEGER_NEGATIVE_VALUE_UNSUPPORTED\<close> and leaves the buffer as
  it was.
\<close>

theorem negative_into_unsigned_fails:
  assumes "data_type p = OSSL_PARAM_UNSIGNED_INTEGER"
  shows "(sint v32 < 0 \<longrightarrow>
            OSSL_PARAM_set_int32 pl (Some p) v32 = err_bad_type (Some (p\<lparr>return_size := 0\<rparr>)))
       \<and> (sint v64 < 0 \<longrightarrow>
            OSSL_PARAM_set_int64 pl (Some p) v64 = err_bad_type (Some (p\<lparr>return_size := 0\<rparr>)))
       \<and> (sint v32 < 0 \<and> data p \<noteq> None \<longrightarrow>
            general_set_int be p (native_bytes be 4 (unat v32)) 4
              = err_unsigned_negative (p\<lparr>return_size := 4\<rparr>))
       \<and> (sint v64 < 0 \<and> data p \<noteq> None \<longrightarrow>
            general_set_int be p (native_bytes be 8 (unat v64)) 8
              = err_unsigned_negative (p\<lparr>return_size := 8\<rparr>))"
  using assms set_int32_negative_unsigned [of p v32 pl] set_int64_negative_unsigned [of p v64 pl]
    general_set_int_negative_unsigned [of p _ be "native_bytes be 4 (unat v32)" 4]
    general_set_int_negative_unsigned [of p _ be "native_bytes be 8 (unat v64)" 8]
    is_negative_native32 [of be v32] is_negative_native64 [of be v64]
  by auto

theorem negative_into_unsigned_fails_witness:
  "data_type (example_param OSSL_PARAM_UNSIGNED_INTEGER 8) = OSSL_PARAM_UNSIGNED_INTEGER
   \<and> sint (- 1 :: 32 word) < 0 \<and> sint (- (2 ^ 31) :: 32 word) < 0
   \<and> sint (- (2 ^ 63) :: 64 word) < 0
   \<and> data (example_param OSSL_PARAM_UNSIGNED_INTEGER 8) \<noteq> None
   \<and> OSSL_PARAM_set_int32 example_platform (Some (example_param OSSL_PARAM_UNSIGNED_INTEGER 8))
         (- 1)
       = err_bad_type (Some ((example_param OSSL_PARAM_UNSIGNED_INTEGER 8)\<lparr>return_size := 0\<rparr>))
   \<and> OSSL_PARAM_set_int32 example_platform (Some (example_param OSSL_PARAM_UNSIGNED_INTEGER 8))
         (- (2 ^ 31))
       = err_bad_type (Some ((example_param OSSL_PARAM_UNSIGNED_INTEGER 8)\<lparr>return_size := 0\<rparr>))
   \<and> OSSL_PARAM_set_int64 example_platform (Some (example_param OSSL_PARAM_UNSIGNED_INTEGER 8))
         (- (2 ^ 63))
       = err_bad_type (Some ((example_param OSSL_PARAM_UNSIGNED_INTEGER 8)\<lparr>return_size := 0\<rparr>))
   \<and> general_set_int False (example_param OSSL_PARAM_UNSIGNED_INTEGER 8)
         (native_bytes False 4 (unat (- 1 :: 32 word))) 4
       = err_unsigned_negative ((example_param OSSL_PARAM_UNSIGNED_INTEGER 8)\<lparr>return_size := 4\<rparr>)"
proof -
  let ?p = "example_param OSSL_PARAM_UNSIGNED_INTEGER 8"
  have t: "data_type ?p = OSSL_PARAM_UNSIGNED_INTEGER" by (simp add: example_param_def)
  have d: "data ?p \<noteq> None" by (simp add: example_param_def)
  have n: "sint (- 1 :: 32 word) < 0" "sint (- (2 ^ 31) :: 32 word) < 0"
    "sint (- (2 ^ 63) :: 64 word) < 0"
    by simp_all
  from negative_into_unsigned_fails [OF t, of "- 1" example_platform "- (2 ^ 63)" False]
    negative_into_unsigned_fails [OF t, of "- (2 ^ 31)" example_platform "- (2 ^ 63)" False]
    t d n
  show ?thesis by blast
qed

text \<open>
  The claim that the typed setters report the negative-value error fails at \<open>-1\<close>:
  \<^verbatim>\<open>OSSL_PARAM_set_int32\<close> raises the incompatible-type error.
\<close>

theorem set_int32_negative_unsigned_counterexample:
  "OSSL_PARAM_set_int32 example_platform (Some (example_param OSSL_PARAM_UNSIGNED_INTEGER 4)) (- 1)
     = err_bad_type (Some ((example_param OSSL_PARAM_UNSIGNED_INTEGER 4)\<lparr>return_size := 0\<rparr>))
   \<and> OSSL_PARAM_set_int32 example_platform
         (Some (example_param OSSL_PARAM_UNSIGNED_INTEGER 4)) (- 1)
     \<noteq> err_unsigned_negative
         (Some ((example_param OSSL_PARAM_UNSIGNED_INTEGER 4)\<lparr>return_size := 0\<rparr>))"
  by (simp add: OSSL_PARAM_set_int32_def map_state_def example_param_def)


section \<open>Integers stored as reals\<close>

lemma uint64_bounds: "0 \<le> uint (w :: 64 word) \<and> uint w < 18446744073709551616"
  using unsigned_less [of w, where 'a = int] by simp

lemma int_mod_2_64_low:
  fixes x :: int
  shows "0 \<le> x \<Longrightarrow> x < 18446744073709551616 \<Longrightarrow> x mod 18446744073709551616 = x"
  by simp

lemma int_mod_2_64_high:
  fixes x :: int
  assumes "18446744073709551616 \<le> x" "x < 36893488147419103232"
  shows "x mod 18446744073709551616 = x - 18446744073709551616"
proof -
  have "x mod 18446744073709551616 = (x - 18446744073709551616) mod 18446744073709551616"
    by (simp only: minus_mod_self2)
  also have "\<dots> = x - 18446744073709551616"
    using assms by (intro mod_pos_pos_trivial) simp_all
  finally show ?thesis .
qed

lemma sint64_uint:
  "sint (w :: 64 word) = (if uint w < 9223372036854775808 then uint w
                           else uint w - 18446744073709551616)"
proof -
  have "sint w = sint (word_of_int (uint w) :: 64 word)" by simp
  also have "\<dots> = (uint w + 9223372036854775808) mod 18446744073709551616 - 9223372036854775808"
    by (simp only: int_word_sint) simp
  finally have s: "sint w = (uint w + 9223372036854775808) mod 18446744073709551616
                            - 9223372036854775808" .
  show ?thesis
  proof (cases "uint w < 9223372036854775808")
    case True
    then have "(uint w + 9223372036854775808) mod 18446744073709551616
               = uint w + 9223372036854775808"
      using uint64_bounds [of w] by (intro int_mod_2_64_low) simp_all
    with s True show ?thesis by simp
  next
    case False
    then have "(uint w + 9223372036854775808) mod 18446744073709551616
               = uint w + 9223372036854775808 - 18446744073709551616"
      using uint64_bounds [of w] by (intro int_mod_2_64_high) simp_all
    with s False show ?thesis by simp
  qed
qed

lemma uint_magnitude: "uint (if sint (v :: 64 word) < 0 then - v else v) = \<bar>sint v\<bar>"
proof (cases "uint v < 9223372036854775808")
  case True
  then show ?thesis by (simp add: sint64_uint)
next
  case False
  then have neg: "sint v < 0" using uint64_bounds [of v] by (simp add: sint64_uint)
  have "uint (- v) = (- uint v) mod 18446744073709551616"
    by (simp add: uint_word_ariths)
  also have "\<dots> = (- uint v + 18446744073709551616) mod 18446744073709551616"
    by (simp only: mod_add_self2)
  also have "\<dots> = (18446744073709551616 - uint v) mod 18446744073709551616"
    by simp
  also have "\<dots> = 18446744073709551616 - uint v"
    using False uint64_bounds [of v] by (intro mod_pos_pos_trivial) simp_all
  finally show ?thesis using neg False by (simp add: sint64_uint)
qed

lemma drop_bit_53_zero: "drop_bit 53 (w :: 64 word) = 0 \<longleftrightarrow> uint w < 9007199254740992"
proof -
  have "drop_bit 53 w = 0 \<longleftrightarrow> uint (w div 2 ^ 53) = 0"
    by (simp add: drop_bit_eq_div uint_0_iff)
  also have "\<dots> \<longleftrightarrow> uint w div 9007199254740992 = 0"
    by (simp add: uint_div)
  also have "\<dots> \<longleftrightarrow> uint w < 9007199254740992"
    using uint64_bounds [of w] by (auto simp: zdiv_eq_0_iff)
  finally show ?thesis .
qed


lemma store_word64_at:
  "8 \<le> length buf \<Longrightarrow>
   store_word be buf (w :: 64 word) = Some (native_bytes be 8 (unat w) @ drop 8 buf)"
  by (simp add: store_word_def memcpy_at_def)

lemma set_int64_real:
  assumes "data_type p = OSSL_PARAM_REAL" and "data_size p = 8"
    and "data p = Some buf" and "8 \<le> length buf"
  shows "OSSL_PARAM_set_int64 pl (Some p) v =
           (if \<bar>sint v\<bar> < 2 ^ 53
            then ret1 (Some (p\<lparr>return_size := 8,
                   data := Some (native_bytes (IS_BIG_ENDIAN pl) 8
                                   (unat (double_of_int pl (sint v))) @ drop 8 buf)\<rparr>))
            else err_inexact (Some (p\<lparr>return_size := 0\<rparr>)))"
proof -
  have "drop_bit 53 (if sint v < 0 then - v else v) = 0 \<longleftrightarrow> \<bar>sint v\<bar> < 2 ^ 53"
    by (simp only: drop_bit_53_zero uint_magnitude) simp
  then show ?thesis
    using assms
    by (simp add: OSSL_PARAM_set_int64_def map_state_def sizeof_double_def real_shift_def
          store_word64_at)
qed

lemma set_uint64_real:
  assumes "data_type p = OSSL_PARAM_REAL" and "data_size p = 8"
    and "data p = Some buf" and "8 \<le> length buf"
  shows "OSSL_PARAM_set_uint64 pl (Some p) u =
           (if uint u < 2 ^ 53
            then ret1 (Some (p\<lparr>return_size := 8,
                   data := Some (native_bytes (IS_BIG_ENDIAN pl) 8
                                   (unat (double_of_int pl (uint u))) @ drop 8 buf)\<rparr>))
            else err_inexact (Some (p\<lparr>return_size := 0\<rparr>)))"
proof -
  have "drop_bit 53 u = 0 \<longleftrightarrow> uint u < 2 ^ 53"
    by (simp only: drop_bit_53_zero) simp
  then show ?thesis
    using assms
    by (simp add: OSSL_PARAM_set_uint64_def map_state_def sizeof_double_def real_shift_def
          store_word64_at)
qed

lemma floor_log2_example: "floor_log2 9007199254740991 = 52"
  by (simp add: floor_log2.simps)

lemma binary64_example: "binary64_of_int (2 ^ 53 - 1) = 0x433FFFFFFFFFFFFF"
  by (simp add: binary64_of_int_def floor_log2_example Let_def)

lemma binary64_example_bytes:
  "native_bytes False 8 (unat (0x433FFFFFFFFFFFFF :: 64 word))
     = [0xFF, 0xFF, 0xFF, 0xFF, 0xFF, 0xFF, 0x3F, 0x43]"
  by (simp add: native_bytes_def le_bytes8)


text \<open>
  C3, as the code has it. For a \<^verbatim>\<open>REAL\<close> descriptor with \<^verbatim>\<open>data_size\<close> 8 and a buffer
  of at least 8 bytes, \<^verbatim>\<open>OSSL_PARAM_set_int64\<close> stores \<^verbatim>\<open>(double)val\<close> and sets
  \<^verbatim>\<open>return_size\<close> to 8 exactly when the magnitude of \<open>val\<close> is below \<open>2 ^ 53\<close>, and
  \<^verbatim>\<open>OSSL_PARAM_set_uint64\<close> exactly when \<open>val\<close> is below \<open>2 ^ 53\<close>; every other value
  fails with \<^verbatim>\<open>CRYPTO_R_PARAM_CANNOT_BE_REPRESENTED_EXACTLY\<close>, \<^verbatim>\<open>return_size\<close> 0 and the
  buffer untouched. So \<open>2 ^ 53 - 1\<close> is stored, while \<open>2 ^ 53\<close> and \<open>2 ^ 53 + 1\<close> both
  fail.
\<close>

theorem real_precision_boundary:
  assumes "data_type p = OSSL_PARAM_REAL" and "data_size p = 8"
    and "data p = Some buf" and "8 \<le> length buf"
  shows "OSSL_PARAM_set_int64 pl (Some p) v =
           (if \<bar>sint v\<bar> < 2 ^ 53
            then ret1 (Some (p\<lparr>return_size := 8,
                   data := Some (native_bytes (IS_BIG_ENDIAN pl) 8
                                   (unat (double_of_int pl (sint v))) @ drop 8 buf)\<rparr>))
            else err_inexact (Some (p\<lparr>return_size := 0\<rparr>)))
       \<and> OSSL_PARAM_set_uint64 pl (Some p) u =
           (if uint u < 2 ^ 53
            then ret1 (Some (p\<lparr>return_size := 8,
                   data := Some (native_bytes (IS_BIG_ENDIAN pl) 8
                                   (unat (double_of_int pl (uint u))) @ drop 8 buf)\<rparr>))
            else err_inexact (Some (p\<lparr>return_size := 0\<rparr>)))
       \<and> OSSL_PARAM_set_int64 pl (Some p) (2 ^ 53 - 1)
           = ret1 (Some (p\<lparr>return_size := 8,
                data := Some (native_bytes (IS_BIG_ENDIAN pl) 8
                                (unat (double_of_int pl (2 ^ 53 - 1))) @ drop 8 buf)\<rparr>))
       \<and> OSSL_PARAM_set_int64 pl (Some p) (2 ^ 53) = err_inexact (Some (p\<lparr>return_size := 0\<rparr>))
       \<and> OSSL_PARAM_set_int64 pl (Some p) (2 ^ 53 + 1) = err_inexact (Some (p\<lparr>return_size := 0\<rparr>))
       \<and> OSSL_PARAM_set_uint64 pl (Some p) (2 ^ 53 - 1)
           = ret1 (Some (p\<lparr>return_size := 8,
                data := Some (native_bytes (IS_BIG_ENDIAN pl) 8
                                (unat (double_of_int pl (2 ^ 53 - 1))) @ drop 8 buf)\<rparr>))
       \<and> OSSL_PARAM_set_uint64 pl (Some p) (2 ^ 53) = err_inexact (Some (p\<lparr>return_size := 0\<rparr>))
       \<and> OSSL_PARAM_set_uint64 pl (Some p) (2 ^ 53 + 1) = err_inexact (Some (p\<lparr>return_size := 0\<rparr>))"
proof (intro conjI)
  show "OSSL_PARAM_set_int64 pl (Some p) v =
           (if \<bar>sint v\<bar> < 2 ^ 53
            then ret1 (Some (p\<lparr>return_size := 8,
                   data := Some (native_bytes (IS_BIG_ENDIAN pl) 8
                                   (unat (double_of_int pl (sint v))) @ drop 8 buf)\<rparr>))
            else err_inexact (Some (p\<lparr>return_size := 0\<rparr>)))"
    using assms by (rule set_int64_real)
  show "OSSL_PARAM_set_uint64 pl (Some p) u =
           (if uint u < 2 ^ 53
            then ret1 (Some (p\<lparr>return_size := 8,
                   data := Some (native_bytes (IS_BIG_ENDIAN pl) 8
                                   (unat (double_of_int pl (uint u))) @ drop 8 buf)\<rparr>))
            else err_inexact (Some (p\<lparr>return_size := 0\<rparr>)))"
    using assms by (rule set_uint64_real)
  show "OSSL_PARAM_set_int64 pl (Some p) (2 ^ 53 - 1)
           = ret1 (Some (p\<lparr>return_size := 8,
                data := Some (native_bytes (IS_BIG_ENDIAN pl) 8
                                (unat (double_of_int pl (2 ^ 53 - 1))) @ drop 8 buf)\<rparr>))"
    using set_int64_real [OF assms, of pl "2 ^ 53 - 1"] by simp
  show "OSSL_PARAM_set_int64 pl (Some p) (2 ^ 53) = err_inexact (Some (p\<lparr>return_size := 0\<rparr>))"
    using set_int64_real [OF assms, of pl "2 ^ 53"] by simp
  show "OSSL_PARAM_set_int64 pl (Some p) (2 ^ 53 + 1) = err_inexact (Some (p\<lparr>return_size := 0\<rparr>))"
    using set_int64_real [OF assms, of pl "2 ^ 53 + 1"] by simp
  show "OSSL_PARAM_set_uint64 pl (Some p) (2 ^ 53 - 1)
           = ret1 (Some (p\<lparr>return_size := 8,
                data := Some (native_bytes (IS_BIG_ENDIAN pl) 8
                                (unat (double_of_int pl (2 ^ 53 - 1))) @ drop 8 buf)\<rparr>))"
    using set_uint64_real [OF assms, of pl "2 ^ 53 - 1"] by simp
  show "OSSL_PARAM_set_uint64 pl (Some p) (2 ^ 53) = err_inexact (Some (p\<lparr>return_size := 0\<rparr>))"
    using set_uint64_real [OF assms, of pl "2 ^ 53"] by simp
  show "OSSL_PARAM_set_uint64 pl (Some p) (2 ^ 53 + 1) = err_inexact (Some (p\<lparr>return_size := 0\<rparr>))"
    using set_uint64_real [OF assms, of pl "2 ^ 53 + 1"] by simp
qed

theorem real_precision_boundary_witness:
  "data_type (example_param OSSL_PARAM_REAL 8) = OSSL_PARAM_REAL
   \<and> data_size (example_param OSSL_PARAM_REAL 8) = 8
   \<and> data (example_param OSSL_PARAM_REAL 8) = Some (replicate 8 0)
   \<and> OSSL_PARAM_set_int64 example_platform (Some (example_param OSSL_PARAM_REAL 8)) (2 ^ 53 - 1)
       = ret1 (Some ((example_param OSSL_PARAM_REAL 8)\<lparr>return_size := 8,
            data := Some [0xFF, 0xFF, 0xFF, 0xFF, 0xFF, 0xFF, 0x3F, 0x43]\<rparr>))
   \<and> OSSL_PARAM_set_int64 example_platform (Some (example_param OSSL_PARAM_REAL 8)) (2 ^ 53)
       = err_inexact (Some ((example_param OSSL_PARAM_REAL 8)\<lparr>return_size := 0\<rparr>))
   \<and> OSSL_PARAM_set_uint64 example_platform (Some (example_param OSSL_PARAM_REAL 8)) (2 ^ 53 + 1)
       = err_inexact (Some ((example_param OSSL_PARAM_REAL 8)\<lparr>return_size := 0\<rparr>))"
proof -
  let ?p = "example_param OSSL_PARAM_REAL 8"
  have h: "data_type ?p = OSSL_PARAM_REAL" "data_size ?p = 8" "data ?p = Some (replicate 8 0)"
    "8 \<le> length (replicate 8 (0 :: byte))"
    by (simp_all add: example_param_def)
  have e: "native_bytes (IS_BIG_ENDIAN example_platform) 8
             (unat (double_of_int example_platform (2 ^ 53 - 1))) @ drop 8 (replicate 8 0)
           = [0xFF, 0xFF, 0xFF, 0xFF, 0xFF, 0xFF, 0x3F, 0x43]"
    using binary64_example binary64_example_bytes by (simp add: example_platform_def)
  from real_precision_boundary [OF h, of example_platform] h(1,2,3)
  show ?thesis unfolding e by blast
qed

text \<open>
  The claim that \<open>2 ^ 53\<close> is stored fails: both setters reject it as inexact.
\<close>

theorem set_int64_real_2_53_counterexample:
  "OSSL_PARAM_set_int64 example_platform (Some (example_param OSSL_PARAM_REAL 8)) (2 ^ 53)
     = err_inexact (Some ((example_param OSSL_PARAM_REAL 8)\<lparr>return_size := 0\<rparr>))
   \<and> OSSL_PARAM_set_uint64 example_platform (Some (example_param OSSL_PARAM_REAL 8)) (2 ^ 53)
     = err_inexact (Some ((example_param OSSL_PARAM_REAL 8)\<lparr>return_size := 0\<rparr>))"
  by (simp add: OSSL_PARAM_set_int64_def OSSL_PARAM_set_uint64_def map_state_def
       example_param_def sizeof_double_def real_shift_def drop_bit_eq_div)

section \<open>Assignment of \<^verbatim>\<open>return_size\<close>\<close>

lemma map_state_map_state: "map_state f (map_state g c) = map_state (\<lambda>s. f (g s)) c"
  by (cases c) (auto simp: map_state_def)

lemma map_state_Undefined: "map_state f Undefined = Undefined"
  by (simp add: map_state_def)

lemma get_int32_keeps_param:
  "map_state fst (OSSL_PARAM_get_int32 pl q val) = map_state (\<lambda>s. q) (OSSL_PARAM_get_int32 pl q val)"
  by (simp add: OSSL_PARAM_get_int32_def map_state_map_state
        split: option.splits) (simp add: map_state_def)


lemma get_uint32_keeps_param:
  "map_state fst (OSSL_PARAM_get_uint32 pl q val) = map_state (\<lambda>s. q) (OSSL_PARAM_get_uint32 pl q val)"
  by (simp add: OSSL_PARAM_get_uint32_def map_state_map_state
        split: option.splits) (simp add: map_state_def)

lemma get_int64_keeps_param:
  "map_state fst (OSSL_PARAM_get_int64 pl q val) = map_state (\<lambda>s. q) (OSSL_PARAM_get_int64 pl q val)"
  by (simp add: OSSL_PARAM_get_int64_def map_state_map_state
        split: option.splits) (simp add: map_state_def)

lemma get_uint64_keeps_param:
  "map_state fst (OSSL_PARAM_get_uint64 pl q val) = map_state (\<lambda>s. q) (OSSL_PARAM_get_uint64 pl q val)"
  by (simp add: OSSL_PARAM_get_uint64_def map_state_map_state
        split: option.splits) (simp add: map_state_def)

lemma set_int32_assigns:
  "OSSL_PARAM_set_int32 pl (Some (p\<lparr>return_size := r\<rparr>)) v = OSSL_PARAM_set_int32 pl (Some p) v"
  by (simp add: OSSL_PARAM_set_int32_def)

lemma set_uint32_assigns:
  "OSSL_PARAM_set_uint32 pl (Some (p\<lparr>return_size := r\<rparr>)) v = OSSL_PARAM_set_uint32 pl (Some p) v"
  by (simp add: OSSL_PARAM_set_uint32_def)

lemma set_int64_assigns:
  "OSSL_PARAM_set_int64 pl (Some (p\<lparr>return_size := r\<rparr>)) v = OSSL_PARAM_set_int64 pl (Some p) v"
  by (simp add: OSSL_PARAM_set_int64_def)

lemma set_uint64_assigns:
  "OSSL_PARAM_set_uint64 pl (Some (p\<lparr>return_size := r\<rparr>)) v = OSSL_PARAM_set_uint64 pl (Some p) v"
  by (simp add: OSSL_PARAM_set_uint64_def)

lemma set_BN_assigns:
  "OSSL_PARAM_set_BN bn (Some (p\<lparr>return_size := r\<rparr>)) b = OSSL_PARAM_set_BN bn (Some p) b"
  by (simp add: OSSL_PARAM_set_BN_def)

lemma set_utf8_string_assigns:
  "OSSL_PARAM_set_utf8_string (Some (p\<lparr>return_size := r\<rparr>)) (Some s)
     = OSSL_PARAM_set_utf8_string (Some p) (Some s)"
  by (simp add: OSSL_PARAM_set_utf8_string_def split: option.splits)

lemma set_octet_string_assigns:
  "OSSL_PARAM_set_octet_string (Some (p\<lparr>return_size := r\<rparr>)) (Some s) len
     = OSSL_PARAM_set_octet_string (Some p) (Some s) len"
  by (simp add: OSSL_PARAM_set_octet_string_def)

lemma general_set_int_assigns:
  "general_set_int be (p\<lparr>return_size := r\<rparr>) val n = general_set_int be p val n"
  by (simp add: general_set_int_def split: option.splits exec.splits)

lemma general_set_uint_assigns:
  "general_set_uint be (p\<lparr>return_size := r\<rparr>) val n = general_set_uint be p val n"
  by (simp add: general_set_uint_def split: option.splits exec.splits)

lemma get_int_keeps_param:
  "map_state fst (OSSL_PARAM_get_int pl q val) = map_state (\<lambda>s. q) (OSSL_PARAM_get_int pl q val)"
proof -
  consider "LENGTH('a) = 32" | "LENGTH('a) = 64" | "LENGTH('a) \<noteq> 32 \<and> LENGTH('a) \<noteq> 64"
    by blast
  then show ?thesis
  proof cases
    case 1
    then show ?thesis
      using get_int32_keeps_param [of pl q "map_option ucast val"]
      by (simp add: OSSL_PARAM_get_int_def map_state_map_state case_prod_beta)
  next
    case 2
    then show ?thesis
      using get_int64_keeps_param [of pl q "map_option ucast val"]
      by (simp add: OSSL_PARAM_get_int_def map_state_map_state case_prod_beta)
  next
    case 3
    then show ?thesis
      by (cases q) (simp_all add: map_state_Undefined OSSL_PARAM_get_int_def map_state_map_state)
  qed
qed

lemma set_int_assigns:
  "OSSL_PARAM_set_int pl (Some (p\<lparr>return_size := r\<rparr>)) v = OSSL_PARAM_set_int pl (Some p) v"
  by (simp add: OSSL_PARAM_set_int_def set_int32_assigns set_int64_assigns general_set_int_assigns)

lemma get_uint_keeps_param:
  "map_state fst (OSSL_PARAM_get_uint pl q val) = map_state (\<lambda>s. q) (OSSL_PARAM_get_uint pl q val)"
proof -
  consider "LENGTH('a) = 32" | "LENGTH('a) = 64" | "LENGTH('a) \<noteq> 32 \<and> LENGTH('a) \<noteq> 64"
    by blast
  then show ?thesis
  proof cases
    case 1
    then show ?thesis
      using get_uint32_keeps_param [of pl q "map_option ucast val"]
      by (simp add: OSSL_PARAM_get_uint_def map_state_map_state case_prod_beta)
  next
    case 2
    then show ?thesis
      using get_uint64_keeps_param [of pl q "map_option ucast val"]
      by (simp add: OSSL_PARAM_get_uint_def map_state_map_state case_prod_beta)
  next
    case 3
    then show ?thesis
      by (cases q) (simp_all add: map_state_Undefined OSSL_PARAM_get_uint_def map_state_map_state)
  qed
qed

lemma set_uint_assigns:
  "OSSL_PARAM_set_uint pl (Some (p\<lparr>return_size := r\<rparr>)) v = OSSL_PARAM_set_uint pl (Some p) v"
  by (simp add: OSSL_PARAM_set_uint_def set_uint32_assigns set_uint64_assigns general_set_uint_assigns)

lemma get_long_keeps_param:
  "map_state fst (OSSL_PARAM_get_long pl q val) = map_state (\<lambda>s. q) (OSSL_PARAM_get_long pl q val)"
proof -
  consider "LENGTH('a) = 32" | "LENGTH('a) = 64" | "LENGTH('a) \<noteq> 32 \<and> LENGTH('a) \<noteq> 64"
    by blast
  then show ?thesis
  proof cases
    case 1
    then show ?thesis
      using get_int32_keeps_param [of pl q "map_option ucast val"]
      by (simp add: OSSL_PARAM_get_long_def map_state_map_state case_prod_beta)
  next
    case 2
    then show ?thesis
      using get_int64_keeps_param [of pl q "map_option ucast val"]
      by (simp add: OSSL_PARAM_get_long_def map_state_map_state case_prod_beta)
  next
    case 3
    then show ?thesis
      by (cases q) (simp_all add: map_state_Undefined OSSL_PARAM_get_long_def map_state_map_state)
  qed
qed

lemma set_long_assigns:
  "OSSL_PARAM_set_long pl (Some (p\<lparr>return_size := r\<rparr>)) v = OSSL_PARAM_set_long pl (Some p) v"
  by (simp add: OSSL_PARAM_set_long_def set_int32_assigns set_int64_assigns general_set_int_assigns)

lemma get_ulong_keeps_param:
  "map_state fst (OSSL_PARAM_get_ulong pl q val) = map_state (\<lambda>s. q) (OSSL_PARAM_get_ulong pl q val)"
proof -
  consider "LENGTH('a) = 32" | "LENGTH('a) = 64" | "LENGTH('a) \<noteq> 32 \<and> LENGTH('a) \<noteq> 64"
    by blast
  then show ?thesis
  proof cases
    case 1
    then show ?thesis
      using get_uint32_keeps_param [of pl q "map_option ucast val"]
      by (simp add: OSSL_PARAM_get_ulong_def map_state_map_state case_prod_beta)
  next
    case 2
    then show ?thesis
      using get_uint64_keeps_param [of pl q "map_option ucast val"]
      by (simp add: OSSL_PARAM_get_ulong_def map_state_map_state case_prod_beta)
  next
    case 3
    then show ?thesis
      by (cases q) (simp_all add: map_state_Undefined OSSL_PARAM_get_ulong_def map_state_map_state)
  qed
qed

lemma set_ulong_assigns:
  "OSSL_PARAM_set_ulong pl (Some (p\<lparr>return_size := r\<rparr>)) v = OSSL_PARAM_set_ulong pl (Some p) v"
  by (simp add: OSSL_PARAM_set_ulong_def set_uint32_assigns set_uint64_assigns general_set_uint_assigns)

lemma get_size_t_keeps_param:
  "map_state fst (OSSL_PARAM_get_size_t pl q val) = map_state (\<lambda>s. q) (OSSL_PARAM_get_size_t pl q val)"
proof -
  consider "LENGTH('a) = 32" | "LENGTH('a) = 64" | "LENGTH('a) \<noteq> 32 \<and> LENGTH('a) \<noteq> 64"
    by blast
  then show ?thesis
  proof cases
    case 1
    then show ?thesis
      using get_uint32_keeps_param [of pl q "map_option ucast val"]
      by (simp add: OSSL_PARAM_get_size_t_def map_state_map_state case_prod_beta)
  next
    case 2
    then show ?thesis
      using get_uint64_keeps_param [of pl q "map_option ucast val"]
      by (simp add: OSSL_PARAM_get_size_t_def map_state_map_state case_prod_beta)
  next
    case 3
    then show ?thesis
      by (cases q) (simp_all add: map_state_Undefined OSSL_PARAM_get_size_t_def map_state_map_state)
  qed
qed

lemma set_size_t_assigns:
  "OSSL_PARAM_set_size_t pl (Some (p\<lparr>return_size := r\<rparr>)) v = OSSL_PARAM_set_size_t pl (Some p) v"
  by (simp add: OSSL_PARAM_set_size_t_def set_uint32_assigns set_uint64_assigns general_set_uint_assigns)

lemma get_time_t_keeps_param:
  "map_state fst (OSSL_PARAM_get_time_t pl q val) = map_state (\<lambda>s. q) (OSSL_PARAM_get_time_t pl q val)"
proof -
  consider "LENGTH('a) = 32" | "LENGTH('a) = 64" | "LENGTH('a) \<noteq> 32 \<and> LENGTH('a) \<noteq> 64"
    by blast
  then show ?thesis
  proof cases
    case 1
    then show ?thesis
      using get_int32_keeps_param [of pl q "map_option ucast val"]
      by (simp add: OSSL_PARAM_get_time_t_def map_state_map_state case_prod_beta)
  next
    case 2
    then show ?thesis
      using get_int64_keeps_param [of pl q "map_option ucast val"]
      by (simp add: OSSL_PARAM_get_time_t_def map_state_map_state case_prod_beta)
  next
    case 3
    then show ?thesis
      by (cases q) (simp_all add: map_state_Undefined OSSL_PARAM_get_time_t_def map_state_map_state)
  qed
qed

lemma set_time_t_assigns:
  "OSSL_PARAM_set_time_t pl (Some (p\<lparr>return_size := r\<rparr>)) v = OSSL_PARAM_set_time_t pl (Some p) v"
  by (simp add: OSSL_PARAM_set_time_t_def set_int32_assigns set_int64_assigns general_set_int_assigns)

lemma set_double_assigns:
  "OSSL_PARAM_set_double pl (Some (p\<lparr>return_size := r\<rparr>)) d = OSSL_PARAM_set_double pl (Some p) d"
  by (simp add: OSSL_PARAM_set_double_def)

lemma set_utf8_ptr_assigns:
  "OSSL_PARAM_set_utf8_ptr pl (Some (p\<lparr>return_size := r\<rparr>)) ptr
     = OSSL_PARAM_set_utf8_ptr pl (Some p) ptr"
  by (simp add: OSSL_PARAM_set_utf8_ptr_def split: option.splits)

lemma set_octet_ptr_assigns:
  "OSSL_PARAM_set_octet_ptr pl (Some (p\<lparr>return_size := r\<rparr>)) a len
     = OSSL_PARAM_set_octet_ptr pl (Some p) a len"
  by (simp add: OSSL_PARAM_set_octet_ptr_def)

lemma set_octet_string_or_ptr_assigns:
  "data_type p = OSSL_PARAM_OCTET_STRING \<Longrightarrow>
   OSSL_PARAM_set_octet_string_or_ptr pl (Some (p\<lparr>return_size := r\<rparr>)) (Some (a, s)) len
     = OSSL_PARAM_set_octet_string_or_ptr pl (Some p) (Some (a, s)) len"
  "data_type p = OSSL_PARAM_OCTET_PTR \<Longrightarrow>
   OSSL_PARAM_set_octet_string_or_ptr pl (Some (p\<lparr>return_size := r\<rparr>)) ptr len
     = OSSL_PARAM_set_octet_string_or_ptr pl (Some p) ptr len"
  by (simp_all add: OSSL_PARAM_set_octet_string_or_ptr_def set_octet_string_assigns
        set_octet_ptr_assigns)

lemma early_returns:
  "OSSL_PARAM_set_utf8_string (Some p) None = err_null_argument (Some p)"
  "OSSL_PARAM_set_octet_string (Some p) None len = err_null_argument (Some p)"
  "data_type p = OSSL_PARAM_OCTET_STRING \<Longrightarrow>
   OSSL_PARAM_set_octet_string_or_ptr pl (Some p) None len = err_null_argument (Some p)"
  "data_type p \<noteq> OSSL_PARAM_OCTET_STRING \<and> data_type p \<noteq> OSSL_PARAM_OCTET_PTR \<Longrightarrow>
   OSSL_PARAM_set_octet_string_or_ptr pl (Some p) ptr len = err_bad_type (Some p)"
  by (simp_all add: OSSL_PARAM_set_utf8_string_def OSSL_PARAM_set_octet_string_def
        OSSL_PARAM_set_octet_string_or_ptr_def)

text \<open>
  C4, as the code has it. Every setter assigns \<^verbatim>\<open>return_size\<close> on every path of a
  call on a descriptor that is not \<^verbatim>\<open>NULL\<close>, but for the paths that return before the
  assignment: the outcome of the call, the descriptor it leaves included, does not
  depend on the \<^verbatim>\<open>return_size\<close> the descriptor had before. This holds for the
  fixed-width and the native integer setters, \<^verbatim>\<open>OSSL_PARAM_set_BN\<close>,
  \<^verbatim>\<open>OSSL_PARAM_set_double\<close>, the two pointer setters, the two string setters given a
  value that is not \<^verbatim>\<open>NULL\<close>, and \<^verbatim>\<open>OSSL_PARAM_set_octet_string_or_ptr\<close> on a
  descriptor of type \<^verbatim>\<open>OCTET_STRING\<close> (with such a value) or \<^verbatim>\<open>OCTET_PTR\<close>. The paths
  that return before the assignment leave the descriptor as it was: a string setter
  given \<^verbatim>\<open>NULL\<close> for the value, and \<^verbatim>\<open>OSSL_PARAM_set_octet_string_or_ptr\<close> on a
  descriptor of any other type. The integer getters take the descriptor as \<^verbatim>\<open>const\<close>
  and leave it, \<^verbatim>\<open>return_size\<close> included, as they found it on every path.
\<close>

theorem return_size_assigned_by_setters:
  "OSSL_PARAM_set_int32 pl (Some (p\<lparr>return_size := r\<rparr>)) v32
       = OSSL_PARAM_set_int32 pl (Some p) v32
   \<and> OSSL_PARAM_set_uint32 pl (Some (p\<lparr>return_size := r\<rparr>)) v32
       = OSSL_PARAM_set_uint32 pl (Some p) v32
   \<and> OSSL_PARAM_set_int64 pl (Some (p\<lparr>return_size := r\<rparr>)) v64
       = OSSL_PARAM_set_int64 pl (Some p) v64
   \<and> OSSL_PARAM_set_uint64 pl (Some (p\<lparr>return_size := r\<rparr>)) v64
       = OSSL_PARAM_set_uint64 pl (Some p) v64
   \<and> OSSL_PARAM_set_int pl (Some (p\<lparr>return_size := r\<rparr>)) (vn :: 'a::len word)
       = OSSL_PARAM_set_int pl (Some p) vn
   \<and> OSSL_PARAM_set_uint pl (Some (p\<lparr>return_size := r\<rparr>)) (vn :: 'a::len word)
       = OSSL_PARAM_set_uint pl (Some p) vn
   \<and> OSSL_PARAM_set_long pl (Some (p\<lparr>return_size := r\<rparr>)) (vn :: 'a::len word)
       = OSSL_PARAM_set_long pl (Some p) vn
   \<and> OSSL_PARAM_set_ulong pl (Some (p\<lparr>return_size := r\<rparr>)) (vn :: 'a::len word)
       = OSSL_PARAM_set_ulong pl (Some p) vn
   \<and> OSSL_PARAM_set_size_t pl (Some (p\<lparr>return_size := r\<rparr>)) (vn :: 'a::len word)
       = OSSL_PARAM_set_size_t pl (Some p) vn
   \<and> OSSL_PARAM_set_time_t pl (Some (p\<lparr>return_size := r\<rparr>)) (vn :: 'a::len word)
       = OSSL_PARAM_set_time_t pl (Some p) vn
   \<and> OSSL_PARAM_set_BN bn (Some (p\<lparr>return_size := r\<rparr>)) b = OSSL_PARAM_set_BN bn (Some p) b
   \<and> OSSL_PARAM_set_double pl (Some (p\<lparr>return_size := r\<rparr>)) d
       = OSSL_PARAM_set_double pl (Some p) d
   \<and> OSSL_PARAM_set_utf8_string (Some (p\<lparr>return_size := r\<rparr>)) (Some s)
       = OSSL_PARAM_set_utf8_string (Some p) (Some s)
   \<and> OSSL_PARAM_set_octet_string (Some (p\<lparr>return_size := r\<rparr>)) (Some s) len
       = OSSL_PARAM_set_octet_string (Some p) (Some s) len
   \<and> OSSL_PARAM_set_utf8_ptr pl (Some (p\<lparr>return_size := r\<rparr>)) ptr
       = OSSL_PARAM_set_utf8_ptr pl (Some p) ptr
   \<and> OSSL_PARAM_set_octet_ptr pl (Some (p\<lparr>return_size := r\<rparr>)) a len
       = OSSL_PARAM_set_octet_ptr pl (Some p) a len
   \<and> (data_type p = OSSL_PARAM_OCTET_STRING \<longrightarrow>
        OSSL_PARAM_set_octet_string_or_ptr pl (Some (p\<lparr>return_size := r\<rparr>)) (Some (a, s)) len
          = OSSL_PARAM_set_octet_string_or_ptr pl (Some p) (Some (a, s)) len)
   \<and> (data_type p = OSSL_PARAM_OCTET_PTR \<longrightarrow>
        OSSL_PARAM_set_octet_string_or_ptr pl (Some (p\<lparr>return_size := r\<rparr>)) ptr len
          = OSSL_PARAM_set_octet_string_or_ptr pl (Some p) ptr len)
   \<and> general_set_int be (p\<lparr>return_size := r\<rparr>) val n = general_set_int be p val n
   \<and> general_set_uint be (p\<lparr>return_size := r\<rparr>) val n = general_set_uint be p val n
   \<and> OSSL_PARAM_set_utf8_string (Some p) None = err_null_argument (Some p)
   \<and> OSSL_PARAM_set_octet_string (Some p) None len = err_null_argument (Some p)
   \<and> (data_type p = OSSL_PARAM_OCTET_STRING \<longrightarrow>
        OSSL_PARAM_set_octet_string_or_ptr pl (Some p) None len = err_null_argument (Some p))
   \<and> (data_type p \<noteq> OSSL_PARAM_OCTET_STRING \<and> data_type p \<noteq> OSSL_PARAM_OCTET_PTR \<longrightarrow>
        OSSL_PARAM_set_octet_string_or_ptr pl (Some p) ptr len = err_bad_type (Some p))
   \<and> map_state fst (OSSL_PARAM_get_int32 pl q val32)
       = map_state (\<lambda>s. q) (OSSL_PARAM_get_int32 pl q val32)
   \<and> map_state fst (OSSL_PARAM_get_uint32 pl q val32)
       = map_state (\<lambda>s. q) (OSSL_PARAM_get_uint32 pl q val32)
   \<and> map_state fst (OSSL_PARAM_get_int64 pl q val64)
       = map_state (\<lambda>s. q) (OSSL_PARAM_get_int64 pl q val64)
   \<and> map_state fst (OSSL_PARAM_get_uint64 pl q val64)
       = map_state (\<lambda>s. q) (OSSL_PARAM_get_uint64 pl q val64)
   \<and> map_state fst (OSSL_PARAM_get_int pl q (valn :: 'a word option))
       = map_state (\<lambda>s. q) (OSSL_PARAM_get_int pl q valn)
   \<and> map_state fst (OSSL_PARAM_get_uint pl q (valn :: 'a word option))
       = map_state (\<lambda>s. q) (OSSL_PARAM_get_uint pl q valn)
   \<and> map_state fst (OSSL_PARAM_get_long pl q (valn :: 'a word option))
       = map_state (\<lambda>s. q) (OSSL_PARAM_get_long pl q valn)
   \<and> map_state fst (OSSL_PARAM_get_ulong pl q (valn :: 'a word option))
       = map_state (\<lambda>s. q) (OSSL_PARAM_get_ulong pl q valn)
   \<and> map_state fst (OSSL_PARAM_get_size_t pl q (valn :: 'a word option))
       = map_state (\<lambda>s. q) (OSSL_PARAM_get_size_t pl q valn)
   \<and> map_state fst (OSSL_PARAM_get_time_t pl q (valn :: 'a word option))
       = map_state (\<lambda>s. q) (OSSL_PARAM_get_time_t pl q valn)"
  by (intro conjI impI)
     (simp_all only: set_int32_assigns set_uint32_assigns set_int64_assigns set_uint64_assigns
        set_int_assigns set_uint_assigns set_long_assigns set_ulong_assigns set_size_t_assigns
        set_time_t_assigns set_BN_assigns set_double_assigns set_utf8_string_assigns
        set_octet_string_assigns set_utf8_ptr_assigns set_octet_ptr_assigns
        set_octet_string_or_ptr_assigns general_set_int_assigns general_set_uint_assigns
        early_returns get_int32_keeps_param get_uint32_keeps_param get_int64_keeps_param
        get_uint64_keeps_param get_int_keeps_param get_uint_keeps_param get_long_keeps_param
        get_ulong_keeps_param get_size_t_keeps_param get_time_t_keeps_param simp_thms)


theorem return_size_assigned_by_setters_witness:
  "data_type (example_param OSSL_PARAM_OCTET_STRING 2) = OSSL_PARAM_OCTET_STRING
   \<and> OSSL_PARAM_set_octet_string_or_ptr example_platform
         (Some ((example_param OSSL_PARAM_OCTET_STRING 2)\<lparr>return_size := 7\<rparr>))
         (Some (0x1000, [1, 2])) 2
       = OSSL_PARAM_set_octet_string_or_ptr example_platform
           (Some (example_param OSSL_PARAM_OCTET_STRING 2)) (Some (0x1000, [1, 2])) 2
   \<and> OSSL_PARAM_set_octet_string_or_ptr example_platform
         (Some (example_param OSSL_PARAM_OCTET_STRING 2)) None 2
       = err_null_argument (Some (example_param OSSL_PARAM_OCTET_STRING 2))
   \<and> data_type (example_param OSSL_PARAM_OCTET_PTR 8) = OSSL_PARAM_OCTET_PTR
   \<and> OSSL_PARAM_set_octet_string_or_ptr example_platform
         (Some ((example_param OSSL_PARAM_OCTET_PTR 8)\<lparr>return_size := 7\<rparr>))
         (Some (0x1000, [1, 2])) 2
       = OSSL_PARAM_set_octet_string_or_ptr example_platform
           (Some (example_param OSSL_PARAM_OCTET_PTR 8)) (Some (0x1000, [1, 2])) 2
   \<and> data_type (example_param OSSL_PARAM_INTEGER 4) \<noteq> OSSL_PARAM_OCTET_STRING
   \<and> data_type (example_param OSSL_PARAM_INTEGER 4) \<noteq> OSSL_PARAM_OCTET_PTR
   \<and> OSSL_PARAM_set_octet_string_or_ptr example_platform
         (Some (example_param OSSL_PARAM_INTEGER 4)) (Some (0x1000, [1, 2])) 2
       = err_bad_type (Some (example_param OSSL_PARAM_INTEGER 4))"
proof -
  let ?s = "example_param OSSL_PARAM_OCTET_STRING 2"
  let ?t = "example_param OSSL_PARAM_OCTET_PTR 8"
  let ?i = "example_param OSSL_PARAM_INTEGER 4"
  have ts: "data_type ?s = OSSL_PARAM_OCTET_STRING" by (simp add: example_param_def)
  have tt: "data_type ?t = OSSL_PARAM_OCTET_PTR" by (simp add: example_param_def)
  have ti: "data_type ?i \<noteq> OSSL_PARAM_OCTET_STRING \<and> data_type ?i \<noteq> OSSL_PARAM_OCTET_PTR"
    by (simp add: example_param_def)
  from return_size_assigned_by_setters
         [where ?'a = 32 and pl = example_platform and p = ?s and r = 7 and a = "0x1000"
            and s = "[1, 2]" and len = 2] ts
  have one: "OSSL_PARAM_set_octet_string_or_ptr example_platform
               (Some (?s\<lparr>return_size := 7\<rparr>)) (Some (0x1000, [1, 2])) 2
             = OSSL_PARAM_set_octet_string_or_ptr example_platform (Some ?s)
                 (Some (0x1000, [1, 2])) 2
           \<and> OSSL_PARAM_set_octet_string_or_ptr example_platform (Some ?s) None 2
             = err_null_argument (Some ?s)"
    by blast
  from return_size_assigned_by_setters
         [where ?'a = 32 and pl = example_platform and p = ?t and r = 7
            and ptr = "Some (0x1000, [1, 2])" and len = 2] tt
  have two: "OSSL_PARAM_set_octet_string_or_ptr example_platform
               (Some (?t\<lparr>return_size := 7\<rparr>)) (Some (0x1000, [1, 2])) 2
             = OSSL_PARAM_set_octet_string_or_ptr example_platform (Some ?t)
                 (Some (0x1000, [1, 2])) 2"
    by blast
  from return_size_assigned_by_setters
         [where ?'a = 32 and pl = example_platform and p = ?i
            and ptr = "Some (0x1000, [1, 2])" and len = 2] ti
  have three: "OSSL_PARAM_set_octet_string_or_ptr example_platform (Some ?i)
                 (Some (0x1000, [1, 2])) 2 = err_bad_type (Some ?i)"
    by blast
  from one two three ts tt ti show ?thesis by blast
qed

lemma le_val_zeros: "le_val (replicate n 0) = 0"
  by (induction n) simp_all

text \<open>
  The claim that every call sets \<^verbatim>\<open>return_size\<close>, and to a size the caller can use,
  fails: after a successful \<^verbatim>\<open>OSSL_PARAM_get_int32\<close> the descriptor still carries
  \<^verbatim>\<open>OSSL_PARAM_UNMODIFIED\<close>; \<^verbatim>\<open>OSSL_PARAM_set_utf8_string\<close> with \<^verbatim>\<open>NULL\<close> for the
  value and \<^verbatim>\<open>OSSL_PARAM_set_octet_string_or_ptr\<close> on an \<^verbatim>\<open>INTEGER\<close> descriptor fail
  and leave the descriptor as it was; and \<^verbatim>\<open>OSSL_PARAM_set_int64\<close> of \<open>2 ^ 40\<close> into a
  4-byte buffer fails with \<^verbatim>\<open>return_size\<close> 0.
\<close>

theorem getter_return_size_counterexample:
  "OSSL_PARAM_get_int32 example_platform (Some (example_param OSSL_PARAM_INTEGER 4)) (Some 7)
     = ret1 (Some (example_param OSSL_PARAM_INTEGER 4), Some 0)
   \<and> return_size (example_param OSSL_PARAM_INTEGER 4) = OSSL_PARAM_UNMODIFIED
   \<and> \<not> OSSL_PARAM_modified (Some (example_param OSSL_PARAM_INTEGER 4))
   \<and> OSSL_PARAM_set_utf8_string (Some (example_param OSSL_PARAM_UTF8_STRING 4)) None
     = err_null_argument (Some (example_param OSSL_PARAM_UTF8_STRING 4))
   \<and> OSSL_PARAM_set_octet_string_or_ptr example_platform
       (Some (example_param OSSL_PARAM_INTEGER 4)) (Some (0x1000, [1, 2])) 2
     = err_bad_type (Some (example_param OSSL_PARAM_INTEGER 4))
   \<and> OSSL_PARAM_set_int64 example_platform (Some (example_param OSSL_PARAM_INTEGER 4)) (2 ^ 40)
     = err_out_of_range (Some ((example_param OSSL_PARAM_INTEGER 4)\<lparr>return_size := 0\<rparr>))"
  by (simp add: OSSL_PARAM_get_int32_def example_param_def example_platform_def
        load_word_def native_val_def le_val_zeros OSSL_PARAM_modified_def
        OSSL_PARAM_set_utf8_string_def OSSL_PARAM_set_octet_string_or_ptr_def
        OSSL_PARAM_set_int64_def map_state_def INT32_MIN_def INT32_MAX_def)

section \<open>Size queries\<close>

text \<open>
  C6, as the code has it. With \<^verbatim>\<open>data\<close> \<^verbatim>\<open>NULL\<close>, a setter whose descriptor type it
  accepts with the value given returns 1, leaves the descriptor otherwise untouched
  and sets \<^verbatim>\<open>return_size\<close>. The integer setters accept \<^verbatim>\<open>INTEGER\<close> and
  \<^verbatim>\<open>UNSIGNED_INTEGER\<close>, the signed ones \<^verbatim>\<open>UNSIGNED_INTEGER\<close> only with a value that
  is not negative, and report their width, 4 or 8; \<^verbatim>\<open>OSSL_PARAM_set_int32\<close>,
  \<^verbatim>\<open>OSSL_PARAM_set_uint32\<close> and \<^verbatim>\<open>OSSL_PARAM_set_int64\<close> accept \<^verbatim>\<open>REAL\<close> as well and
  report 8, the size of a \<^verbatim>\<open>double\<close>. The setters of the native integer types are
  the fixed-width setter of their width. The string setters, and
  \<^verbatim>\<open>OSSL_PARAM_set_octet_string_or_ptr\<close> on \<^verbatim>\<open>OCTET_STRING\<close>, report the length of
  the string. \<^verbatim>\<open>OSSL_PARAM_set_BN\<close> reports the byte count of the number, plus one
  for \<^verbatim>\<open>INTEGER\<close>, and at least one; it accepts \<^verbatim>\<open>UNSIGNED_INTEGER\<close> only with a
  number that is not negative. \<^verbatim>\<open>general_set_int\<close> and \<^verbatim>\<open>general_set_uint\<close> report
  the size of the caller's variable for every descriptor without a buffer. Nothing is
  said here of \<^verbatim>\<open>OSSL_PARAM_set_uint64\<close> on \<^verbatim>\<open>REAL\<close>.
\<close>

theorem size_query:
  assumes "data p = None"
  shows "(data_type p = OSSL_PARAM_INTEGER
            \<or> data_type p = OSSL_PARAM_UNSIGNED_INTEGER \<and> 0 \<le> sint v32 \<longrightarrow>
          OSSL_PARAM_set_int32 pl (Some p) v32 = ret1 (Some (p\<lparr>return_size := 4\<rparr>)))
       \<and> (data_type p = OSSL_PARAM_INTEGER \<or> data_type p = OSSL_PARAM_UNSIGNED_INTEGER \<longrightarrow>
          OSSL_PARAM_set_uint32 pl (Some p) v32 = ret1 (Some (p\<lparr>return_size := 4\<rparr>)))
       \<and> (data_type p = OSSL_PARAM_INTEGER
            \<or> data_type p = OSSL_PARAM_UNSIGNED_INTEGER \<and> 0 \<le> sint v64 \<longrightarrow>
          OSSL_PARAM_set_int64 pl (Some p) v64 = ret1 (Some (p\<lparr>return_size := 8\<rparr>)))
       \<and> (data_type p = OSSL_PARAM_INTEGER \<or> data_type p = OSSL_PARAM_UNSIGNED_INTEGER \<longrightarrow>
          OSSL_PARAM_set_uint64 pl (Some p) v64 = ret1 (Some (p\<lparr>return_size := 8\<rparr>)))
       \<and> (data_type p = OSSL_PARAM_UTF8_STRING \<and> strlen s = Some n \<longrightarrow>
          OSSL_PARAM_set_utf8_string (Some p) (Some s) = ret1 (Some (p\<lparr>return_size := n\<rparr>)))
       \<and> (data_type p = OSSL_PARAM_OCTET_STRING \<longrightarrow>
          OSSL_PARAM_set_octet_string (Some p) (Some s) len
            = ret1 (Some (p\<lparr>return_size := len\<rparr>)))
       \<and> (data_type p = OSSL_PARAM_INTEGER \<longrightarrow>
          OSSL_PARAM_set_BN bn (Some p) (Some b)
            = ret1 (Some (p\<lparr>return_size := BN_num_bytes bn b + 1\<rparr>)))
       \<and> (data_type p = OSSL_PARAM_UNSIGNED_INTEGER \<and> \<not> BN_is_negative bn b \<longrightarrow>
          OSSL_PARAM_set_BN bn (Some p) (Some b)
            = ret1 (Some (p\<lparr>return_size := max 1 (BN_num_bytes bn b)\<rparr>)))
       \<and> general_set_int be p val val_size = ret1 (p\<lparr>return_size := val_size\<rparr>)
       \<and> general_set_uint be p val val_size = ret1 (p\<lparr>return_size := val_size\<rparr>)
       \<and> (data_type p = OSSL_PARAM_REAL \<longrightarrow>
          OSSL_PARAM_set_int32 pl (Some p) v32 = ret1 (Some (p\<lparr>return_size := 8\<rparr>))
          \<and> OSSL_PARAM_set_uint32 pl (Some p) v32 = ret1 (Some (p\<lparr>return_size := 8\<rparr>))
          \<and> OSSL_PARAM_set_int64 pl (Some p) v64 = ret1 (Some (p\<lparr>return_size := 8\<rparr>)))
       \<and> (data_type p = OSSL_PARAM_OCTET_STRING \<longrightarrow>
          OSSL_PARAM_set_octet_string_or_ptr pl (Some p) (Some (a, s)) len
            = ret1 (Some (p\<lparr>return_size := len\<rparr>)))
       \<and> OSSL_PARAM_set_int pl (Some p) v32 = OSSL_PARAM_set_int32 pl (Some p) v32
       \<and> OSSL_PARAM_set_int pl (Some p) v64 = OSSL_PARAM_set_int64 pl (Some p) v64
       \<and> OSSL_PARAM_set_long pl (Some p) v32 = OSSL_PARAM_set_int32 pl (Some p) v32
       \<and> OSSL_PARAM_set_long pl (Some p) v64 = OSSL_PARAM_set_int64 pl (Some p) v64
       \<and> OSSL_PARAM_set_time_t pl (Some p) v32 = OSSL_PARAM_set_int32 pl (Some p) v32
       \<and> OSSL_PARAM_set_time_t pl (Some p) v64 = OSSL_PARAM_set_int64 pl (Some p) v64
       \<and> OSSL_PARAM_set_uint pl (Some p) v32 = OSSL_PARAM_set_uint32 pl (Some p) v32
       \<and> OSSL_PARAM_set_uint pl (Some p) v64 = OSSL_PARAM_set_uint64 pl (Some p) v64
       \<and> OSSL_PARAM_set_ulong pl (Some p) v32 = OSSL_PARAM_set_uint32 pl (Some p) v32
       \<and> OSSL_PARAM_set_ulong pl (Some p) v64 = OSSL_PARAM_set_uint64 pl (Some p) v64
       \<and> OSSL_PARAM_set_size_t pl (Some p) v32 = OSSL_PARAM_set_uint32 pl (Some p) v32
       \<and> OSSL_PARAM_set_size_t pl (Some p) v64 = OSSL_PARAM_set_uint64 pl (Some p) v64"
proof (intro conjI impI)
  show "OSSL_PARAM_set_int32 pl (Some p) v32 = ret1 (Some (p\<lparr>return_size := 4\<rparr>))"
    if "data_type p = OSSL_PARAM_INTEGER
        \<or> data_type p = OSSL_PARAM_UNSIGNED_INTEGER \<and> 0 \<le> sint v32"
    using that assms by (auto simp: OSSL_PARAM_set_int32_def map_state_def)
  show "OSSL_PARAM_set_uint32 pl (Some p) v32 = ret1 (Some (p\<lparr>return_size := 4\<rparr>))"
    if "data_type p = OSSL_PARAM_INTEGER \<or> data_type p = OSSL_PARAM_UNSIGNED_INTEGER"
    using that assms by (auto simp: OSSL_PARAM_set_uint32_def map_state_def)
  show "OSSL_PARAM_set_int64 pl (Some p) v64 = ret1 (Some (p\<lparr>return_size := 8\<rparr>))"
    if "data_type p = OSSL_PARAM_INTEGER
        \<or> data_type p = OSSL_PARAM_UNSIGNED_INTEGER \<and> 0 \<le> sint v64"
    using that assms by (auto simp: OSSL_PARAM_set_int64_def map_state_def)
  show "OSSL_PARAM_set_uint64 pl (Some p) v64 = ret1 (Some (p\<lparr>return_size := 8\<rparr>))"
    if "data_type p = OSSL_PARAM_INTEGER \<or> data_type p = OSSL_PARAM_UNSIGNED_INTEGER"
    using that assms by (auto simp: OSSL_PARAM_set_uint64_def map_state_def)
  show "OSSL_PARAM_set_utf8_string (Some p) (Some s) = ret1 (Some (p\<lparr>return_size := n\<rparr>))"
    if "data_type p = OSSL_PARAM_UTF8_STRING \<and> strlen s = Some n"
    using that assms
    by (simp add: OSSL_PARAM_set_utf8_string_def set_string_internal_def map_state_def)
  show "OSSL_PARAM_set_octet_string (Some p) (Some s) len
          = ret1 (Some (p\<lparr>return_size := len\<rparr>))"
    if "data_type p = OSSL_PARAM_OCTET_STRING"
    using that assms
    by (simp add: OSSL_PARAM_set_octet_string_def set_string_internal_def map_state_def)
  show "OSSL_PARAM_set_BN bn (Some p) (Some b)
          = ret1 (Some (p\<lparr>return_size := BN_num_bytes bn b + 1\<rparr>))"
    if "data_type p = OSSL_PARAM_INTEGER"
    using that assms by (simp add: OSSL_PARAM_set_BN_def map_state_def)
  show "OSSL_PARAM_set_BN bn (Some p) (Some b)
          = ret1 (Some (p\<lparr>return_size := max 1 (BN_num_bytes bn b)\<rparr>))"
    if "data_type p = OSSL_PARAM_UNSIGNED_INTEGER \<and> \<not> BN_is_negative bn b"
    using that assms by (simp add: OSSL_PARAM_set_BN_def map_state_def max_def)
  show "general_set_int be p val val_size = ret1 (p\<lparr>return_size := val_size\<rparr>)"
    using assms by (simp add: general_set_int_def)
  show "general_set_uint be p val val_size = ret1 (p\<lparr>return_size := val_size\<rparr>)"
    using assms by (simp add: general_set_uint_def)
  show "OSSL_PARAM_set_int32 pl (Some p) v32 = ret1 (Some (p\<lparr>return_size := 8\<rparr>))"
    if "data_type p = OSSL_PARAM_REAL"
    using that assms by (simp add: OSSL_PARAM_set_int32_def map_state_def sizeof_double_def)
  show "OSSL_PARAM_set_uint32 pl (Some p) v32 = ret1 (Some (p\<lparr>return_size := 8\<rparr>))"
    if "data_type p = OSSL_PARAM_REAL"
    using that assms by (simp add: OSSL_PARAM_set_uint32_def map_state_def sizeof_double_def)
  show "OSSL_PARAM_set_int64 pl (Some p) v64 = ret1 (Some (p\<lparr>return_size := 8\<rparr>))"
    if "data_type p = OSSL_PARAM_REAL"
    using that assms by (simp add: OSSL_PARAM_set_int64_def map_state_def sizeof_double_def)
  show "OSSL_PARAM_set_octet_string_or_ptr pl (Some p) (Some (a, s)) len
          = ret1 (Some (p\<lparr>return_size := len\<rparr>))"
    if "data_type p = OSSL_PARAM_OCTET_STRING"
    using that assms
    by (simp add: OSSL_PARAM_set_octet_string_or_ptr_def OSSL_PARAM_set_octet_string_def
          set_string_internal_def map_state_def)
qed (simp_all add: OSSL_PARAM_set_int_def OSSL_PARAM_set_long_def OSSL_PARAM_set_time_t_def
       OSSL_PARAM_set_uint_def OSSL_PARAM_set_ulong_def OSSL_PARAM_set_size_t_def)



theorem size_query_witness:
  "data ((example_param OSSL_PARAM_INTEGER 4)\<lparr>data := None\<rparr>) = None
   \<and> OSSL_PARAM_set_int32 example_platform
         (Some ((example_param OSSL_PARAM_INTEGER 4)\<lparr>data := None\<rparr>)) (- 5)
       = ret1 (Some ((example_param OSSL_PARAM_INTEGER 4)\<lparr>data := None, return_size := 4\<rparr>))
   \<and> OSSL_PARAM_set_BN example_bn
         (Some ((example_param OSSL_PARAM_INTEGER 4)\<lparr>data := None\<rparr>)) (Some 300)
       = ret1 (Some ((example_param OSSL_PARAM_INTEGER 4)\<lparr>data := None, return_size := 3\<rparr>))
   \<and> strlen [0x61, 0x62, 0x63, 0] = Some 3
   \<and> OSSL_PARAM_set_utf8_string
         (Some ((example_param OSSL_PARAM_UTF8_STRING 0)\<lparr>data := None\<rparr>))
         (Some [0x61, 0x62, 0x63, 0])
       = ret1 (Some ((example_param OSSL_PARAM_UTF8_STRING 0)\<lparr>data := None, return_size := 3\<rparr>))
   \<and> data_type ((example_param OSSL_PARAM_REAL 8)\<lparr>data := None\<rparr>) = OSSL_PARAM_REAL
   \<and> OSSL_PARAM_set_int32 example_platform
         (Some ((example_param OSSL_PARAM_REAL 8)\<lparr>data := None\<rparr>)) (- 5)
       = ret1 (Some ((example_param OSSL_PARAM_REAL 8)\<lparr>data := None, return_size := 8\<rparr>))
   \<and> \<not> BN_is_negative example_bn 0
   \<and> OSSL_PARAM_set_BN example_bn
         (Some ((example_param OSSL_PARAM_UNSIGNED_INTEGER 4)\<lparr>data := None\<rparr>)) (Some 0)
       = ret1 (Some ((example_param OSSL_PARAM_UNSIGNED_INTEGER 4)\<lparr>data := None,
                       return_size := 1\<rparr>))"
proof -
  let ?i = "(example_param OSSL_PARAM_INTEGER 4)\<lparr>data := None\<rparr>"
  let ?u = "(example_param OSSL_PARAM_UNSIGNED_INTEGER 4)\<lparr>data := None\<rparr>"
  let ?s = "(example_param OSSL_PARAM_UTF8_STRING 0)\<lparr>data := None\<rparr>"
  let ?r = "(example_param OSSL_PARAM_REAL 8)\<lparr>data := None\<rparr>"
  have d: "data ?i = None" "data ?u = None" "data ?s = None" "data ?r = None" by simp_all
  have tr: "data_type ?r = OSSL_PARAM_REAL" by (simp add: example_param_def)
  have t: "data_type ?i = OSSL_PARAM_INTEGER" "data_type ?u = OSSL_PARAM_UNSIGNED_INTEGER"
    "data_type ?s = OSSL_PARAM_UTF8_STRING"
    by (simp_all add: example_param_def)
  have l: "strlen [0x61, 0x62, 0x63, 0] = Some 3" by simp
  have b: "BN_num_bytes example_bn 300 + 1 = 3" "max 1 (BN_num_bytes example_bn 0) = 1"
    "\<not> BN_is_negative example_bn 0"
    by (simp_all add: example_bn_def num_bytes.simps)
  from size_query [where ?v32.0 = "- 5" and pl = example_platform
                     and bn = example_bn and b = 300, OF d(1)] t(1) b(1)
  have one: "OSSL_PARAM_set_int32 example_platform (Some ?i) (- 5)
               = ret1 (Some (?i\<lparr>return_size := 4\<rparr>))
             \<and> OSSL_PARAM_set_BN example_bn (Some ?i) (Some 300)
               = ret1 (Some (?i\<lparr>return_size := 3\<rparr>))"
    by simp
  from size_query [where bn = example_bn and b = 0, OF d(2)] t(2) b(2,3)
  have two: "OSSL_PARAM_set_BN example_bn (Some ?u) (Some 0)
               = ret1 (Some (?u\<lparr>return_size := 1\<rparr>))"
    by simp
  from size_query [where s = "[0x61, 0x62, 0x63, 0]" and n = 3, OF d(3)] t(3) l
  have three: "OSSL_PARAM_set_utf8_string (Some ?s) (Some [0x61, 0x62, 0x63, 0])
               = ret1 (Some (?s\<lparr>return_size := 3\<rparr>))"
    by simp
  from size_query [where ?v32.0 = "- 5" and pl = example_platform, OF d(4)] tr
  have four: "OSSL_PARAM_set_int32 example_platform (Some ?r) (- 5)
               = ret1 (Some (?r\<lparr>return_size := 8\<rparr>))"
    by simp
  from one two three four tr d(1) l b(3) show ?thesis by simp
qed


text \<open>
  The claim that every setter answers a size query with success fails for a negative
  value and an \<^verbatim>\<open>UNSIGNED_INTEGER\<close> descriptor: \<^verbatim>\<open>OSSL_PARAM_set_int32\<close> returns 0.
\<close>

theorem size_query_counterexample:
  "data ((example_param OSSL_PARAM_UNSIGNED_INTEGER 4)\<lparr>data := None\<rparr>) = None
   \<and> OSSL_PARAM_set_int32 example_platform
         (Some ((example_param OSSL_PARAM_UNSIGNED_INTEGER 4)\<lparr>data := None\<rparr>)) (- 1)
       = err_bad_type
           (Some ((example_param OSSL_PARAM_UNSIGNED_INTEGER 4)\<lparr>data := None, return_size := 0\<rparr>))"
  by (simp add: OSSL_PARAM_set_int32_def map_state_def example_param_def)


section \<open>Termination of extracted strings\<close>

lemma strnlen_no_nul:
  "n \<le> length src \<Longrightarrow> 0 \<notin> set (take n src) \<Longrightarrow> OPENSSL_strnlen src n = Some n"
proof (induction src n rule: OPENSSL_strnlen.induct)
  case (1 str)
  then show ?case by simp
next
  case (2 maxlen)
  then show ?case by simp
next
  case (3 b bs maxlen)
  then show ?case by auto
qed

text \<open>
  C7. Let a \<^verbatim>\<open>UTF8_STRING\<close> descriptor hold a string of length \<open>L\<close>: \<^verbatim>\<open>data_size\<close> is
  \<open>L\<close> and none of the first \<open>L\<close> bytes of \<^verbatim>\<open>data\<close> is NUL. Then
  \<^verbatim>\<open>OSSL_PARAM_get_utf8_string\<close> into a caller's buffer of capacity \<open>L + 1\<close> returns 1,
  the buffer then holds the \<open>L\<close> bytes of the string and a NUL at index \<open>L\<close>; into a
  buffer of capacity \<open>L\<close> it returns 0 and raises
  \<^verbatim>\<open>CRYPTO_R_NO_SPACE_FOR_TERMINATING_NULL\<close>, after the string has been copied.
\<close>

theorem get_utf8_string_terminator:
  assumes "data_type p = OSSL_PARAM_UTF8_STRING" and "data p = Some src"
    and "data_size p = L" and "L \<le> length src" and "0 \<notin> set (take L src)"
  shows "(length buf = L + 1 \<longrightarrow>
            (\<exists>b. OSSL_PARAM_get_utf8_string malloc (Some p) (Some (Some buf)) (L + 1)
                   = ret1 (Some (Some b))
                 \<and> length b = L + 1 \<and> take L b = take L src \<and> b ! L = 0))
       \<and> (length buf = L \<longrightarrow>
            OSSL_PARAM_get_utf8_string malloc (Some p) (Some (Some buf)) L
              = Defined (0, [CRYPTO_R_NO_SPACE_FOR_TERMINATING_NULL], Some (Some (take L src))))"
proof (intro conjI impI)
  assume len: "length buf = L + 1"
  let ?b = "take L src @ drop L buf"
  have g: "get_string_internal malloc (Some p) (Some (Some buf)) (L + 1) None
             OSSL_PARAM_UTF8_STRING = ret1 (Some (Some ?b), L + 1, None)"
    using assms len by (simp add: get_string_internal_def memcpy_at_def)
  have lb: "length ?b = L + 1" using assms len by simp
  have "OSSL_PARAM_get_utf8_string malloc (Some p) (Some (Some buf)) (L + 1)
          = ret1 (Some (Some (?b[L := 0])))"
    unfolding OSSL_PARAM_get_utf8_string_def g
    using assms lb by (simp add: write_at_def)
  moreover have "length (?b[L := 0]) = L + 1" using lb by simp
  moreover have "take L (?b[L := 0]) = take L src" using assms by simp
  moreover have "?b[L := 0] ! L = 0" using lb by simp
  ultimately show "\<exists>b. OSSL_PARAM_get_utf8_string malloc (Some p) (Some (Some buf)) (L + 1)
                   = ret1 (Some (Some b))
                 \<and> length b = L + 1 \<and> take L b = take L src \<and> b ! L = 0"
    by blast
next
  assume len: "length buf = L"
  have g: "get_string_internal malloc (Some p) (Some (Some buf)) L None
             OSSL_PARAM_UTF8_STRING = ret1 (Some (Some (take L src)), L, None)"
    using assms len by (simp add: get_string_internal_def memcpy_at_def)
  have s: "OPENSSL_strnlen src L = Some L"
    using assms by (simp add: strnlen_no_nul)
  show "OSSL_PARAM_get_utf8_string malloc (Some p) (Some (Some buf)) L
          = Defined (0, [CRYPTO_R_NO_SPACE_FOR_TERMINATING_NULL], Some (Some (take L src)))"
    unfolding OSSL_PARAM_get_utf8_string_def g
    using assms s by simp
qed


theorem get_utf8_string_terminator_witness:
  "data_type ((example_param OSSL_PARAM_UTF8_STRING 2)\<lparr>data := Some [0x68, 0x69]\<rparr>)
     = OSSL_PARAM_UTF8_STRING
   \<and> 0 \<notin> set (take 2 [0x68, 0x69 :: byte])
   \<and> (\<exists>b. OSSL_PARAM_get_utf8_string (\<lambda>n. None)
            (Some ((example_param OSSL_PARAM_UTF8_STRING 2)\<lparr>data := Some [0x68, 0x69]\<rparr>))
            (Some (Some [1, 1, 1])) (2 + 1) = ret1 (Some (Some b))
          \<and> length b = 2 + 1 \<and> take 2 b = take 2 [0x68, 0x69] \<and> b ! 2 = 0)
   \<and> OSSL_PARAM_get_utf8_string (\<lambda>n. None)
         (Some ((example_param OSSL_PARAM_UTF8_STRING 2)\<lparr>data := Some [0x68, 0x69]\<rparr>))
         (Some (Some [1, 1])) 2
       = Defined (0, [CRYPTO_R_NO_SPACE_FOR_TERMINATING_NULL], Some (Some (take 2 [0x68, 0x69])))"
proof -
  let ?p = "(example_param OSSL_PARAM_UTF8_STRING 2)\<lparr>data := Some [0x68, 0x69]\<rparr>"
  have h: "data_type ?p = OSSL_PARAM_UTF8_STRING" "data ?p = Some [0x68, 0x69]"
    "data_size ?p = 2" "2 \<le> length [0x68, 0x69 :: byte]"
    "0 \<notin> set (take 2 [0x68, 0x69 :: byte])"
    by (simp_all add: example_param_def)
  have l: "length [1, 1, 1 :: byte] = 2 + 1" "length [1, 1 :: byte] = 2" by simp_all
  from get_utf8_string_terminator [OF h, of "[1, 1, 1]" "\<lambda>n. None"] l(1)
  have a: "\<exists>b. OSSL_PARAM_get_utf8_string (\<lambda>n. None) (Some ?p) (Some (Some [1, 1, 1])) (2 + 1)
             = ret1 (Some (Some b))
          \<and> length b = 2 + 1 \<and> take 2 b = take 2 [0x68, 0x69] \<and> b ! 2 = 0"
    by blast
  from get_utf8_string_terminator [OF h, of "[1, 1]" "\<lambda>n. None"] l(2)
  have b: "OSSL_PARAM_get_utf8_string (\<lambda>n. None) (Some ?p) (Some (Some [1, 1])) 2
       = Defined (0, [CRYPTO_R_NO_SPACE_FOR_TERMINATING_NULL], Some (Some (take 2 [0x68, 0x69])))"
    by blast
  from a b h(1) h(5) show ?thesis by blast
qed

section \<open>Edge cases of concatenation\<close>

lemma null_sink_memcpy:
  "staticbuf pkt = None \<Longrightarrow>
   WPACKET_memcpy pkt src len =
     (if maxsize pkt - written pkt < len then Defined None
      else Defined (Some (pkt\<lparr>written := written pkt + len\<rparr>)))"
  by (simp add: WPACKET_memcpy_def)

lemma setbuf_loop_wrong_type:
  "i < n \<Longrightarrow> i < length ps \<Longrightarrow> data_type (ps ! i) \<noteq> OSSL_PARAM_OCTET_STRING \<Longrightarrow>
   staticbuf pkt = None \<Longrightarrow> \<exists>pkt'. setbuf_loop n ps pkt = Defined (False, pkt')"
proof (induction ps arbitrary: i n pkt)
  case Nil
  then show ?case by simp
next
  case (Cons p ps)
  from Cons.prems(1) obtain m where n: "n = Suc m" by (cases n) auto
  show ?case
  proof (cases "data_type p = OSSL_PARAM_OCTET_STRING")
    case False
    then show ?thesis by (simp add: n)
  next
    case True
    with Cons.prems obtain j where j: "i = Suc j" by (cases i) auto
    with Cons.prems n have jp: "j < m" "j < length ps"
      "data_type (ps ! j) \<noteq> OSSL_PARAM_OCTET_STRING"
      by simp_all
    have rest: "\<And>pk. staticbuf pk = None \<Longrightarrow> \<exists>pkt'. setbuf_loop m ps pk = Defined (False, pkt')"
      using Cons.IH [OF jp] .
    show ?thesis
    proof (cases "data p")
      case None
      with True rest [OF Cons.prems(4)] show ?thesis by (simp add: n)
    next
      case (Some src)
      show ?thesis
      proof (cases "data_size p = 0")
        case True
        with \<open>data_type p = OSSL_PARAM_OCTET_STRING\<close> Some rest [OF Cons.prems(4)]
        show ?thesis by (simp add: n)
      next
        case nz: False
        show ?thesis
        proof (cases "maxsize pkt - written pkt < data_size p")
          case True
          then have "WPACKET_memcpy pkt src (data_size p) = Defined None"
            using Cons.prems(4) by (simp add: null_sink_memcpy)
          with \<open>data_type p = OSSL_PARAM_OCTET_STRING\<close> Some nz show ?thesis
            by (simp add: n)
        next
          case False
          let ?pkt = "pkt\<lparr>written := written pkt + data_size p\<rparr>"
          have m: "WPACKET_memcpy pkt src (data_size p) = Defined (Some ?pkt)"
            using False Cons.prems(4) by (simp add: null_sink_memcpy)
          have "staticbuf ?pkt = None" using Cons.prems(4) by simp
          from rest [OF this] \<open>data_type p = OSSL_PARAM_OCTET_STRING\<close> Some nz m
          show ?thesis by (simp add: n)
        qed
      qed
    qed
  qed
qed

lemma setbuf_loop_null_total:
  "n \<le> length ps \<Longrightarrow> \<forall>q \<in> set (take n ps). data_type q = OSSL_PARAM_OCTET_STRING \<Longrightarrow>
   staticbuf pkt = None \<Longrightarrow>
   written pkt + sum_list (map octets (take n ps)) \<le> maxsize pkt \<Longrightarrow>
   setbuf_loop n ps pkt
     = Defined (True, pkt\<lparr>written := written pkt + sum_list (map octets (take n ps))\<rparr>)"
proof (induction ps arbitrary: n pkt)
  case Nil
  then show ?case by simp
next
  case (Cons p ps)
  show ?case
  proof (cases n)
    case 0
    then show ?thesis by simp
  next
    case (Suc m)
    with Cons.prems have t: "data_type p = OSSL_PARAM_OCTET_STRING"
      and m: "m \<le> length ps" "\<forall>q \<in> set (take m ps). data_type q = OSSL_PARAM_OCTET_STRING"
      by simp_all
    show ?thesis
    proof (cases "data p")
      case None
      then have o: "octets p = 0" by (simp add: octets_def)
      from Cons.prems Suc o
      have "written pkt + sum_list (map octets (take m ps)) \<le> maxsize pkt" by simp
      from Cons.IH [OF m Cons.prems(3) this] t None o Suc show ?thesis by simp
    next
      case (Some src)
      then have o: "octets p = data_size p" by (simp add: octets_def)
      show ?thesis
      proof (cases "data_size p = 0")
        case True
        from Cons.prems Suc o True
        have "written pkt + sum_list (map octets (take m ps)) \<le> maxsize pkt" by simp
        from Cons.IH [OF m Cons.prems(3) this] t Some o Suc True show ?thesis by simp
      next
        case False
        let ?pkt = "pkt\<lparr>written := written pkt + data_size p\<rparr>"
        from Cons.prems Suc o
        have fit: "written pkt + data_size p + sum_list (map octets (take m ps)) \<le> maxsize pkt"
          by simp
        then have mc: "WPACKET_memcpy pkt src (data_size p) = Defined (Some ?pkt)"
          using Cons.prems(3) by (simp add: null_sink_memcpy)
        have "staticbuf ?pkt = None" using Cons.prems(3) by simp
        moreover have "written ?pkt + sum_list (map octets (take m ps)) \<le> maxsize ?pkt"
          using fit by simp
        ultimately have "setbuf_loop m ps ?pkt
            = Defined (True, ?pkt\<lparr>written := written ?pkt + sum_list (map octets (take m ps))\<rparr>)"
          using Cons.IH [OF m] by blast
        with t Some o Suc False mc show ?thesis by (simp add: add.assoc)
      qed
    qed
  qed
qed


lemma setbuf_fromparams_wrong_type:
  assumes "i < n" "i < length ps" "data_type (ps ! i) \<noteq> OSSL_PARAM_OCTET_STRING"
  shows "\<exists>sink. setbuf_fromparams n ps None sz = Defined (0, [], (sink, sz))"
proof -
  let ?pkt = "\<lparr>staticbuf = None, maxsize = SIZE_MAX, written = 0\<rparr>"
  have "staticbuf ?pkt = None" by simp
  from setbuf_loop_wrong_type [OF assms this]
  obtain pkt' where l: "setbuf_loop n ps ?pkt = Defined (False, pkt')" by blast
  then show ?thesis
    by (simp add: setbuf_fromparams_def WPACKET_init_null_def)
qed

lemma setbuf_fromparams_null_total:
  assumes "n \<le> length ps" "\<forall>q \<in> set (take n ps). data_type q = OSSL_PARAM_OCTET_STRING"
    and "sum_list (map octets (take n ps)) \<le> SIZE_MAX"
  shows "setbuf_fromparams n ps None sz
         = Defined (1, [], (None, sum_list (map octets (take n ps))))"
proof -
  let ?pkt = "\<lparr>staticbuf = None, maxsize = SIZE_MAX, written = 0\<rparr>"
  have "setbuf_loop n ps ?pkt
        = Defined (True, ?pkt\<lparr>written := written ?pkt + sum_list (map octets (take n ps))\<rparr>)"
    using assms by (intro setbuf_loop_null_total) simp_all
  then show ?thesis
    by (simp add: setbuf_fromparams_def WPACKET_init_null_def WPACKET_get_total_written_def
          WPACKET_finish_def)
qed

text \<open>
  C8, as the code has it. \<^verbatim>\<open>ossl_param_get1_concat_octet_string\<close> with \<^verbatim>\<open>n = 0\<close>
  returns 1 at once: it leaves \<^verbatim>\<open>*out\<close> and \<^verbatim>\<open>*out_len\<close> as they were and calls no
  allocator. With \<^verbatim>\<open>n > 0\<close> octet-string descriptors of total length 0 and a
  successful allocation it returns 1, releases the previous \<^verbatim>\<open>*out\<close> and hands out a
  fresh zeroed block of one byte with \<^verbatim>\<open>*out_len = 0\<close>. When one of the \<open>n\<close>
  descriptors is not of type \<^verbatim>\<open>OCTET_STRING\<close> it returns 0, calls no allocator and
  leaves \<^verbatim>\<open>*out\<close> and \<^verbatim>\<open>*out_len\<close> as they were.
\<close>

theorem concat_octet_string_edge_cases:
  "ossl_param_get1_concat_octet_string malloc 0 params out out_len = ret1 (out, out_len, [])
   \<and> (0 < n \<and> n \<le> length params
        \<and> (\<forall>q \<in> set (take n params). data_type q = OSSL_PARAM_OCTET_STRING)
        \<and> sum_list (map octets (take n params)) = 0 \<and> malloc 1 = Some fresh
      \<longrightarrow> ossl_param_get1_concat_octet_string malloc n params out out_len
            = Defined (1, [], (Some [0], 0, [OPENSSL_zalloc 1, OPENSSL_clear_free out out_len])))
   \<and> (i < n \<and> i < length params \<and> data_type (params ! i) \<noteq> OSSL_PARAM_OCTET_STRING
      \<longrightarrow> ossl_param_get1_concat_octet_string malloc n params out out_len
            = Defined (0, [], (out, out_len, [])))"
proof (intro conjI impI)
  show "ossl_param_get1_concat_octet_string malloc 0 params out out_len = ret1 (out, out_len, [])"
    by (simp add: ossl_param_get1_concat_octet_string_def)
next
  assume a: "0 < n \<and> n \<le> length params
        \<and> (\<forall>q \<in> set (take n params). data_type q = OSSL_PARAM_OCTET_STRING)
        \<and> sum_list (map octets (take n params)) = 0 \<and> malloc 1 = Some fresh"
  then have z: "sum_list (map octets (take n params)) = 0" by blast
  from a have "setbuf_fromparams n params None 0
         = Defined (1, [], (None, sum_list (map octets (take n params))))"
    by (intro setbuf_fromparams_null_total) (simp_all only: z, simp_all)
  with a show "ossl_param_get1_concat_octet_string malloc n params out out_len
            = Defined (1, [], (Some [0], 0, [OPENSSL_zalloc 1, OPENSSL_clear_free out out_len]))"
    by (simp add: ossl_param_get1_concat_octet_string_def)
next
  assume a: "i < n \<and> i < length params \<and> data_type (params ! i) \<noteq> OSSL_PARAM_OCTET_STRING"
  then obtain sink where "setbuf_fromparams n params None 0 = Defined (0, [], (sink, 0))"
    using setbuf_fromparams_wrong_type [of i n params 0] by blast
  with a show "ossl_param_get1_concat_octet_string malloc n params out out_len
            = Defined (0, [], (out, out_len, []))"
    by (auto simp: ossl_param_get1_concat_octet_string_def)
qed

theorem concat_octet_string_edge_cases_witness:
  "sum_list (map octets (take 2 [example_param OSSL_PARAM_OCTET_STRING 0,
       (example_param OSSL_PARAM_OCTET_STRING 5)\<lparr>data := None\<rparr>])) = 0
   \<and> ossl_param_get1_concat_octet_string (\<lambda>n. Some (replicate n 0xAA)) 2
         [example_param OSSL_PARAM_OCTET_STRING 0,
          (example_param OSSL_PARAM_OCTET_STRING 5)\<lparr>data := None\<rparr>] None 0
       = Defined (1, [], (Some [0], 0, [OPENSSL_zalloc 1, OPENSSL_clear_free None 0]))
   \<and> data_type ([example_param OSSL_PARAM_OCTET_STRING 2, example_param OSSL_PARAM_INTEGER 4] ! 1)
       \<noteq> OSSL_PARAM_OCTET_STRING
   \<and> ossl_param_get1_concat_octet_string (\<lambda>n. Some (replicate n 0xAA)) 2
         [example_param OSSL_PARAM_OCTET_STRING 2, example_param OSSL_PARAM_INTEGER 4] None 0
       = Defined (0, [], (None, 0, []))"
proof -
  let ?z = "[example_param OSSL_PARAM_OCTET_STRING 0,
             (example_param OSSL_PARAM_OCTET_STRING 5)\<lparr>data := None\<rparr>]"
  let ?w = "[example_param OSSL_PARAM_OCTET_STRING 2, example_param OSSL_PARAM_INTEGER 4]"
  let ?m = "\<lambda>n :: nat. Some (replicate n (0xAA :: byte))"
  have s: "sum_list (map octets (take 2 ?z)) = 0"
    by (simp add: octets_def example_param_def)
  have h: "0 < (2 :: nat) \<and> 2 \<le> length ?z
        \<and> (\<forall>q \<in> set (take 2 ?z). data_type q = OSSL_PARAM_OCTET_STRING)
        \<and> sum_list (map octets (take 2 ?z)) = 0 \<and> ?m 1 = Some [0xAA]"
    by (simp add: octets_def example_param_def)
  have t: "data_type (?w ! 1) \<noteq> OSSL_PARAM_OCTET_STRING" by (simp add: example_param_def)
  then have g: "(1 :: nat) < 2 \<and> 1 < length ?w \<and> data_type (?w ! 1) \<noteq> OSSL_PARAM_OCTET_STRING"
    by simp
  from concat_octet_string_edge_cases [of ?m ?z None 0 2 "[0xAA]"] h
  have a: "ossl_param_get1_concat_octet_string ?m 2 ?z None 0
       = Defined (1, [], (Some [0], 0, [OPENSSL_zalloc 1, OPENSSL_clear_free None 0]))"
    by blast
  from concat_octet_string_edge_cases [of ?m ?w None 0 2 _ 1] g
  have b: "ossl_param_get1_concat_octet_string ?m 2 ?w None 0 = Defined (0, [], (None, 0, []))"
    by blast
  from s a t b show ?thesis by blast
qed

text \<open>
  The claim that concatenating zero descriptors yields a zero-length output fails
  when the caller's \<^verbatim>\<open>*out_len\<close> was not zero: the call succeeds and the three bytes
  of the previous output are still there.
\<close>

theorem concat_zero_descriptors_counterexample:
  "ossl_param_get1_concat_octet_string (\<lambda>n. Some (replicate n 0)) 0 [] (Some [1, 2, 3]) 3
     = ret1 (Some [1, 2, 3], 3, [])"
  by (simp add: ossl_param_get1_concat_octet_string_def)



end
